theory Spec2Isabelle
  imports Complex_Main "HOL-Library.Monad_Syntax"
begin

section \<open>Conventions of the embedding\<close>

text \<open>
  The C++ sources are embedded function by function. A \<open>double\<close> is idealised as a
  \<^typ>\<open>real\<close>: rounding, infinities and NaN are outside the model.

  \<open>Index\<close> and \<open>Dimension\<close> are declared in \<open>linop.h\<close>, which is not among the sources;
  the call \<open>std::min(nlin(),5U)\<close> of symmatrix.h fixes \<open>Dimension\<close> as \<open>unsigned int\<close>,
  a 32-bit unsigned integer, and \<open>Index\<close> is taken to be the same type. Dimensions and
  subscripts are natural numbers below \<open>2^32\<close>, and the sums and products that
  \<open>SymMatrix\<close> forms of them for the size and the subscript of its buffer are reduced
  modulo \<open>2^32\<close>, by \<open>u32\<close>. The other sums and differences of subscripts and counts
  in the sources stay below \<open>2^32\<close> when the dimensions do, and are written on natural
  numbers. A subscript outside the buffer is undefined behaviour in the source; the
  model then reads \<open>xs ! k\<close> with \<open>k\<close> beyond the list, of which nothing is known.

  A failed \<open>om_assert\<close> and a call of \<open>front()\<close> on an empty container end the run; a
  function that can reach one returns an \<^typ>\<open>'a option\<close>, with \<^term>\<open>None\<close> for the
  aborted run. A range-for loop over a container is \<open>for_each\<close>: it threads the loop
  state through the body and stops at the first aborted iteration.
\<close>

fun for_each :: "'a list \<Rightarrow> ('a \<Rightarrow> 's \<Rightarrow> 's option) \<Rightarrow> 's \<Rightarrow> 's option" where
  "for_each [] body s = Some s"
| "for_each (x # xs) body s = Option.bind (body x s) (for_each xs body)"

definition u32 :: "nat \<Rightarrow> nat" where
  "u32 n = n mod 4294967296"

section \<open>Packed symmetric matrix (symmatrix.h)\<close>

text \<open>
  \<open>SymMatrix\<close> holds its dimension \<open>nlin()\<close> and the buffer \<open>data()\<close> of \<open>size()\<close>
  doubles; \<open>size()\<close> returns \<open>nlin()*(nlin()+1)/2\<close>, computed in \<open>Dimension\<close>.
\<close>

record SymMatrix =
  nlin :: nat
  data :: "real list"

definition SymMatrix_size :: "SymMatrix \<Rightarrow> nat" where
  "SymMatrix_size M = u32 (nlin M * u32 (nlin M + 1)) div 2"

text \<open>
  The constructor \<open>SymMatrix(Dimension N)\<close> allocates \<open>size()\<close> doubles and leaves them
  uninitialised: \<open>junk\<close> stands for whatever the fresh buffer holds.
\<close>

definition SymMatrix_alloc :: "(nat \<Rightarrow> real) \<Rightarrow> nat \<Rightarrow> SymMatrix" where
  "SymMatrix_alloc junk N = \<lparr>nlin = N, data = map junk [0..<u32 (N * u32 (N + 1)) div 2]\<rparr>"

text \<open>
  The subscript of \<open>data()\<close> computed by both overloads of \<open>operator()(i,j)\<close>:
  \<open>(i<=j) ? i+j*(j+1)/2 : j+i*(i+1)/2\<close>, in \<open>Index\<close>.
\<close>

definition packed_index :: "nat \<Rightarrow> nat \<Rightarrow> nat" where
  "packed_index i j =
     (if i \<le> j then u32 (i + u32 (j * u32 (j + 1)) div 2)
      else u32 (j + u32 (i * u32 (i + 1)) div 2))"

text \<open>\<open>double operator()(i,j) const\<close>: two assertions, then the read.\<close>

definition SymMatrix_at :: "SymMatrix \<Rightarrow> nat \<Rightarrow> nat \<Rightarrow> real option" where
  "SymMatrix_at M i j =
     (if \<not> i < nlin M then None
      else if \<not> j < nlin M then None
      else Some (data M ! packed_index i j))"

text \<open>\<open>double& operator()(i,j)\<close> followed by an assignment through the reference.\<close>

definition SymMatrix_assign :: "SymMatrix \<Rightarrow> nat \<Rightarrow> nat \<Rightarrow> real \<Rightarrow> SymMatrix option" where
  "SymMatrix_assign M i j x =
     (if \<not> i < nlin M then None
      else if \<not> j < nlin M then None
      else Some (M\<lparr>data := (data M)[packed_index i j := x]\<rparr>))"

text \<open>\<open>void set(double x)\<close>: the loop over the \<open>size()\<close> cells of the buffer.\<close>

definition SymMatrix_set :: "SymMatrix \<Rightarrow> real \<Rightarrow> SymMatrix" where
  "SymMatrix_set M x =
     M\<lparr>data := foldl (\<lambda>d i. d[i := x]) (data M) [0..<SymMatrix_size M]\<rparr>"

text \<open>
  \<open>SymMatrix submat(istart,iend) const\<close>: the two assertions, the allocation of the
  result and the double loop, whose body is \<open>mat(i,j) = (*this)(i,j)\<close>.
\<close>

definition SymMatrix_submat :: "(nat \<Rightarrow> real) \<Rightarrow> SymMatrix \<Rightarrow> nat \<Rightarrow> nat \<Rightarrow> SymMatrix option" where
  "SymMatrix_submat junk M istart iend =
     (if \<not> iend > istart then None
      else let isize = iend - istart + 1 in
        if \<not> istart + isize \<le> nlin M then None
        else for_each [istart..<Suc iend]
               (\<lambda>i mat. for_each [i..<Suc iend]
                  (\<lambda>j mat. do { x \<leftarrow> SymMatrix_at M i j; SymMatrix_assign mat i j x }) mat)
               (SymMatrix_alloc junk isize))"

text \<open>The class invariant: the buffer has \<open>size()\<close> cells.\<close>

definition SymMatrix_wf :: "SymMatrix \<Rightarrow> bool" where
  "SymMatrix_wf M \<longleftrightarrow> length (data M) = SymMatrix_size M"


section \<open>Meshes (consumed from the geometry)\<close>

text \<open>
  The classes \<open>Vect3\<close>, \<open>Vertex\<close>, \<open>Triangle\<close> and \<open>Mesh\<close> are declared outside the
  sources; the records hold what the operators read from them. Two vertices compare equal
  (\<open>V1==V2\<close>) when the records are equal, and so do two meshes (\<open>mesh1==mesh2\<close>,
  \<open>&mesh1==&mesh2\<close>).
\<close>

type_synonym Vect3 = "real \<times> real \<times> real"

definition dotprod :: "Vect3 \<Rightarrow> Vect3 \<Rightarrow> real" where
  "dotprod a b = fst a * fst b + fst (snd a) * fst (snd b) + snd (snd a) * snd (snd b)"

definition vect_minus :: "Vect3 \<Rightarrow> Vect3 \<Rightarrow> Vect3" where
  "vect_minus a b = (fst a - fst b, fst (snd a) - fst (snd b), snd (snd a) - snd (snd b))"

text \<open>\<open>v(i)\<close> for a \<open>Vect3\<close>.\<close>

definition coord :: "Vect3 \<Rightarrow> nat \<Rightarrow> real" where
  "coord v i = (if i = 0 then fst v else if i = 1 then fst (snd v) else snd (snd v))"

record Vertex =
  position :: Vect3
  v_index :: nat

record Triangle =
  tv0 :: Vertex
  tv1 :: Vertex
  tv2 :: Vertex
  t_index :: nat
  area :: real

definition vertex :: "Triangle \<Rightarrow> nat \<Rightarrow> Vertex" where
  "vertex T i = (if i = 0 then tv0 T else if i = 1 then tv1 T else tv2 T)"

definition contains :: "Triangle \<Rightarrow> Vertex \<Rightarrow> bool" where
  "contains T V \<longleftrightarrow> V = tv0 T \<or> V = tv1 T \<or> V = tv2 T"

text \<open>
  Modelled from the spec: \<open>Triangle::edge(V)\<close>, the edge opposite \<open>V\<close> in the triangle,
  as the pair of its end points, taken in the cyclic order of the triangle.
\<close>

definition edge :: "Triangle \<Rightarrow> Vertex \<Rightarrow> Vertex \<times> Vertex" where
  "edge T V =
     (if V = tv0 T then (tv1 T, tv2 T)
      else if V = tv1 T then (tv2 T, tv0 T)
      else (tv0 T, tv1 T))"

record Mesh =
  vertices :: "Vertex list"
  triangles :: "Triangle list"
  outermost :: bool
  current_barrier :: bool

text \<open>
  Modelled from the spec: \<open>Mesh::triangles(V)\<close>, the triangles of the mesh incident to
  \<open>V\<close>, in the order of the mesh.
\<close>

definition triangles_of :: "Mesh \<Rightarrow> Vertex \<Rightarrow> Triangle list" where
  "triangles_of m V = filter (\<lambda>T. contains T V) (triangles m)"

text \<open>
  \<open>integrator.h\<close> and \<open>analytics.h\<close> are not among the sources. \<open>integrate_S intg T1 T2\<close>
  is the value of \<open>integrator.integrate(Sfunc,T2)\<close> for the kernel \<open>analyticS(T1)\<close>, and
  \<open>integrate_D intg T1 T2\<close> the value of \<open>integrator.integrate(Dfunc,T1)\<close> for the kernel
  \<open>analyticD3(T2)\<close>.
\<close>

record Integrator =
  integrate_S :: "Triangle \<Rightarrow> Triangle \<Rightarrow> real"
  integrate_D :: "Triangle \<Rightarrow> Triangle \<Rightarrow> Vect3"

section \<open>Dense matrix and the matrix-like sinks of the operators\<close>

text \<open>
  Modelled from the spec: the dense \<open>Matrix\<close> (\<open>matrix.h\<close> is not among the sources), a
  rectangular store of \<open>nlin \<times> ncol\<close> doubles whose accessor checks both subscripts as
  the accessor of \<open>SymMatrix\<close> does. The layout of the buffer is left open.
\<close>

record Matrix =
  m_nlin :: nat
  m_ncol :: nat
  m_cells :: "nat \<Rightarrow> nat \<Rightarrow> real"

definition Matrix_alloc :: "(nat \<Rightarrow> real) \<Rightarrow> nat \<Rightarrow> nat \<Rightarrow> Matrix" where
  "Matrix_alloc junk n m = \<lparr>m_nlin = n, m_ncol = m, m_cells = (\<lambda>i j. junk (i + n * j))\<rparr>"

definition Matrix_at :: "Matrix \<Rightarrow> nat \<Rightarrow> nat \<Rightarrow> real option" where
  "Matrix_at M i j = (if i < m_nlin M \<and> j < m_ncol M then Some (m_cells M i j) else None)"

definition Matrix_assign :: "Matrix \<Rightarrow> nat \<Rightarrow> nat \<Rightarrow> real \<Rightarrow> Matrix option" where
  "Matrix_assign M i j x =
     (if i < m_nlin M \<and> j < m_ncol M
      then Some (M\<lparr>m_cells := (m_cells M)(i := (m_cells M i)(j := x))\<rparr>)
      else None)"

definition Matrix_add :: "Matrix \<Rightarrow> nat \<Rightarrow> nat \<Rightarrow> real \<Rightarrow> Matrix option" where
  "Matrix_add M i j x = do { y \<leftarrow> Matrix_at M i j; Matrix_assign M i j (y + x) }"

definition Matrix_set :: "Matrix \<Rightarrow> real \<Rightarrow> Matrix" where
  "Matrix_set M x = M\<lparr>m_cells := (\<lambda>i j. x)\<rparr>"

text \<open>
  The operators are templates over the type \<open>T\<close> of the matrix they write. The
  instances are a \<open>SymMatrix\<close>, a \<open>Matrix\<close>, and the two block views of operators.h:
  \<open>DiagonalBlock::SymBloc\<close> (a \<open>SymMatrix\<close> with one offset) and
  \<open>NonDiagonalBlock::Bloc\<close> (a \<open>Matrix\<close> with a row and a column offset). The views
  subtract the offset from unsigned subscripts; a subscript below the offset wraps around
  to a value that fails the assertion of the base accessor, the block lying within the
  32-bit range of the subscripts.
\<close>

datatype sink =
    Sym SymMatrix
  | Dense Matrix
  | SymBloc nat SymMatrix
  | Bloc nat nat Matrix

fun sink_at :: "sink \<Rightarrow> nat \<Rightarrow> nat \<Rightarrow> real option" where
  "sink_at (Sym M) i j = SymMatrix_at M i j"
| "sink_at (Dense M) i j = Matrix_at M i j"
| "sink_at (SymBloc off M) i j =
     (if i < off \<or> j < off then None else SymMatrix_at M (i - off) (j - off))"
| "sink_at (Bloc i0 j0 M) i j =
     (if i < i0 \<or> j < j0 then None else Matrix_at M (i - i0) (j - j0))"

fun sink_assign :: "sink \<Rightarrow> nat \<Rightarrow> nat \<Rightarrow> real \<Rightarrow> sink option" where
  "sink_assign (Sym M) i j x = map_option Sym (SymMatrix_assign M i j x)"
| "sink_assign (Dense M) i j x = map_option Dense (Matrix_assign M i j x)"
| "sink_assign (SymBloc off M) i j x =
     (if i < off \<or> j < off then None
      else map_option (SymBloc off) (SymMatrix_assign M (i - off) (j - off) x))"
| "sink_assign (Bloc i0 j0 M) i j x =
     (if i < i0 \<or> j < j0 then None
      else map_option (Bloc i0 j0) (Matrix_assign M (i - i0) (j - j0) x))"

text \<open>\<open>matrix(i,j) += x\<close>.\<close>

definition sink_add :: "sink \<Rightarrow> nat \<Rightarrow> nat \<Rightarrow> real \<Rightarrow> sink option" where
  "sink_add matrix i j x = do { y \<leftarrow> sink_at matrix i j; sink_assign matrix i j (y + x) }"

text \<open>
  The class invariant of the underlying store, for each kind of sink, together with a
  dimension below \<open>65536\<close> for a packed store: up to there the 32-bit size and
  subscripts of \<open>SymMatrix\<close> do not wrap around.
\<close>

fun sink_wf :: "sink \<Rightarrow> bool" where
  "sink_wf (Sym M) = (SymMatrix_wf M \<and> nlin M < 65536)"
| "sink_wf (Dense M) = True"
| "sink_wf (SymBloc off M) = (SymMatrix_wf M \<and> nlin M < 65536)"
| "sink_wf (Bloc i0 j0 M) = True"

section \<open>Operator blocks (operators.h)\<close>

subsection \<open>BlocksBase\<close>

text \<open>The private \<open>D(T1,T2,mat,coeff)\<close>.\<close>

definition BlocksBase_D_pair :: "Integrator \<Rightarrow> Triangle \<Rightarrow> Triangle \<Rightarrow> sink \<Rightarrow> real \<Rightarrow> sink option" where
  "BlocksBase_D_pair intg T1 T2 mat coeff =
     (let total = integrate_D intg T1 T2
      in for_each [0..<3]
           (\<lambda>i mat. sink_add mat (t_index T1) (v_index (vertex T2 i)) (coord total i * coeff))
           mat)"

text \<open>The protected \<open>D(triangles1,triangles2,coeff,mat)\<close>.\<close>

definition BlocksBase_D :: "Integrator \<Rightarrow> Triangle list \<Rightarrow> Triangle list \<Rightarrow> real \<Rightarrow> sink \<Rightarrow> sink option" where
  "BlocksBase_D intg triangles1 triangles2 coeff mat =
     for_each triangles1
       (\<lambda>triangle1 mat.
          for_each triangles2 (\<lambda>triangle2 mat. BlocksBase_D_pair intg triangle1 triangle2 mat coeff) mat)
       mat"

text \<open>\<open>CB\<close> of the private \<open>N\<close>: \<open>edge.vertex(0)-edge.vertex(1)\<close> for the edge opposite \<open>V\<close>.\<close>

definition CB :: "Triangle \<Rightarrow> Vertex \<Rightarrow> Vect3" where
  "CB tp V = vect_minus (position (fst (edge tp V))) (position (snd (edge tp V)))"

text \<open>The private \<open>N(factor,V1,V2,m1,m2,matrix)\<close>: the double loop over the incident triangles.\<close>

definition BlocksBase_N :: "real \<Rightarrow> Vertex \<Rightarrow> Vertex \<Rightarrow> Mesh \<Rightarrow> Mesh \<Rightarrow> sink \<Rightarrow> real option" where
  "BlocksBase_N factor V1 V2 m1 m2 matrix =
     for_each (triangles_of m1 V1)
       (\<lambda>tp1 result.
          let CB1 = CB tp1 V1
          in for_each (triangles_of m2 V2)
               (\<lambda>tp2 result. do {
                  let CB2 = CB tp2 V2;
                  s \<leftarrow> sink_at matrix (t_index tp1) (t_index tp2);
                  Some (result - factor * dotprod CB1 CB2 * s / (area tp1 * area tp2))
                }) result)
       0"

text \<open>The overload \<open>N(V1,V2,m,matrix)\<close> for one mesh.\<close>

definition BlocksBase_N_mesh :: "Vertex \<Rightarrow> Vertex \<Rightarrow> Mesh \<Rightarrow> sink \<Rightarrow> real option" where
  "BlocksBase_N_mesh V1 V2 m matrix = BlocksBase_N 0.25 V1 V2 m m matrix"

text \<open>
  The overload \<open>N(V1,V2,m1,m2,matrix)\<close>, commented in the source:
  ``This function assumes that the two meshes are different.''
\<close>

definition BlocksBase_N_meshes :: "Vertex \<Rightarrow> Vertex \<Rightarrow> Mesh \<Rightarrow> Mesh \<Rightarrow> sink \<Rightarrow> real option" where
  "BlocksBase_N_meshes V1 V2 m1 m2 matrix =
     (let coeff = (if V1 = V2 then 0.5 else 0.25)
      in BlocksBase_N coeff V1 V2 m1 m2 matrix)"

text \<open>
  The private \<open>N(coeff,S,matrix)\<close> of both blocks reads \<open>S\<close> while it writes \<open>matrix\<close>,
  and \<open>N(coeff/Scoeff,matrix,matrix)\<close> passes the same object for both. \<open>S_source\<close>
  says which: the matrix being written, or a block of its own.
\<close>

datatype S_source = TheMatrix | ABlock sink

definition S_of :: "S_source \<Rightarrow> sink \<Rightarrow> sink" where
  "S_of S matrix = (case S of TheMatrix \<Rightarrow> matrix | ABlock b \<Rightarrow> b)"

subsection \<open>DiagonalBlock\<close>

record DiagonalBlock =
  mesh :: Mesh
  Scoeff :: real

text \<open>The constructor: \<open>Scoeff\<close> has the default member initialiser \<open>0.0\<close>.\<close>

definition DiagonalBlock_new :: "Mesh \<Rightarrow> DiagonalBlock" where
  "DiagonalBlock_new m = \<lparr>mesh = m, Scoeff = 0\<rparr>"

text \<open>\<open>S(coeff,matrix)\<close>: the inner loop starts at the triangle of the outer one.\<close>

fun DiagonalBlock_S_rows :: "Integrator \<Rightarrow> real \<Rightarrow> Triangle list \<Rightarrow> sink \<Rightarrow> sink option" where
  "DiagonalBlock_S_rows intg coeff [] matrix = Some matrix"
| "DiagonalBlock_S_rows intg coeff (triangle1 # rest) matrix =
     Option.bind
       (for_each (triangle1 # rest)
          (\<lambda>triangle2 matrix.
             sink_assign matrix (t_index triangle1) (t_index triangle2)
               (integrate_S intg triangle1 triangle2 * coeff))
          matrix)
       (DiagonalBlock_S_rows intg coeff rest)"

definition DiagonalBlock_S :: "Integrator \<Rightarrow> DiagonalBlock \<Rightarrow> real \<Rightarrow> sink \<Rightarrow> sink option" where
  "DiagonalBlock_S intg blk coeff matrix =
     DiagonalBlock_S_rows intg coeff (triangles (mesh blk)) matrix"

text \<open>
  The private \<open>N(coeff,S,matrix)\<close>, in the variant compiled under \<open>NO_OPENMP\<close>: the inner
  loop starts at the vertex of the outer one.
\<close>

definition DiagonalBlock_N_cell :: "Mesh \<Rightarrow> real \<Rightarrow> S_source \<Rightarrow> Vertex \<Rightarrow> Vertex \<Rightarrow> sink \<Rightarrow> sink option" where
  "DiagonalBlock_N_cell m coeff S vit1 vit2 matrix = do {
     n \<leftarrow> BlocksBase_N_mesh vit1 vit2 m (S_of S matrix);
     sink_add matrix (v_index vit1) (v_index vit2) (n * coeff)
   }"

fun DiagonalBlock_N_rows :: "Mesh \<Rightarrow> real \<Rightarrow> S_source \<Rightarrow> Vertex list \<Rightarrow> sink \<Rightarrow> sink option" where
  "DiagonalBlock_N_rows m coeff S [] matrix = Some matrix"
| "DiagonalBlock_N_rows m coeff S (vit1 # rest) matrix =
     Option.bind
       (for_each (vit1 # rest) (\<lambda>vit2 matrix. DiagonalBlock_N_cell m coeff S vit1 vit2 matrix) matrix)
       (DiagonalBlock_N_rows m coeff S rest)"

definition DiagonalBlock_N_from :: "DiagonalBlock \<Rightarrow> real \<Rightarrow> S_source \<Rightarrow> sink \<Rightarrow> sink option" where
  "DiagonalBlock_N_from blk coeff S matrix =
     DiagonalBlock_N_rows (mesh blk) coeff S (vertices (mesh blk)) matrix"

definition DiagonalBlock_S_block_is_computed :: "DiagonalBlock \<Rightarrow> bool" where
  "DiagonalBlock_S_block_is_computed blk \<longleftrightarrow> Scoeff blk \<noteq> 0"

text \<open>\<open>N(coeff,matrix)\<close>.\<close>

definition DiagonalBlock_N :: "(nat \<Rightarrow> real) \<Rightarrow> Integrator \<Rightarrow> DiagonalBlock \<Rightarrow> real \<Rightarrow> sink \<Rightarrow> sink option" where
  "DiagonalBlock_N junk intg blk coeff matrix =
     (if DiagonalBlock_S_block_is_computed blk
      then DiagonalBlock_N_from blk (coeff / Scoeff blk) TheMatrix matrix
      else case triangles (mesh blk) of
             [] \<Rightarrow> None
           | front # _ \<Rightarrow> do {
               Sbloc \<leftarrow> DiagonalBlock_S intg blk 1.0
                 (SymBloc (t_index front) (SymMatrix_alloc junk (length (triangles (mesh blk)))));
               DiagonalBlock_N_from blk coeff (ABlock Sbloc) matrix
             })"

definition DiagonalBlock_D :: "Integrator \<Rightarrow> DiagonalBlock \<Rightarrow> real \<Rightarrow> sink \<Rightarrow> sink option" where
  "DiagonalBlock_D intg blk coeff matrix =
     BlocksBase_D intg (triangles (mesh blk)) (triangles (mesh blk)) coeff matrix"

definition DiagonalBlock_Dstar :: "Integrator \<Rightarrow> DiagonalBlock \<Rightarrow> real \<Rightarrow> sink \<Rightarrow> sink option" where
  "DiagonalBlock_Dstar intg blk coeff matrix =
     BlocksBase_D intg (triangles (mesh blk)) (triangles (mesh blk)) coeff matrix"

text \<open>\<open>set_S_block\<close> is the one member that changes the block: it records \<open>Scoeff\<close>.\<close>

definition DiagonalBlock_set_S_block :: "Integrator \<Rightarrow> DiagonalBlock \<Rightarrow> real \<Rightarrow> sink \<Rightarrow> (DiagonalBlock \<times> sink) option" where
  "DiagonalBlock_set_S_block intg blk coeff matrix =
     (if \<not> current_barrier (mesh blk)
      then do {
        matrix' \<leftarrow> DiagonalBlock_S intg blk coeff matrix;
        Some (blk\<lparr>Scoeff := coeff\<rparr>, matrix')
      }
      else Some (blk, matrix))"

definition DiagonalBlock_set_N_block :: "(nat \<Rightarrow> real) \<Rightarrow> Integrator \<Rightarrow> DiagonalBlock \<Rightarrow> real \<Rightarrow> sink \<Rightarrow> sink option" where
  "DiagonalBlock_set_N_block junk intg blk coeff matrix = DiagonalBlock_N junk intg blk coeff matrix"

definition DiagonalBlock_set_D_block :: "Integrator \<Rightarrow> DiagonalBlock \<Rightarrow> real \<Rightarrow> sink \<Rightarrow> sink option" where
  "DiagonalBlock_set_D_block intg blk coeff matrix =
     (if \<not> current_barrier (mesh blk) then DiagonalBlock_D intg blk coeff matrix else Some matrix)"

text \<open>The body of \<open>DiagonalBlock::set_Dstar_block\<close> is empty.\<close>

definition DiagonalBlock_set_Dstar_block :: "Integrator \<Rightarrow> DiagonalBlock \<Rightarrow> real \<Rightarrow> sink \<Rightarrow> sink option" where
  "DiagonalBlock_set_Dstar_block intg blk coeff matrix = Some matrix"

subsection \<open>NonDiagonalBlock\<close>

record NonDiagonalBlock =
  mesh1 :: Mesh
  mesh2 :: Mesh
  Scoeff2 :: real

definition NonDiagonalBlock_new :: "Mesh \<Rightarrow> Mesh \<Rightarrow> NonDiagonalBlock" where
  "NonDiagonalBlock_new m1 m2 = \<lparr>mesh1 = m1, mesh2 = m2, Scoeff2 = 0\<rparr>"

definition NonDiagonalBlock_S :: "Integrator \<Rightarrow> NonDiagonalBlock \<Rightarrow> real \<Rightarrow> sink \<Rightarrow> sink option" where
  "NonDiagonalBlock_S intg blk coeff matrix =
     for_each (triangles (mesh1 blk))
       (\<lambda>triangle1 matrix.
          for_each (triangles (mesh2 blk))
            (\<lambda>triangle2 matrix.
               sink_assign matrix (t_index triangle1) (t_index triangle2)
                 (integrate_S intg triangle1 triangle2 * coeff))
            matrix)
       matrix"

definition NonDiagonalBlock_N_cell :: "Mesh \<Rightarrow> Mesh \<Rightarrow> real \<Rightarrow> S_source \<Rightarrow> Vertex \<Rightarrow> Vertex \<Rightarrow> sink \<Rightarrow> sink option" where
  "NonDiagonalBlock_N_cell m1 m2 coeff S vertex1 vertex2 matrix = do {
     n \<leftarrow> BlocksBase_N_meshes vertex1 vertex2 m1 m2 (S_of S matrix);
     sink_add matrix (v_index vertex1) (v_index vertex2) (n * coeff)
   }"

definition NonDiagonalBlock_N_from :: "NonDiagonalBlock \<Rightarrow> real \<Rightarrow> S_source \<Rightarrow> sink \<Rightarrow> sink option" where
  "NonDiagonalBlock_N_from blk coeff S matrix =
     for_each (vertices (mesh1 blk))
       (\<lambda>vertex1 matrix.
          for_each (vertices (mesh2 blk))
            (\<lambda>vertex2 matrix.
               NonDiagonalBlock_N_cell (mesh1 blk) (mesh2 blk) coeff S vertex1 vertex2 matrix)
            matrix)
       matrix"

definition NonDiagonalBlock_S_block_is_computed :: "NonDiagonalBlock \<Rightarrow> bool" where
  "NonDiagonalBlock_S_block_is_computed blk \<longleftrightarrow> Scoeff2 blk \<noteq> 0"

definition NonDiagonalBlock_N :: "(nat \<Rightarrow> real) \<Rightarrow> Integrator \<Rightarrow> NonDiagonalBlock \<Rightarrow> real \<Rightarrow> sink \<Rightarrow> sink option" where
  "NonDiagonalBlock_N junk intg blk coeff matrix =
     (if NonDiagonalBlock_S_block_is_computed blk
      then NonDiagonalBlock_N_from blk (coeff / Scoeff2 blk) TheMatrix matrix
      else case (triangles (mesh1 blk), triangles (mesh2 blk)) of
             (front1 # _, front2 # _) \<Rightarrow> do {
               Sbloc \<leftarrow> NonDiagonalBlock_S intg blk 1.0
                 (Bloc (t_index front1) (t_index front2)
                    (Matrix_alloc junk (length (triangles (mesh1 blk))) (length (triangles (mesh2 blk)))));
               NonDiagonalBlock_N_from blk coeff (ABlock Sbloc) matrix
             }
           | _ \<Rightarrow> None)"

definition NonDiagonalBlock_D :: "Integrator \<Rightarrow> NonDiagonalBlock \<Rightarrow> real \<Rightarrow> sink \<Rightarrow> sink option" where
  "NonDiagonalBlock_D intg blk coeff matrix =
     BlocksBase_D intg (triangles (mesh1 blk)) (triangles (mesh2 blk)) coeff matrix"

definition NonDiagonalBlock_Dstar :: "Integrator \<Rightarrow> NonDiagonalBlock \<Rightarrow> real \<Rightarrow> sink \<Rightarrow> sink option" where
  "NonDiagonalBlock_Dstar intg blk coeff matrix =
     BlocksBase_D intg (triangles (mesh2 blk)) (triangles (mesh1 blk)) coeff matrix"

definition NonDiagonalBlock_set_S_block :: "Integrator \<Rightarrow> NonDiagonalBlock \<Rightarrow> real \<Rightarrow> sink \<Rightarrow> (NonDiagonalBlock \<times> sink) option" where
  "NonDiagonalBlock_set_S_block intg blk coeff matrix =
     (if \<not> current_barrier (mesh1 blk) \<and> \<not> current_barrier (mesh2 blk)
      then do {
        matrix' \<leftarrow> NonDiagonalBlock_S intg blk coeff matrix;
        Some (blk\<lparr>Scoeff2 := coeff\<rparr>, matrix')
      }
      else Some (blk, matrix))"

definition NonDiagonalBlock_set_N_block :: "(nat \<Rightarrow> real) \<Rightarrow> Integrator \<Rightarrow> NonDiagonalBlock \<Rightarrow> real \<Rightarrow> sink \<Rightarrow> sink option" where
  "NonDiagonalBlock_set_N_block junk intg blk coeff matrix = NonDiagonalBlock_N junk intg blk coeff matrix"

definition NonDiagonalBlock_set_D_block :: "Integrator \<Rightarrow> NonDiagonalBlock \<Rightarrow> real \<Rightarrow> sink \<Rightarrow> sink option" where
  "NonDiagonalBlock_set_D_block intg blk coeff matrix =
     (if \<not> current_barrier (mesh1 blk) then NonDiagonalBlock_D intg blk coeff matrix else Some matrix)"

definition NonDiagonalBlock_set_Dstar_block :: "Integrator \<Rightarrow> NonDiagonalBlock \<Rightarrow> real \<Rightarrow> sink \<Rightarrow> sink option" where
  "NonDiagonalBlock_set_Dstar_block intg blk coeff matrix =
     (if mesh1 blk \<noteq> mesh2 blk \<and> \<not> current_barrier (mesh2 blk)
      then NonDiagonalBlock_Dstar intg blk coeff matrix
      else Some matrix)"

subsection \<open>HeadMatrixBlocks\<close>

text \<open>\<open>init(SymMatrix&)\<close>.\<close>

definition HeadMatrixBlocks_init :: "SymMatrix \<Rightarrow> SymMatrix" where
  "HeadMatrixBlocks_init matrix = SymMatrix_set matrix 0.0"

text \<open>
  \<open>set_blocks(coeffs,matrix)\<close> for the two block types; \<open>coeffs\<close> is the array
  \<open>{SCondCoeff,NCondCoeff,DCondCoeff}\<close>.
\<close>

definition HeadMatrixBlocks_set_blocks_diagonal ::
  "(nat \<Rightarrow> real) \<Rightarrow> Integrator \<Rightarrow> DiagonalBlock \<Rightarrow> real \<times> real \<times> real \<Rightarrow> sink \<Rightarrow> (DiagonalBlock \<times> sink) option" where
  "HeadMatrixBlocks_set_blocks_diagonal junk intg block coeffs matrix =
     (let SCondCoeff = fst coeffs; NCondCoeff = fst (snd coeffs); DCondCoeff = snd (snd coeffs)
      in do {
        (block, matrix) \<leftarrow> DiagonalBlock_set_S_block intg block SCondCoeff matrix;
        matrix \<leftarrow> DiagonalBlock_set_N_block junk intg block NCondCoeff matrix;
        matrix \<leftarrow> DiagonalBlock_set_D_block intg block DCondCoeff matrix;
        matrix \<leftarrow> DiagonalBlock_set_Dstar_block intg block DCondCoeff matrix;
        Some (block, matrix)
      })"

definition HeadMatrixBlocks_set_blocks_nondiagonal ::
  "(nat \<Rightarrow> real) \<Rightarrow> Integrator \<Rightarrow> NonDiagonalBlock \<Rightarrow> real \<times> real \<times> real \<Rightarrow> sink \<Rightarrow> (NonDiagonalBlock \<times> sink) option" where
  "HeadMatrixBlocks_set_blocks_nondiagonal junk intg block coeffs matrix =
     (let SCondCoeff = fst coeffs; NCondCoeff = fst (snd coeffs); DCondCoeff = snd (snd coeffs)
      in do {
        (block, matrix) \<leftarrow> NonDiagonalBlock_set_S_block intg block SCondCoeff matrix;
        matrix \<leftarrow> NonDiagonalBlock_set_N_block junk intg block NCondCoeff matrix;
        matrix \<leftarrow> NonDiagonalBlock_set_D_block intg block DCondCoeff matrix;
        matrix \<leftarrow> NonDiagonalBlock_set_Dstar_block intg block DCondCoeff matrix;
        Some (block, matrix)
      })"

section \<open>Head matrix assembly (assembleHeadMat.cpp)\<close>

text \<open>
  The geometry is declared outside the sources; the record holds what the assembly
  consumes from it. A mesh pair \<open>mp\<close> gives \<open>mp(0)\<close>, \<open>mp(1)\<close> and
  \<open>mp.relative_orientation()\<close>.
\<close>

record MeshPair =
  mp0 :: Mesh
  mp1 :: Mesh
  relative_orientation :: int

record OrientedMesh =
  om_mesh :: Mesh
  orientation :: int

text \<open>
  A boundary with the oriented meshes of its interface; \<open>mesh_orientation\<close> is the
  method \<open>Boundary::mesh_orientation(omesh)\<close>, taken as it is given.
\<close>

record Boundary =
  oriented_meshes :: "OrientedMesh list"
  inside :: bool
  mesh_orientation :: "OrientedMesh \<Rightarrow> int"

text \<open>A domain; \<open>address\<close> stands for the pointer \<open>&domain\<close>.\<close>

record Domain =
  address :: nat
  conductivity :: real
  boundaries :: "Boundary list"

record Geometry =
  communicating_mesh_pairs :: "MeshPair list"
  sigma :: "Mesh \<Rightarrow> Mesh \<Rightarrow> real"
  sigma_inv :: "Mesh \<Rightarrow> Mesh \<Rightarrow> real"
  indicator :: "Mesh \<Rightarrow> Mesh \<Rightarrow> real"
  isolated_parts :: "Mesh list list"
  nb_parameters :: nat
  nb_current_barrier_triangles :: nat
  domain_at :: "Vect3 \<Rightarrow> Domain"
  domain_named :: "string \<Rightarrow> Domain"

text \<open>Modelled from the spec: the constant \<open>K\<close> of \<open>constants.h\<close>, \<open>1/4\<pi>\<close>.\<close>

definition K :: real where
  "K = 1 / (4 * pi)"

subsection \<open>Deflation\<close>

text \<open>The first loop of \<open>deflate\<close> over a part: \<open>nb_vertices\<close> and \<open>i_first\<close>.\<close>

definition deflate_count :: "Mesh list \<Rightarrow> (nat \<times> nat) option" where
  "deflate_count part =
     for_each part
       (\<lambda>meshptr (nb_vertices, i_first).
          if outermost meshptr
          then (let nb_vertices = nb_vertices + length (vertices meshptr)
                in if i_first = 0
                   then (case vertices meshptr of
                           [] \<Rightarrow> None
                         | front # _ \<Rightarrow> Some (nb_vertices, v_index front))
                   else Some (nb_vertices, i_first))
          else Some (nb_vertices, i_first))
       (0, 0)"

text \<open>The loops over \<open>vit1\<close> and \<open>vit2\<close>, the inner one starting at \<open>vit1\<close>.\<close>

fun deflate_rows :: "real \<Rightarrow> Vertex list \<Rightarrow> sink \<Rightarrow> sink option" where
  "deflate_rows coef [] M = Some M"
| "deflate_rows coef (vit1 # rest) M =
     Option.bind
       (for_each (vit1 # rest) (\<lambda>vit2 M. sink_add M (v_index vit1) (v_index vit2) coef) M)
       (deflate_rows coef rest)"

text \<open>
  The body of the loop over the isolated parts. In \<open>M(i_first,i_first)/nb_vertices\<close> a
  part without outermost vertex divides by zero; the quotient is then never added.
\<close>

definition deflate_part :: "Mesh list \<Rightarrow> sink \<Rightarrow> sink option" where
  "deflate_part part M = do {
     (nb_vertices, i_first) \<leftarrow> deflate_count part;
     d \<leftarrow> sink_at M i_first i_first;
     let coef = d / real nb_vertices;
     for_each part
       (\<lambda>meshptr M. if outermost meshptr then deflate_rows coef (vertices meshptr) M else Some M)
       M
   }"

definition deflate :: "sink \<Rightarrow> Geometry \<Rightarrow> sink option" where
  "deflate M geo = for_each (isolated_parts geo) deflate_part M"

subsection \<open>HeadMatrix\<close>

definition AllBlocks :: "Mesh \<Rightarrow> Mesh \<Rightarrow> bool" where
  "AllBlocks m1 m2 = False"


text \<open>
  The first two statements of \<open>HeadMatrix<SymMatrix,Selector>\<close>: the allocation and
  \<open>HeadMatrixBlocks<SymMatrix>::init\<close>. The difference of the two counts is unsigned in
  the source; the geometry keeps the second below the first.
\<close>

definition HeadMatrix_alloc :: "(nat \<Rightarrow> real) \<Rightarrow> Geometry \<Rightarrow> SymMatrix" where
  "HeadMatrix_alloc junk geo =
     HeadMatrixBlocks_init
       (SymMatrix_alloc junk (nb_parameters geo - nb_current_barrier_triangles geo))"

text \<open>The body of the loop over the communicating mesh pairs.\<close>

definition HeadMatrix_pair ::
  "(nat \<Rightarrow> real) \<Rightarrow> Geometry \<Rightarrow> Integrator \<Rightarrow> (Mesh \<Rightarrow> Mesh \<Rightarrow> bool) \<Rightarrow> MeshPair \<Rightarrow> sink \<Rightarrow> sink option" where
  "HeadMatrix_pair junk geo integrator disableBlock mp symmatrix =
     (let mesh1 = mp0 mp; mesh2 = mp1 mp
      in if disableBlock mesh1 mesh2 then Some symmatrix
         else
           let factor = real_of_int (relative_orientation mp) * K;
               SCondCoeff = factor * sigma_inv geo mesh1 mesh2;
               NCondCoeff = factor * sigma geo mesh1 mesh2;
               DCondCoeff = - factor * indicator geo mesh1 mesh2;
               coeffs = (SCondCoeff, NCondCoeff, DCondCoeff)
           in if mesh1 = mesh2
              then map_option snd
                     (HeadMatrixBlocks_set_blocks_diagonal junk integrator
                        (DiagonalBlock_new mesh1) coeffs symmatrix)
              else map_option snd
                     (HeadMatrixBlocks_set_blocks_nondiagonal junk integrator
                        (NonDiagonalBlock_new mesh1 mesh2) coeffs symmatrix))"

definition HeadMatrix ::
  "(nat \<Rightarrow> real) \<Rightarrow> Geometry \<Rightarrow> Integrator \<Rightarrow> (Mesh \<Rightarrow> Mesh \<Rightarrow> bool) \<Rightarrow> sink option" where
  "HeadMatrix junk geo integrator disableBlock = do {
     let symmatrix = Sym (HeadMatrix_alloc junk geo);
     symmatrix \<leftarrow> for_each (communicating_mesh_pairs geo)
                    (HeadMatrix_pair junk geo integrator disableBlock) symmatrix;
     deflate symmatrix geo
   }"

definition HeadMat :: "(nat \<Rightarrow> real) \<Rightarrow> Geometry \<Rightarrow> Integrator \<Rightarrow> sink option" where
  "HeadMat junk geo integrator = HeadMatrix junk geo integrator AllBlocks"

section \<open>Point-evaluation matrices\<close>

text \<open>
  \<open>analytics.h\<close> and the class \<open>Dipole\<close> are not among the sources: \<open>analyS an T x\<close> is
  \<open>analyticS(T).f(x)\<close>, \<open>analyD an T x\<close> is \<open>analyticD3(T).f(x)\<close>, and a dipole carries
  its position and its method \<open>potential\<close>. The matrix \<open>points\<close> is given by its rows,
  each the \<open>Vect3\<close> the source builds from the three columns; the matrix \<open>dipoles\<close> by
  the dipoles the source builds from its rows. A message on \<open>std::cerr\<close> is recorded as
  the point it reports.
\<close>

record Analytics =
  analyS :: "Triangle \<Rightarrow> Vect3 \<Rightarrow> real"
  analyD :: "Triangle \<Rightarrow> Vect3 \<Rightarrow> Vect3"

record Dipole =
  dipole_position :: Vect3
  potential :: "Vect3 \<Rightarrow> real"

subsection \<open>PartialBlock (operators.h)\<close>

definition PartialBlock_addD :: "Analytics \<Rightarrow> Mesh \<Rightarrow> real \<Rightarrow> Vertex list \<Rightarrow> Matrix \<Rightarrow> Matrix option" where
  "PartialBlock_addD an m coeff points matrix =
     for_each (triangles m)
       (\<lambda>triangle matrix.
          for_each points
            (\<lambda>vertex1 matrix.
               let integrals = analyD an triangle (position vertex1)
               in for_each [0..<3]
                    (\<lambda>i matrix.
                       Matrix_add matrix (v_index vertex1) (v_index (vertex triangle i))
                         (coord integrals i * coeff))
                    matrix)
            matrix)
       matrix"

definition PartialBlock_S :: "Analytics \<Rightarrow> Mesh \<Rightarrow> real \<Rightarrow> Vertex list \<Rightarrow> Matrix \<Rightarrow> Matrix option" where
  "PartialBlock_S an m coeff points matrix =
     for_each (triangles m)
       (\<lambda>triangle matrix.
          for_each points
            (\<lambda>vertex1 matrix.
               Matrix_assign matrix (v_index vertex1) (t_index triangle)
                 (coeff * analyS an triangle (position vertex1)))
            matrix)
       matrix"

subsection \<open>Surf2VolMat (assembleHeadMat.cpp)\<close>

text \<open>
  \<open>m_points[&domain].push_back(v)\<close> on the \<open>std::map\<close> from domain pointers to vertex
  lists: the map is the list of its entries in the order of the keys.
\<close>

fun map_push_back :: "Domain \<Rightarrow> Vertex \<Rightarrow> (Domain \<times> Vertex list) list \<Rightarrow> (Domain \<times> Vertex list) list" where
  "map_push_back d v [] = [(d, [v])]"
| "map_push_back d v ((d', vs) # rest) =
     (if address d = address d' then (d', vs @ [v]) # rest
      else if address d < address d' then (d, [v]) # (d', vs) # rest
      else (d', vs) # map_push_back d v rest)"

text \<open>The first loop: the map \<open>m_points\<close>, the counter \<open>index\<close> and the messages.\<close>

definition Surf2VolMat_points ::
  "Geometry \<Rightarrow> Vect3 list \<Rightarrow> (Domain \<times> Vertex list) list \<times> nat \<times> Vect3 list" where
  "Surf2VolMat_points geo points =
     foldl
       (\<lambda>(m_points, index, messages) point.
          let domain = domain_at geo point
          in if conductivity domain = 0.0
             then (m_points, index, messages @ [point])
             else (map_push_back domain \<lparr>position = point, v_index = index\<rparr> m_points,
                   index + 1, messages))
       ([], 0, []) points"

definition Surf2VolMat_fill ::
  "Analytics \<Rightarrow> (Domain \<times> Vertex list) list \<Rightarrow> Matrix \<Rightarrow> Matrix option" where
  "Surf2VolMat_fill an m_points mat =
     for_each m_points
       (\<lambda>(domainptr, pts) mat.
          for_each (boundaries domainptr)
            (\<lambda>boundary mat.
               for_each (oriented_meshes boundary)
                 (\<lambda>omesh mat.
                    let m = om_mesh omesh;
                        coeff = real_of_int (mesh_orientation boundary omesh) * K
                    in do {
                      mat \<leftarrow> PartialBlock_addD an m (- coeff) pts mat;
                      if \<not> current_barrier m
                      then PartialBlock_S an m (coeff / conductivity domainptr) pts mat
                      else Some mat
                    })
                 mat)
            mat)
       mat"

definition Surf2VolMat ::
  "(nat \<Rightarrow> real) \<Rightarrow> Analytics \<Rightarrow> Geometry \<Rightarrow> Vect3 list \<Rightarrow> (Matrix \<times> Vect3 list) option" where
  "Surf2VolMat junk an geo points =
     (case Surf2VolMat_points geo points of
        (m_points, index, messages) \<Rightarrow>
          let size = index;
              mat = Matrix_set
                      (Matrix_alloc junk size
                         (nb_parameters geo - nb_current_barrier_triangles geo)) 0.0
          in map_option (\<lambda>mat. (mat, messages)) (Surf2VolMat_fill an m_points mat))"

subsection \<open>DipSource2InternalPotMat\<close>

definition DipSource2InternalPotMat_points ::
  "Geometry \<Rightarrow> Vect3 list \<Rightarrow> Domain list \<times> Vect3 list \<times> Vect3 list" where
  "DipSource2InternalPotMat_points geo points =
     foldl
       (\<lambda>(points_domain, pts, messages) point.
          let domain = domain_at geo point
          in if conductivity domain \<noteq> 0.0
             then (points_domain @ [domain], pts @ [point], messages)
             else (points_domain, pts, messages @ [point]))
       ([], [], []) points"

definition DipSource2InternalPotMat ::
  "(nat \<Rightarrow> real) \<Rightarrow> Geometry \<Rightarrow> Dipole list \<Rightarrow> Vect3 list \<Rightarrow> string \<Rightarrow> (Matrix \<times> Vect3 list) option" where
  "DipSource2InternalPotMat junk geo dipoles points domain_name =
     (case DipSource2InternalPotMat_points geo points of
        (points_domain, pts, messages) \<Rightarrow>
          let mat = Matrix_set (Matrix_alloc junk (length pts) (length dipoles)) 0.0
          in map_option (\<lambda>mat. (mat, messages))
               (for_each [0..<length dipoles]
                  (\<lambda>iDIP mat.
                     let dipole = dipoles ! iDIP;
                         domain = (if domain_name = [] then domain_at geo (dipole_position dipole)
                                   else domain_named geo domain_name);
                         coeff = K / conductivity domain
                     in for_each [0..<length pts]
                          (\<lambda>iPTS mat.
                             if address (points_domain ! iPTS) = address domain
                             then Matrix_add mat iPTS iDIP (coeff * potential dipole (pts ! iPTS))
                             else Some mat)
                          mat)
                  mat))"

section \<open>The writes of a loop, cell by cell\<close>

text \<open>
  The loops of the operators write a matrix through \<open>matrix(a,b) += x\<close> and
  \<open>matrix(a,b) = x\<close>. The statements below describe a loop by the list of these writes,
  in the order of the loop: \<open>Increase x\<close> stands for \<open>+= x\<close> and \<open>Overwrite x\<close> for \<open>= x\<close>.
  A write at \<open>(a,b)\<close> addresses the entry \<open>(i,j)\<close> when the subscripts agree, and in a
  symmetric store also when they agree after exchange. \<open>cell_after symm ops i j y\<close> is
  the content of the entry \<open>(i,j)\<close> after the writes \<open>ops\<close>, when it was \<open>y\<close> before, and
  \<open>run_ops\<close> performs the writes on a sink.
\<close>

datatype cell_op = Increase real | Overwrite real

fun apply_op :: "cell_op \<Rightarrow> real \<Rightarrow> real" where
  "apply_op (Increase x) y = y + x"
| "apply_op (Overwrite x) y = x"

fun symmetric_sink :: "sink \<Rightarrow> bool" where
  "symmetric_sink (Sym M) = True"
| "symmetric_sink (Dense M) = False"
| "symmetric_sink (SymBloc off M) = True"
| "symmetric_sink (Bloc i0 j0 M) = False"

definition addresses :: "bool \<Rightarrow> nat \<Rightarrow> nat \<Rightarrow> nat \<Rightarrow> nat \<Rightarrow> bool" where
  "addresses symm a b i j \<longleftrightarrow> (i = a \<and> j = b) \<or> (symm \<and> i = b \<and> j = a)"

fun sink_do :: "nat \<times> nat \<times> cell_op \<Rightarrow> sink \<Rightarrow> sink option" where
  "sink_do (a, b, Increase x) s = sink_add s a b x"
| "sink_do (a, b, Overwrite x) s = sink_assign s a b x"

definition run_ops :: "(nat \<times> nat \<times> cell_op) list \<Rightarrow> sink \<Rightarrow> sink option" where
  "run_ops ops s = for_each ops sink_do s"

fun cell_after :: "bool \<Rightarrow> (nat \<times> nat \<times> cell_op) list \<Rightarrow> nat \<Rightarrow> nat \<Rightarrow> real \<Rightarrow> real" where
  "cell_after symm [] i j y = y"
| "cell_after symm ((a, b, w) # ops) i j y =
     cell_after symm ops i j (if addresses symm a b i j then apply_op w y else y)"

text \<open>
  The pairs that a loop \<open>for x in xs: for y in xs from x on\<close> visits, in its order; the
  loop over two containers visits \<open>List.product xs ys\<close>.
\<close>

fun upper_pairs :: "'a list \<Rightarrow> ('a \<times> 'a) list" where
  "upper_pairs [] = []"
| "upper_pairs (x # xs) = map (Pair x) (x # xs) @ upper_pairs xs"

section \<open>The hypersingular formula in the words of the specification\<close>

text \<open>
  The sum of the specification over the triangles incident to \<open>V1\<close> and to \<open>V2\<close>, for
  the values \<open>s T1 T2\<close> of \<open>S(T1,T2)\<close>, and the factor as the specification selects it:
  0.5 when \<open>V1==V2\<close> and the two meshes coincide, else 0.25.
\<close>

definition N_sum :: "Vertex \<Rightarrow> Vertex \<Rightarrow> Mesh \<Rightarrow> Mesh \<Rightarrow> (Triangle \<Rightarrow> Triangle \<Rightarrow> real) \<Rightarrow> real" where
  "N_sum V1 V2 m1 m2 s =
     (\<Sum>T1\<leftarrow>triangles_of m1 V1. \<Sum>T2\<leftarrow>triangles_of m2 V2.
        dotprod (CB T1 V1) (CB T2 V2) * s T1 T2 / (area T1 * area T2))"

definition claimed_factor :: "Vertex \<Rightarrow> Vertex \<Rightarrow> Mesh \<Rightarrow> Mesh \<Rightarrow> real" where
  "claimed_factor V1 V2 m1 m2 = (if V1 = V2 \<and> m1 = m2 then 0.5 else 0.25)"

text \<open>
  The statements about the loops of \<open>N\<close>. \<open>accumulated symm pairs val i j\<close> is the sum
  of the contributions \<open>val V1 V2\<close> of the vertex pairs \<open>(V1,V2)\<close> of \<open>pairs\<close> whose write
  at \<open>(V1.index,V2.index)\<close> addresses the entry \<open>(i,j)\<close>. \<open>increased_by matrix matrix' d\<close>
  says that \<open>matrix'\<close> has the entries of \<open>matrix\<close>, each increased by \<open>d i j\<close>.
  \<open>reads_S\<close> says that the block \<open>S\<close> holds \<open>s T1 T2\<close> at the triangle pair \<open>(T1,T2)\<close>,
  \<open>cells_inside\<close> that the vertex pairs address entries of the matrix, and \<open>S_apart\<close>
  that, when \<open>S\<close> is read from the matrix that is written, no vertex pair addresses the
  entry of a triangle pair.
\<close>

definition accumulated ::
  "bool \<Rightarrow> (Vertex \<times> Vertex) list \<Rightarrow> (Vertex \<Rightarrow> Vertex \<Rightarrow> real) \<Rightarrow> nat \<Rightarrow> nat \<Rightarrow> real" where
  "accumulated symm pairs val i j =
     (\<Sum>(V1, V2)\<leftarrow>pairs. if addresses symm (v_index V1) (v_index V2) i j then val V1 V2 else 0)"

definition increased_by :: "sink \<Rightarrow> sink \<Rightarrow> (nat \<Rightarrow> nat \<Rightarrow> real) \<Rightarrow> bool" where
  "increased_by matrix matrix' d \<longleftrightarrow>
     (\<forall>i j. sink_at matrix' i j = map_option (\<lambda>y. y + d i j) (sink_at matrix i j))"

definition reads_S :: "sink \<Rightarrow> Triangle list \<Rightarrow> Triangle list \<Rightarrow> (Triangle \<Rightarrow> Triangle \<Rightarrow> real) \<Rightarrow> bool" where
  "reads_S S tris1 tris2 s \<longleftrightarrow>
     (\<forall>T1\<in>set tris1. \<forall>T2\<in>set tris2. sink_at S (t_index T1) (t_index T2) = Some (s T1 T2))"

definition cells_inside :: "sink \<Rightarrow> (Vertex \<times> Vertex) list \<Rightarrow> bool" where
  "cells_inside matrix pairs \<longleftrightarrow>
     (\<forall>(V1, V2)\<in>set pairs. sink_at matrix (v_index V1) (v_index V2) \<noteq> None)"

definition S_apart ::
  "S_source \<Rightarrow> bool \<Rightarrow> (Vertex \<times> Vertex) list \<Rightarrow> Triangle list \<Rightarrow> Triangle list \<Rightarrow> bool" where
  "S_apart S symm pairs tris1 tris2 \<longleftrightarrow>
     (S = TheMatrix \<longrightarrow>
        (\<forall>(V1, V2)\<in>set pairs. \<forall>T1\<in>set tris1. \<forall>T2\<in>set tris2.
           \<not> addresses symm (v_index V1) (v_index V2) (t_index T1) (t_index T2)))"

text \<open>
  The content of the single-layer block that \<open>S(coeff,matrix)\<close> writes. The same-mesh
  engine visits a pair of triangles once, the first no later in the mesh than the
  second, and a read at \<open>(T1,T2)\<close> returns the value written for the pair in the order
  of the mesh. \<open>indexed_from off n tris\<close> says that the triangles carry distinct indices
  in the range of \<open>n\<close> subscripts that starts at \<open>off\<close>, as the block views need them.
\<close>

definition S_one_mesh :: "Integrator \<Rightarrow> real \<Rightarrow> Triangle list \<Rightarrow> Triangle \<Rightarrow> Triangle \<Rightarrow> real" where
  "S_one_mesh intg coeff tris T1 T2 =
     (if (T1, T2) \<in> set (upper_pairs tris) then integrate_S intg T1 T2 * coeff
      else integrate_S intg T2 T1 * coeff)"

definition S_two_meshes :: "Integrator \<Rightarrow> real \<Rightarrow> Triangle \<Rightarrow> Triangle \<Rightarrow> real" where
  "S_two_meshes intg coeff T1 T2 = integrate_S intg T1 T2 * coeff"

definition indexed_from :: "nat \<Rightarrow> nat \<Rightarrow> Triangle list \<Rightarrow> bool" where
  "indexed_from off n tris \<longleftrightarrow>
     distinct (map t_index tris) \<and> (\<forall>T\<in>set tris. off \<le> t_index T \<and> t_index T < off + n)"

text \<open>
  What \<open>N\<close> adds to the entry \<open>(i,j)\<close> of the matrix, for the values \<open>s\<close> of the
  single-layer block and the coefficient \<open>c\<close>: in the same-mesh engine, with the factor
  0.25 of the one-mesh overload of \<open>BlocksBase::N\<close>, and in the different-mesh engine,
  with the factor of the two-mesh overload.
\<close>

definition N_one_mesh_added ::
  "sink \<Rightarrow> Mesh \<Rightarrow> real \<Rightarrow> (Triangle \<Rightarrow> Triangle \<Rightarrow> real) \<Rightarrow> nat \<Rightarrow> nat \<Rightarrow> real" where
  "N_one_mesh_added matrix m c s =
     accumulated (symmetric_sink matrix) (upper_pairs (vertices m))
       (\<lambda>V1 V2. c * (- (1 / 4) * N_sum V1 V2 m m s))"

definition N_two_meshes_added ::
  "sink \<Rightarrow> Mesh \<Rightarrow> Mesh \<Rightarrow> real \<Rightarrow> (Triangle \<Rightarrow> Triangle \<Rightarrow> real) \<Rightarrow> nat \<Rightarrow> nat \<Rightarrow> real" where
  "N_two_meshes_added matrix m1 m2 c s =
     accumulated (symmetric_sink matrix) (List.product (vertices m1) (vertices m2))
       (\<lambda>V1 V2. c * (- (if V1 = V2 then 1 / 2 else 1 / 4) * N_sum V1 V2 m1 m2 s))"

text \<open>
  What the two branches of \<open>N(coeff,matrix)\<close> need in order to return. With a cached
  block: a well-formed matrix that holds \<open>s\<close> at the triangle pairs, apart from the
  entries of the vertex pairs, which it holds too. Without: a well-formed matrix that
  holds the entries of the vertex pairs, and meshes with a first triangle whose
  triangles carry distinct indices in the range of the temporary block, which starts at
  the index of the first triangle and has one subscript per triangle; the packed
  temporary block of the same-mesh engine has less than 65536 of them.
\<close>

definition reuse_ready_one :: "sink \<Rightarrow> Mesh \<Rightarrow> (Triangle \<Rightarrow> Triangle \<Rightarrow> real) \<Rightarrow> bool" where
  "reuse_ready_one matrix m s \<longleftrightarrow>
     sink_wf matrix \<and> reads_S matrix (triangles m) (triangles m) s
     \<and> S_apart TheMatrix (symmetric_sink matrix) (upper_pairs (vertices m)) (triangles m) (triangles m)
     \<and> cells_inside matrix (upper_pairs (vertices m))"

definition reuse_ready_two :: "sink \<Rightarrow> Mesh \<Rightarrow> Mesh \<Rightarrow> (Triangle \<Rightarrow> Triangle \<Rightarrow> real) \<Rightarrow> bool" where
  "reuse_ready_two matrix m1 m2 s \<longleftrightarrow>
     sink_wf matrix \<and> reads_S matrix (triangles m1) (triangles m2) s
     \<and> S_apart TheMatrix (symmetric_sink matrix) (List.product (vertices m1) (vertices m2))
           (triangles m1) (triangles m2)
     \<and> cells_inside matrix (List.product (vertices m1) (vertices m2))"

definition fresh_ready_one :: "sink \<Rightarrow> Mesh \<Rightarrow> bool" where
  "fresh_ready_one matrix m \<longleftrightarrow>
     sink_wf matrix \<and> triangles m \<noteq> []
     \<and> indexed_from (t_index (hd (triangles m))) (length (triangles m)) (triangles m)
     \<and> length (triangles m) < 65536
     \<and> cells_inside matrix (upper_pairs (vertices m))"

definition fresh_ready_two :: "sink \<Rightarrow> Mesh \<Rightarrow> Mesh \<Rightarrow> bool" where
  "fresh_ready_two matrix m1 m2 \<longleftrightarrow>
     sink_wf matrix \<and> triangles m1 \<noteq> [] \<and> triangles m2 \<noteq> []
     \<and> indexed_from (t_index (hd (triangles m1))) (length (triangles m1)) (triangles m1)
     \<and> indexed_from (t_index (hd (triangles m2))) (length (triangles m2)) (triangles m2)
     \<and> cells_inside matrix (List.product (vertices m1) (vertices m2))"

section \<open>The retained and the dropped points\<close>

text \<open>
  The input points inside a conductive domain and those outside, in the order of the
  input; the retained points numbered from \<open>k\<close>; a matrix of given dimensions; a domain
  whose meshes address columns below \<open>c\<close>: the vertices of every triangle, and the
  triangles of the meshes that are not current barriers. The two step functions are the
  bodies of the first loops of \<open>Surf2VolMat\<close> and \<open>DipSource2InternalPotMat\<close>.
\<close>

definition retained_points :: "Geometry \<Rightarrow> Vect3 list \<Rightarrow> Vect3 list" where
  "retained_points geo points = filter (\<lambda>p. conductivity (domain_at geo p) \<noteq> 0) points"

definition dropped_points :: "Geometry \<Rightarrow> Vect3 list \<Rightarrow> Vect3 list" where
  "dropped_points geo points = filter (\<lambda>p. conductivity (domain_at geo p) = 0) points"

definition numbered :: "nat \<Rightarrow> Vect3 list \<Rightarrow> Vertex list" where
  "numbered k ps = map (\<lambda>(i, p). \<lparr>position = p, v_index = i\<rparr>) (enumerate k ps)"

definition dims :: "nat \<Rightarrow> nat \<Rightarrow> Matrix \<Rightarrow> bool" where
  "dims n c M \<longleftrightarrow> m_nlin M = n \<and> m_ncol M = c"

definition domain_fits :: "nat \<Rightarrow> Domain \<Rightarrow> bool" where
  "domain_fits c d \<longleftrightarrow>
     (\<forall>b\<in>set (boundaries d). \<forall>om\<in>set (oriented_meshes b). \<forall>t\<in>set (triangles (om_mesh om)).
        (\<forall>i<3. v_index (vertex t i) < c)
        \<and> (\<not> current_barrier (om_mesh om) \<longrightarrow> t_index t < c))"

definition Surf2VolMat_step ::
  "Geometry \<Rightarrow> (Domain \<times> Vertex list) list \<times> nat \<times> Vect3 list \<Rightarrow> Vect3
     \<Rightarrow> (Domain \<times> Vertex list) list \<times> nat \<times> Vect3 list" where
  "Surf2VolMat_step geo =
     (\<lambda>(m_points, index, messages) point.
          let domain = domain_at geo point
          in if conductivity domain = 0.0
             then (m_points, index, messages @ [point])
             else (map_push_back domain \<lparr>position = point, v_index = index\<rparr> m_points,
                   index + 1, messages))"

definition DipSource2InternalPotMat_step ::
  "Geometry \<Rightarrow> Domain list \<times> Vect3 list \<times> Vect3 list \<Rightarrow> Vect3
     \<Rightarrow> Domain list \<times> Vect3 list \<times> Vect3 list" where
  "DipSource2InternalPotMat_step geo =
     (\<lambda>(points_domain, pts, messages) point.
          let domain = domain_at geo point
          in if conductivity domain \<noteq> 0.0
             then (points_domain @ [domain], pts @ [point], messages)
             else (points_domain, pts, messages @ [point]))"

text \<open>
  The writes of the point-evaluation builders, in the order of their loops: those of
  \<open>PartialBlock::addD\<close> and \<open>PartialBlock::S\<close> for a mesh and a list of points, those of
  the second loop of \<open>Surf2VolMat\<close> for the map of the retained points, and those of the
  double loop of \<open>DipSource2InternalPotMat\<close>, where \<open>dipole_domain\<close> is the domain the
  source selects for a dipole.
\<close>

definition PartialBlock_addD_ops ::
  "Analytics \<Rightarrow> Mesh \<Rightarrow> real \<Rightarrow> Vertex list \<Rightarrow> (nat \<times> nat \<times> cell_op) list" where
  "PartialBlock_addD_ops an m coeff points =
     concat (map (\<lambda>triangle.
       concat (map (\<lambda>vertex1.
         map (\<lambda>i. (v_index vertex1, v_index (vertex triangle i),
                    Increase (coord (analyD an triangle (position vertex1)) i * coeff)))
           [0..<3])
         points))
       (triangles m))"

definition PartialBlock_S_ops ::
  "Analytics \<Rightarrow> Mesh \<Rightarrow> real \<Rightarrow> Vertex list \<Rightarrow> (nat \<times> nat \<times> cell_op) list" where
  "PartialBlock_S_ops an m coeff points =
     concat (map (\<lambda>triangle.
       map (\<lambda>vertex1. (v_index vertex1, t_index triangle,
                       Overwrite (coeff * analyS an triangle (position vertex1))))
         points)
       (triangles m))"

definition omesh_ops ::
  "Analytics \<Rightarrow> Domain \<Rightarrow> Vertex list \<Rightarrow> Boundary \<Rightarrow> OrientedMesh \<Rightarrow> (nat \<times> nat \<times> cell_op) list" where
  "omesh_ops an d pts b om =
     PartialBlock_addD_ops an (om_mesh om) (- (real_of_int (mesh_orientation b om) * K)) pts
     @ (if \<not> current_barrier (om_mesh om)
        then PartialBlock_S_ops an (om_mesh om)
               (real_of_int (mesh_orientation b om) * K / conductivity d) pts
        else [])"

definition Surf2VolMat_ops ::
  "Analytics \<Rightarrow> (Domain \<times> Vertex list) list \<Rightarrow> (nat \<times> nat \<times> cell_op) list" where
  "Surf2VolMat_ops an m_points =
     concat (map (\<lambda>(d, pts).
       concat (map (\<lambda>b. concat (map (omesh_ops an d pts b) (oriented_meshes b))) (boundaries d)))
       m_points)"

definition dipole_domain :: "Geometry \<Rightarrow> string \<Rightarrow> Dipole \<Rightarrow> Domain" where
  "dipole_domain geo domain_name dipole =
     (if domain_name = [] then domain_at geo (dipole_position dipole)
      else domain_named geo domain_name)"

definition DipSource2InternalPotMat_ops ::
  "Geometry \<Rightarrow> string \<Rightarrow> Dipole list \<Rightarrow> Domain list \<Rightarrow> Vect3 list \<Rightarrow> (nat \<times> nat \<times> cell_op) list" where
  "DipSource2InternalPotMat_ops geo domain_name dipoles points_domain pts =
     concat (map (\<lambda>iDIP.
       concat (map (\<lambda>iPTS.
         if address (points_domain ! iPTS) = address (dipole_domain geo domain_name (dipoles ! iDIP))
         then [(iPTS, iDIP,
                Increase (K / conductivity (dipole_domain geo domain_name (dipoles ! iDIP))
                          * potential (dipoles ! iDIP) (pts ! iPTS)))]
         else [])
         [0..<length pts]))
       [0..<length dipoles])"

section \<open>Concrete inputs\<close>

text \<open>Small geometries on which the theorems below are instantiated.\<close>

definition no_domain :: Domain where
  "no_domain = \<lparr>address = 0, conductivity = 0, boundaries = []\<rparr>"

definition bare_geometry :: "nat \<Rightarrow> nat \<Rightarrow> Geometry" where
  "bare_geometry np nt =
     \<lparr>communicating_mesh_pairs = [], sigma = (\<lambda>m1 m2. 1), sigma_inv = (\<lambda>m1 m2. 1),
      indicator = (\<lambda>m1 m2. 1), isolated_parts = [], nb_parameters = np,
      nb_current_barrier_triangles = nt, domain_at = (\<lambda>p. no_domain),
      domain_named = (\<lambda>n. no_domain)\<rparr>"

definition vA :: Vertex where "vA = \<lparr>position = (0, 0, 0), v_index = 0\<rparr>"

definition vB :: Vertex where "vB = \<lparr>position = (1, 0, 0), v_index = 1\<rparr>"

definition vC :: Vertex where "vC = \<lparr>position = (0, 1, 0), v_index = 2\<rparr>"

definition tABC :: Triangle where
  "tABC = \<lparr>tv0 = vA, tv1 = vB, tv2 = vC, t_index = 3, area = 1 / 2\<rparr>"

text \<open>A mesh of one triangle: vertices 0, 1, 2 and the triangle 3.\<close>

definition mesh_ABC :: "bool \<Rightarrow> Mesh" where
  "mesh_ABC cb =
     \<lparr>vertices = [vA, vB, vC], triangles = [tABC], outermost = True, current_barrier = cb\<rparr>"

definition vD :: Vertex where "vD = \<lparr>position = (0, 0, 1), v_index = 4\<rparr>"

definition vE :: Vertex where "vE = \<lparr>position = (1, 0, 1), v_index = 5\<rparr>"

definition vF :: Vertex where "vF = \<lparr>position = (0, 1, 1), v_index = 6\<rparr>"

definition tDEF :: Triangle where
  "tDEF = \<lparr>tv0 = vD, tv1 = vE, tv2 = vF, t_index = 7, area = 1 / 2\<rparr>"

text \<open>A second mesh of one triangle: vertices 4, 5, 6 and the triangle 7.\<close>

definition mesh_DEF :: "bool \<Rightarrow> Mesh" where
  "mesh_DEF cb =
     \<lparr>vertices = [vD, vE, vF], triangles = [tDEF], outermost = True, current_barrier = cb\<rparr>"

text \<open>A third mesh of one triangle, which shares the edge \<open>AB\<close> with the first: vertices 0, 1, 6 and the triangle 7.\<close>

definition tBAF :: Triangle where
  "tBAF = \<lparr>tv0 = vB, tv1 = vA, tv2 = vF, t_index = 7, area = 1 / 2\<rparr>"

definition mesh_BAF :: Mesh where
  "mesh_BAF =
     \<lparr>vertices = [vA, vB, vF], triangles = [tBAF], outermost = True, current_barrier = False\<rparr>"

text \<open>A mesh whose first triangle does not carry the least index: the triangles 7 and 3.\<close>

definition mesh_unordered :: Mesh where
  "mesh_unordered =
     \<lparr>vertices = [vD, vE, vF], triangles = [tDEF, tABC], outermost = True,
      current_barrier = False\<rparr>"

text \<open>A single-layer block for the triangles 3 and 7, with \<open>S(3,7) = 1\<close>.\<close>

definition one_S_bloc :: sink where
  "one_S_bloc = Bloc 3 7 \<lparr>m_nlin = 1, m_ncol = 1, m_cells = (\<lambda>i j. 1)\<rparr>"

definition unit_integrator :: Integrator where
  "unit_integrator = \<lparr>integrate_S = (\<lambda>T1 T2. 1), integrate_D = (\<lambda>T1 T2. (1, 1, 1))\<rparr>"

text \<open>The zero symmetric matrices of dimension 4 and of dimension 8.\<close>

definition zero_sym4 :: sink where
  "zero_sym4 = Sym \<lparr>nlin = 4, data = [0, 0, 0, 0, 0, 0, 0, 0, 0, 0]\<rparr>"

definition zero_sym8 :: sink where
  "zero_sym8 = Sym \<lparr>nlin = 8, data =
     [0, 0, 0, 0, 0, 0, 0, 0, 0, 0, 0, 0, 0, 0, 0, 0, 0, 0,
      0, 0, 0, 0, 0, 0, 0, 0, 0, 0, 0, 0, 0, 0, 0, 0, 0, 0]\<rparr>"

definition two_S_sym4 :: sink where
  "two_S_sym4 = Sym \<lparr>nlin = 4, data = [0, 0, 0, 0, 0, 0, 0, 0, 0, 2]\<rparr>"




text \<open>The zero symmetric matrix of dimension 8 with \<open>S(3,7) = 2\<close>.\<close>

definition two_S_sym8 :: sink where
  "two_S_sym8 = Sym \<lparr>nlin = 8, data =
     [0, 0, 0, 0, 0, 0, 0, 0, 0, 0, 0, 0, 0, 0, 0, 0, 0, 0,
      0, 0, 0, 0, 0, 0, 0, 0, 0, 0, 0, 0, 0, 2, 0, 0, 0, 0]\<rparr>"

definition one_S_sym4 :: sink where
  "one_S_sym4 = Sym \<lparr>nlin = 4, data = [0, 0, 0, 0, 0, 0, 0, 0, 0, 1]\<rparr>"

text \<open>A symmetric matrix of dimension 8 with \<open>M(4,4) = 6\<close>, and a geometry whose one part has two outermost meshes.\<close>

definition six_sym8 :: SymMatrix where
  "six_sym8 = \<lparr>nlin = 8, data =
     [0, 0, 0, 0, 0, 0, 0, 0, 0, 0, 0, 0, 0, 0, 6, 0, 0, 0,
      0, 0, 0, 0, 0, 0, 0, 0, 0, 0, 0, 0, 0, 0, 0, 0, 0, 0]\<rparr>"

definition two_outer_geometry :: Geometry where
  "two_outer_geometry =
     \<lparr>communicating_mesh_pairs = [], sigma = (\<lambda>m1 m2. 1), sigma_inv = (\<lambda>m1 m2. 1),
      indicator = (\<lambda>m1 m2. 1), isolated_parts = [[mesh_DEF False, mesh_ABC False]],
      nb_parameters = 8, nb_current_barrier_triangles = 0, domain_at = (\<lambda>p. no_domain),
      domain_named = (\<lambda>n. no_domain)\<rparr>"


text \<open>A domain of conductivity 2 bounded by the mesh of one triangle; points with a negative first coordinate lie outside it.\<close>

definition head_domain :: Domain where
  "head_domain =
     \<lparr>address = 1, conductivity = 2,
      boundaries = [\<lparr>oriented_meshes = [\<lparr>om_mesh = mesh_ABC False, orientation = 1\<rparr>],
                     inside = True, mesh_orientation = (\<lambda>omesh. 1)\<rparr>]\<rparr>"

definition point_geometry :: Geometry where
  "point_geometry =
     \<lparr>communicating_mesh_pairs = [], sigma = (\<lambda>m1 m2. 1), sigma_inv = (\<lambda>m1 m2. 1),
      indicator = (\<lambda>m1 m2. 1), isolated_parts = [], nb_parameters = 4,
      nb_current_barrier_triangles = 0,
      domain_at = (\<lambda>p. if fst p < 0 then no_domain else head_domain),
      domain_named = (\<lambda>n. head_domain)\<rparr>"

definition three_points :: "Vect3 list" where
  "three_points = [(1, 0, 0), (- 1, 0, 0), (2, 0, 0)]"

definition unit_analytics :: Analytics where
  "unit_analytics = \<lparr>analyS = (\<lambda>T x. 1), analyD = (\<lambda>T x. (1, 1, 1))\<rparr>"

definition unit_dipole :: Dipole where
  "unit_dipole = \<lparr>dipole_position = (1, 0, 0), potential = (\<lambda>x. 1)\<rparr>"

section \<open>Index arithmetic of the packed storage\<close>

lemma triangular_double: "2 * (j * (j + 1) div 2) = j * (j + 1)" for j :: nat
proof -
  have "even (j * (j + 1))" by simp
  then show ?thesis by (metis dvd_mult_div_cancel)
qed

lemma triangular_Suc: "Suc j * (Suc j + 1) div 2 = j * (j + 1) div 2 + j + 1"
proof -
  have "Suc j * (Suc j + 1) = j * (j + 1) + 2 * (j + 1)" by simp
  then have "Suc j * (Suc j + 1) div 2 = (j * (j + 1) + 2 * (j + 1)) div 2" by simp
  also have "\<dots> = j * (j + 1) div 2 + (j + 1)" by simp
  finally show ?thesis by simp
qed

lemma triangular_mono: "i \<le> j \<Longrightarrow> i * (i + 1) div 2 \<le> j * (j + 1) div 2" for i j :: nat
  by (intro div_le_mono mult_le_mono) simp_all

lemma triangular_gap:
  fixes j k :: nat
  assumes "j < k" shows "j + j * (j + 1) div 2 < k * (k + 1) div 2"
proof -
  from assms have "Suc j \<le> k" by simp
  then have "Suc j * (Suc j + 1) div 2 \<le> k * (k + 1) div 2" by (rule triangular_mono)
  then show ?thesis by (simp add: triangular_Suc)
qed

text \<open>Below 65536 the products and sums of the subscript stay below \<open>2^32\<close>.\<close>

lemma u32_small: "n < 4294967296 \<Longrightarrow> u32 n = n"
  by (simp add: u32_def)

lemma triangular_small:
  fixes j :: nat
  assumes "j < 65536" shows "j * (j + 1) \<le> 4294901760"
proof -
  from assms have "j \<le> 65535" and "j + 1 \<le> 65536" by simp_all
  then have "j * (j + 1) \<le> 65535 * 65536" by (rule mult_le_mono)
  then show ?thesis by simp
qed

lemma u32_triangular: "j < 65536 \<Longrightarrow> u32 (j * u32 (j + 1)) = j * (j + 1)"
  using triangular_small [of j] by (simp add: u32_small)

lemma u32_subscript:
  assumes "i < 65536" and "j < 65536"
  shows "u32 (i + u32 (j * u32 (j + 1)) div 2) = i + j * (j + 1) div 2"
proof -
  have "j * (j + 1) div 2 \<le> 4294901760 div 2"
    using triangular_small [OF assms(2)] by (rule div_le_mono)
  with assms(1) have "i + j * (j + 1) div 2 < 4294967296" by simp
  then show ?thesis by (simp only: u32_triangular [OF assms(2)] u32_small)
qed

lemma SymMatrix_size_small:
  "nlin M < 65536 \<Longrightarrow> SymMatrix_size M = nlin M * (nlin M + 1) div 2"
  by (simp only: SymMatrix_size_def u32_triangular)

lemma packed_index_commute: "packed_index i j = packed_index j i"
  by (cases "i = j") (simp_all add: packed_index_def)

lemma packed_index_canonical:
  assumes "i < 65536" and "j < 65536"
  shows "packed_index i j = min i j + max i j * (max i j + 1) div 2"
proof (cases "i \<le> j")
  case True
  then have "packed_index i j = i + j * (j + 1) div 2"
    by (simp only: packed_index_def u32_subscript [OF assms] if_True)
  with True show ?thesis by (simp add: min_def max_def)
next
  case False
  then have "packed_index i j = j + i * (i + 1) div 2"
    by (simp only: packed_index_def u32_subscript [OF assms(2,1)] if_False)
  with False show ?thesis by (simp add: min_def max_def)
qed

lemma packed_index_bound:
  assumes "i < N" and "j < N" and "N < 65536"
  shows "packed_index i j < N * (N + 1) div 2"
proof -
  from assms have small: "i < 65536" "j < 65536" by simp_all
  have "min i j \<le> max i j" by simp
  then have "packed_index i j \<le> max i j + max i j * (max i j + 1) div 2"
    by (simp only: packed_index_canonical [OF small] add_le_mono1)
  also have "\<dots> < N * (N + 1) div 2"
    using assms by (intro triangular_gap) simp
  finally show ?thesis .
qed

lemma packed_index_inj:
  assumes "packed_index i j = packed_index a b"
    and "i < 65536" and "j < 65536" and "a < 65536" and "b < 65536"
  shows "(i = a \<and> j = b) \<or> (i = b \<and> j = a)"
proof -
  let ?T = "\<lambda>n::nat. n * (n + 1) div 2"
  from assms have eq: "min i j + ?T (max i j) = min a b + ?T (max a b)"
    by (simp only: packed_index_canonical)
  have "\<not> max i j < max a b"
  proof
    assume "max i j < max a b"
    then have "max i j + ?T (max i j) < ?T (max a b)" by (rule triangular_gap)
    moreover have "min i j \<le> max i j" by simp
    ultimately show False using eq by linarith
  qed
  moreover have "\<not> max a b < max i j"
  proof
    assume "max a b < max i j"
    then have "max a b + ?T (max a b) < ?T (max i j)" by (rule triangular_gap)
    moreover have "min a b \<le> max a b" by simp
    ultimately show False using eq by linarith
  qed
  ultimately have mx: "max i j = max a b" by (metis nat_neq_iff)
  with eq have "min i j = min a b" by simp
  with mx show ?thesis by (auto simp: min_def max_def split: if_splits)
qed

lemma packed_index_in_buffer:
  assumes "SymMatrix_wf M" and "nlin M < 65536" and "i < nlin M" and "j < nlin M"
  shows "packed_index i j < length (data M)"
proof -
  have "packed_index i j < nlin M * (nlin M + 1) div 2"
    using assms(3,4,2) by (rule packed_index_bound)
  with assms(1,2) show ?thesis by (simp only: SymMatrix_wf_def SymMatrix_size_small)
qed

section \<open>Loops\<close>

lemma for_each_append:
  "for_each (xs @ ys) body s = Option.bind (for_each xs body s) (for_each ys body)"
  by (induction xs arbitrary: s) (auto split: Option.bind_splits)

section \<open>The accessors of the packed symmetric matrix\<close>

lemma set_loop:
  "n \<le> length d \<Longrightarrow> foldl (\<lambda>d i. d[i := x]) d [0..<n] = replicate n x @ drop n d"
proof (induction n)
  case 0
  then show ?case by simp
next
  case (Suc n)
  then have "foldl (\<lambda>d i. d[i := x]) d [0..<Suc n] = (replicate n x @ drop n d)[n := x]"
    by simp
  also have "\<dots> = replicate n x @ (drop n d)[0 := x]"
    by (simp add: list_update_append)
  also have "(drop n d)[0 := x] = x # drop (Suc n) d"
    using Suc.prems by (metis Cons_nth_drop_Suc Suc_le_lessD list_update_code(2))
  finally show ?case by (simp add: replicate_append_same)
qed

lemma SymMatrix_set_data:
  "SymMatrix_wf M \<Longrightarrow> data (SymMatrix_set M x) = replicate (SymMatrix_size M) x"
  by (simp add: SymMatrix_set_def SymMatrix_wf_def set_loop)

lemma SymMatrix_alloc_wf: "SymMatrix_wf (SymMatrix_alloc junk N)"
  by (simp add: SymMatrix_wf_def SymMatrix_alloc_def SymMatrix_size_def)

lemma SymMatrix_symmetric_below_65536:
  assumes "i < nlin M" and "j < nlin M" and "SymMatrix_wf M" and "nlin M < 65536"
  shows "packed_index i j = packed_index j i
       \<and> packed_index i j = min i j + max i j * (max i j + 1) div 2
       \<and> length (data M) = nlin M * (nlin M + 1) div 2
       \<and> packed_index i j < length (data M)
       \<and> SymMatrix_at M i j = Some (data M ! packed_index i j)
       \<and> SymMatrix_at M j i = SymMatrix_at M i j
       \<and> SymMatrix_assign M j i x = SymMatrix_assign M i j x
       \<and> (\<exists>M'. SymMatrix_assign M i j x = Some M'
              \<and> SymMatrix_at M' i j = Some x \<and> SymMatrix_at M' j i = Some x)"
proof -
  from assms have small: "i < 65536" "j < 65536" by simp_all
  have len: "length (data M) = nlin M * (nlin M + 1) div 2"
    using assms(3,4) by (simp only: SymMatrix_wf_def SymMatrix_size_small)
  have bound: "packed_index i j < length (data M)"
    using assms(3,4,1,2) by (rule packed_index_in_buffer)
  have at: "SymMatrix_at M i j = Some (data M ! packed_index i j)"
    using assms(1,2) by (simp add: SymMatrix_at_def)
  have at': "SymMatrix_at M j i = SymMatrix_at M i j"
    using assms(1,2) by (simp add: SymMatrix_at_def packed_index_commute [of j i])
  have asg: "SymMatrix_assign M j i x = SymMatrix_assign M i j x"
    using assms(1,2) by (simp add: SymMatrix_assign_def packed_index_commute [of j i])
  have asg': "SymMatrix_assign M i j x = Some (M\<lparr>data := (data M)[packed_index i j := x]\<rparr>)"
    using assms(1,2) by (simp add: SymMatrix_assign_def)
  have r1: "SymMatrix_at (M\<lparr>data := (data M)[packed_index i j := x]\<rparr>) i j = Some x"
    using assms(1,2) bound by (simp add: SymMatrix_at_def)
  have r2: "SymMatrix_at (M\<lparr>data := (data M)[packed_index i j := x]\<rparr>) j i = Some x"
    using assms(1,2) bound by (simp add: SymMatrix_at_def packed_index_commute [of j i])
  from asg' r1 r2 have ex: "\<exists>M'. SymMatrix_assign M i j x = Some M'
      \<and> SymMatrix_at M' i j = Some x \<and> SymMatrix_at M' j i = Some x"
    by blast
  show ?thesis
    using packed_index_commute [of i j] packed_index_canonical [OF small] len bound at at' asg ex
    by blast
qed

lemma SymMatrix_symmetric_example:
  "SymMatrix_at \<lparr>nlin = 3, data = [1, 2, 3, 4, 5, 6]\<rparr> 2 0 = Some 4
   \<and> SymMatrix_at \<lparr>nlin = 3, data = [1, 2, 3, 4, 5, 6]\<rparr> 0 2 = Some 4"
  by (simp add: SymMatrix_at_def packed_index_def u32_def)

text \<open>
  Claim C3. The accessors \<open>operator()(i,j)\<close> and \<open>operator()(j,i)\<close> of a \<open>SymMatrix\<close>
  of dimension \<open>N\<close> are specified to resolve to the same one of the \<open>N(N+1)/2\<close> stored
  cells. Both compute one subscript, so they do resolve to one place; but \<open>size()\<close> and
  the subscript are computed in 32-bit unsigned arithmetic, and from \<open>N = 65536\<close> on
  they wrap around. The constructor \<open>SymMatrix(65536)\<close> allocates \<open>32768\<close> cells, not
  \<open>65536 * 65537 / 2 = 2147516416\<close>, and the entry \<open>(0,65535)\<close>, whose subscripts pass
  both assertions, has the subscript \<open>2147450880\<close>, outside the buffer. In a matrix of
  dimension \<open>65537\<close>, of \<open>98305\<close> cells, the entries \<open>(0,65536)\<close> and \<open>(128,255)\<close>
  share the cell \<open>32768\<close>, and a value written through the first is read back through
  the second. Below \<open>65536\<close> the storage is as specified, by
  \<open>SymMatrix_symmetric_below_65536\<close>.
\<close>

theorem C3_storage_wraps_from_65536:
  "nlin (SymMatrix_alloc junk 65536) = 65536
   \<and> length (data (SymMatrix_alloc junk 65536)) = 32768
   \<and> SymMatrix_at (SymMatrix_alloc junk 65536) 0 65535
       = Some (data (SymMatrix_alloc junk 65536) ! 2147450880)
   \<and> nlin (SymMatrix_alloc junk 65537) = 65537
   \<and> length (data (SymMatrix_alloc junk 65537)) = 98305
   \<and> packed_index 0 65536 = 32768
   \<and> packed_index 128 255 = 32768
   \<and> Option.bind (SymMatrix_assign (SymMatrix_alloc junk 65537) 0 65536 x)
         (\<lambda>M. SymMatrix_at M 128 255) = Some x"
  by (simp add: SymMatrix_alloc_def SymMatrix_at_def SymMatrix_assign_def packed_index_def u32_def)

section \<open>The principal sub-block\<close>

lemma for_each_fails:
  assumes "x \<in> set xs" and "I s"
    and "\<And>t. I t \<Longrightarrow> body x t = None"
    and "\<And>y t t'. y \<in> set xs \<Longrightarrow> I t \<Longrightarrow> body y t = Some t' \<Longrightarrow> I t'"
  shows "for_each xs body s = None"
  using assms
proof (induction xs arbitrary: s)
  case Nil
  then show ?case by simp
next
  case (Cons y ys)
  show ?case
  proof (cases "body y s")
    case None
    then show ?thesis by simp
  next
    case (Some t)
    with Cons.prems(2,3) have ne: "x \<noteq> y" by auto
    with Cons.prems(1) have x: "x \<in> set ys" by simp
    from Cons.prems(4) [OF _ Cons.prems(2) Some] have t: "I t" by simp
    have "for_each ys body t = None"
    proof (rule Cons.IH [OF x t Cons.prems(3)])
      fix z u u'
      assume "z \<in> set ys" "I u" "body z u = Some u'"
      then show "I u'" using Cons.prems(4) [of z u u'] by simp
    qed
    with Some show ?thesis by simp
  qed
qed

lemma SymMatrix_submat_shifted_fails:
  assumes "0 < istart" and "istart < iend" and "iend < nlin M"
  shows "SymMatrix_submat junk M istart iend = None"
proof -
  let ?isize = "iend - istart + 1"
  let ?j = "max istart ?isize"
  let ?row = "\<lambda>i mat. for_each [i..<Suc iend]
                 (\<lambda>j mat. do { x \<leftarrow> SymMatrix_at M i j; SymMatrix_assign mat i j x }) mat"
  let ?I = "\<lambda>t :: SymMatrix. nlin t = ?isize"
  from assms have j: "?j \<in> set [istart..<Suc iend]" and big: "\<not> ?j < ?isize" by auto
  have inner: "?row istart (SymMatrix_alloc junk ?isize) = None"
  proof (rule for_each_fails [where I = ?I, OF j])
    show "nlin (SymMatrix_alloc junk ?isize) = ?isize" by (simp add: SymMatrix_alloc_def)
  next
    fix t :: SymMatrix
    assume "nlin t = ?isize"
    with big show "do { x \<leftarrow> SymMatrix_at M istart ?j; SymMatrix_assign t istart ?j x } = None"
      by (auto simp: SymMatrix_assign_def split: Option.bind_splits)
  next
    fix y and t t' :: SymMatrix
    assume "nlin t = ?isize"
      and "do { x \<leftarrow> SymMatrix_at M istart y; SymMatrix_assign t istart y x } = Some t'"
    then show "nlin t' = ?isize"
      by (auto simp: SymMatrix_assign_def split: Option.bind_splits if_splits)
  qed
  from assms have "[istart..<Suc iend] = istart # [Suc istart..<Suc iend]"
    by (simp add: upt_conv_Cons)
  then have "for_each [istart..<Suc iend] ?row (SymMatrix_alloc junk ?isize) = None"
    using inner by simp
  with assms show ?thesis by (simp add: SymMatrix_submat_def Let_def)
qed

lemma SymMatrix_submat_from_zero_example:
  "SymMatrix_submat junk \<lparr>nlin = 3, data = [1, 2, 3, 4, 5, 6]\<rparr> 0 1
     = Some \<lparr>nlin = 2, data = [1, 2, 3]\<rparr>"
  by (simp add: SymMatrix_submat_def SymMatrix_alloc_def SymMatrix_at_def SymMatrix_assign_def
      packed_index_def u32_def upt_rec)

text \<open>
  Claim C8. \<open>submat(istart,iend)\<close> is specified to return the principal sub-block of
  dimension \<open>iend-istart+1\<close> whose entry \<open>(i,j)\<close> is \<open>M(istart+i,istart+j)\<close>. The loop
  body of the source is \<open>mat(i,j) = (*this)(i,j)\<close> with \<open>i\<close> and \<open>j\<close> running from
  \<open>istart\<close> to \<open>iend\<close>: the subscripts of the result are not shifted by \<open>istart\<close>. For a
  matrix of dimension 3 and the block from 1 to 2, the second write is \<open>mat(1,2)\<close> on a
  result of dimension 2, which fails the assertion of the accessor. By
  \<open>SymMatrix_submat_shifted_fails\<close> every block that starts above 0 ends this way; a
  block that starts at 0 is copied, as in \<open>SymMatrix_submat_from_zero_example\<close>.
\<close>

theorem C8_submat_offset_missing:
  "SymMatrix_submat junk \<lparr>nlin = 3, data = [1, 2, 3, 4, 5, 6]\<rparr> 1 2 = None"
  by (simp add: SymMatrix_submat_def SymMatrix_alloc_def SymMatrix_at_def SymMatrix_assign_def
      u32_def upt_rec)

section \<open>Reads and writes through a sink\<close>

lemma SymMatrix_assign_cell:
  assumes wf: "SymMatrix_wf M" and small: "nlin M < 65536" and a: "a < nlin M" and b: "b < nlin M"
  shows "\<exists>M'. SymMatrix_assign M a b x = Some M' \<and> SymMatrix_wf M' \<and> nlin M' = nlin M
           \<and> (\<forall>i j. SymMatrix_at M' i j =
                 map_option (\<lambda>y. if (i = a \<and> j = b) \<or> (i = b \<and> j = a) then x else y)
                   (SymMatrix_at M i j))"
proof -
  let ?M' = "M\<lparr>data := (data M)[packed_index a b := x]\<rparr>"
  have asg: "SymMatrix_assign M a b x = Some ?M'"
    using a b by (simp add: SymMatrix_assign_def)
  have wf': "SymMatrix_wf ?M'"
    using wf by (simp add: SymMatrix_wf_def SymMatrix_size_def)
  have inside: "packed_index a b < length (data M)"
    using wf small a b by (rule packed_index_in_buffer)
  have cell: "SymMatrix_at ?M' i j =
      map_option (\<lambda>y. if (i = a \<and> j = b) \<or> (i = b \<and> j = a) then x else y) (SymMatrix_at M i j)"
    for i j
  proof (cases "i < nlin M \<and> j < nlin M")
    case False
    then show ?thesis by (auto simp: SymMatrix_at_def)
  next
    case True
    with small a b have lt: "i < 65536" "j < 65536" "a < 65536" "b < 65536" by simp_all
    have iff: "packed_index i j = packed_index a b \<longleftrightarrow> (i = a \<and> j = b) \<or> (i = b \<and> j = a)"
      using packed_index_inj [OF _ lt] packed_index_commute [of a b] by auto
    show ?thesis
    proof (cases "(i = a \<and> j = b) \<or> (i = b \<and> j = a)")
      case True
      with iff have "packed_index i j = packed_index a b" by simp
      with True inside a b show ?thesis by (auto simp: SymMatrix_at_def)
    next
      case False
      with iff have "packed_index i j \<noteq> packed_index a b" by simp
      with False True show ?thesis by (auto simp: SymMatrix_at_def)
    qed
  qed
  from asg wf' cell show ?thesis by (intro exI [of _ ?M']) simp
qed

lemma Matrix_assign_cell:
  assumes "a < m_nlin M" and "b < m_ncol M"
  shows "\<exists>M'. Matrix_assign M a b x = Some M' \<and> m_nlin M' = m_nlin M \<and> m_ncol M' = m_ncol M
           \<and> (\<forall>i j. Matrix_at M' i j =
                 map_option (\<lambda>y. if i = a \<and> j = b then x else y) (Matrix_at M i j))"
  using assms by (auto simp: Matrix_assign_def Matrix_at_def)

lemma SymMatrix_at_symmetric: "SymMatrix_at M b a = SymMatrix_at M a b"
  by (auto simp: SymMatrix_at_def packed_index_commute [of b a])

lemma sink_at_symmetric: "symmetric_sink s \<Longrightarrow> sink_at s b a = sink_at s a b"
  by (cases s) (auto simp: SymMatrix_at_symmetric [of _ "b - off" "a - off" for off]
      SymMatrix_at_symmetric [of _ b a])

lemma sink_assign_cell:
  assumes "sink_wf s" and "sink_at s a b \<noteq> None"
  shows "\<exists>s'. sink_assign s a b x = Some s' \<and> sink_wf s' \<and> symmetric_sink s' = symmetric_sink s
           \<and> (\<forall>i j. sink_at s' i j =
                 map_option (\<lambda>y. if addresses (symmetric_sink s) a b i j then x else y)
                   (sink_at s i j))"
proof (cases s)
  case (Sym M)
  with assms have *: "SymMatrix_wf M" "nlin M < 65536" "a < nlin M" "b < nlin M"
    by (auto simp: SymMatrix_at_def split: if_splits)
  from SymMatrix_assign_cell [OF *, of x] Sym * show ?thesis
    by (auto simp: addresses_def)
next
  case (Dense M)
  with assms have "a < m_nlin M" "b < m_ncol M" by (auto simp: Matrix_at_def split: if_splits)
  from Matrix_assign_cell [OF this, of x] Dense show ?thesis
    by (auto simp: addresses_def)
next
  case (SymBloc off M)
  with assms have ge: "off \<le> a" "off \<le> b"
    and *: "SymMatrix_wf M" "nlin M < 65536" "a - off < nlin M" "b - off < nlin M"
    by (auto simp: SymMatrix_at_def split: if_splits)
  from SymMatrix_assign_cell [OF *, of x] obtain M' where
    M': "SymMatrix_assign M (a - off) (b - off) x = Some M'" "SymMatrix_wf M'" "nlin M' = nlin M"
    and cells: "\<And>i j. SymMatrix_at M' i j =
      map_option (\<lambda>y. if (i = a - off \<and> j = b - off) \<or> (i = b - off \<and> j = a - off) then x else y)
        (SymMatrix_at M i j)"
    by blast
  have "sink_at (SymBloc off M') i j =
      map_option (\<lambda>y. if addresses True a b i j then x else y) (sink_at (SymBloc off M) i j)" for i j
  proof (cases "i < off \<or> j < off")
    case True
    then show ?thesis by auto
  next
    case False
    with ge have "(i - off = a - off \<and> j - off = b - off) \<or> (i - off = b - off \<and> j - off = a - off)
        \<longleftrightarrow> addresses True a b i j"
      by (auto simp: addresses_def)
    with False cells [of "i - off" "j - off"] show ?thesis by simp
  qed
  with M' ge SymBloc * show ?thesis by (intro exI [of _ "SymBloc off M'"]) simp
next
  case (Bloc i0 j0 M)
  with assms have ge: "i0 \<le> a" "j0 \<le> b" and *: "a - i0 < m_nlin M" "b - j0 < m_ncol M"
    by (auto simp: Matrix_at_def split: if_splits)
  from Matrix_assign_cell [OF *, of x] obtain M' where
    M': "Matrix_assign M (a - i0) (b - j0) x = Some M'"
    and cells: "\<And>i j. Matrix_at M' i j =
      map_option (\<lambda>y. if i = a - i0 \<and> j = b - j0 then x else y) (Matrix_at M i j)"
    by blast
  have "sink_at (Bloc i0 j0 M') i j =
      map_option (\<lambda>y. if addresses False a b i j then x else y) (sink_at (Bloc i0 j0 M) i j)" for i j
  proof (cases "i < i0 \<or> j < j0")
    case True
    then show ?thesis by auto
  next
    case False
    with ge have "(i - i0 = a - i0 \<and> j - j0 = b - j0) \<longleftrightarrow> addresses False a b i j"
      by (auto simp: addresses_def)
    with False cells [of "i - i0" "j - j0"] show ?thesis by simp
  qed
  with M' ge Bloc show ?thesis by (intro exI [of _ "Bloc i0 j0 M'"]) simp
qed

lemma sink_add_cell:
  assumes "sink_wf s" and "sink_at s a b \<noteq> None"
  shows "\<exists>s'. sink_add s a b x = Some s' \<and> sink_wf s' \<and> symmetric_sink s' = symmetric_sink s
           \<and> (\<forall>i j. sink_at s' i j =
                 map_option (\<lambda>y. if addresses (symmetric_sink s) a b i j then y + x else y)
                   (sink_at s i j))"
proof -
  from assms(2) obtain y0 where y0: "sink_at s a b = Some y0" by auto
  from sink_assign_cell [OF assms, of "y0 + x"] obtain s' where
    s': "sink_assign s a b (y0 + x) = Some s'" "sink_wf s'" "symmetric_sink s' = symmetric_sink s"
    and cells: "\<And>i j. sink_at s' i j =
      map_option (\<lambda>y. if addresses (symmetric_sink s) a b i j then y0 + x else y) (sink_at s i j)"
    by blast
  have "sink_at s' i j =
      map_option (\<lambda>y. if addresses (symmetric_sink s) a b i j then y + x else y) (sink_at s i j)" for i j
  proof (cases "addresses (symmetric_sink s) a b i j")
    case False
    with cells [of i j] show ?thesis by simp
  next
    case True
    then have "sink_at s i j = Some y0"
      using y0 sink_at_symmetric [of s a b] by (auto simp: addresses_def)
    with True cells [of i j] show ?thesis by simp
  qed
  with s' y0 show ?thesis by (intro exI [of _ s']) (simp add: sink_add_def)
qed

lemma sink_do_cell:
  assumes "sink_wf s" and "sink_at s a b \<noteq> None"
  shows "\<exists>s'. sink_do (a, b, w) s = Some s' \<and> sink_wf s' \<and> symmetric_sink s' = symmetric_sink s
           \<and> (\<forall>i j. sink_at s' i j =
                 map_option (\<lambda>y. if addresses (symmetric_sink s) a b i j then apply_op w y else y)
                   (sink_at s i j))"
proof (cases w)
  case (Increase x)
  with sink_add_cell [OF assms, of x] show ?thesis by (simp cong: if_cong)
next
  case (Overwrite x)
  with sink_assign_cell [OF assms, of x] show ?thesis by (simp cong: if_cong)
qed

text \<open>
  A list of writes whose cells are all inside the sink is performed to the end, and each
  entry of the sink then holds what \<open>cell_after\<close> computes from its content before.
\<close>

lemma run_ops_cells:
  assumes "sink_wf s" and "\<forall>(a, b, w) \<in> set ops. sink_at s a b \<noteq> None"
  shows "\<exists>s'. run_ops ops s = Some s' \<and> sink_wf s' \<and> symmetric_sink s' = symmetric_sink s
           \<and> (\<forall>i j. sink_at s' i j =
                 map_option (cell_after (symmetric_sink s) ops i j) (sink_at s i j))"
  using assms
proof (induction ops arbitrary: s)
  case Nil
  then show ?case by (simp add: run_ops_def option.map_ident)
next
  case (Cons op ops)
  obtain a b w where op: "op = (a, b, w)" by (cases op) auto
  from Cons.prems(2) op have ab: "sink_at s a b \<noteq> None" by auto
  from sink_do_cell [OF Cons.prems(1) ab, of w] obtain s1 where
    s1: "sink_do (a, b, w) s = Some s1" "sink_wf s1" "symmetric_sink s1 = symmetric_sink s"
    and c1: "\<And>i j. sink_at s1 i j =
      map_option (\<lambda>y. if addresses (symmetric_sink s) a b i j then apply_op w y else y) (sink_at s i j)"
    by blast
  have "\<forall>(a, b, w) \<in> set ops. sink_at s1 a b \<noteq> None"
    using Cons.prems(2) c1 by auto
  from Cons.IH [OF s1(2) this] obtain s' where
    s': "run_ops ops s1 = Some s'" "sink_wf s'" "symmetric_sink s' = symmetric_sink s1"
    and c': "\<And>i j. sink_at s' i j = map_option (cell_after (symmetric_sink s1) ops i j) (sink_at s1 i j)"
    by blast
  have "sink_at s' i j = map_option (cell_after (symmetric_sink s) (op # ops) i j) (sink_at s i j)"
    for i j
    unfolding c' c1 s1(3) op by (cases "sink_at s i j") simp_all
  then have cells: "\<forall>i j. sink_at s' i j =
      map_option (cell_after (symmetric_sink s) (op # ops) i j) (sink_at s i j)"
    by blast
  have run: "run_ops (op # ops) s = Some s'"
    using s1(1) s'(1) op by (simp add: run_ops_def)
  have kind: "symmetric_sink s' = symmetric_sink s"
    using s1(3) s'(3) by simp
  from run s'(2) kind cells show ?case by blast
qed

section \<open>Allocation of the head matrix\<close>

lemma HeadMatrix_alloc_data:
  "data (HeadMatrix_alloc junk geo) =
     replicate (SymMatrix_size (HeadMatrix_alloc junk geo)) 0"
  by (simp add: HeadMatrix_alloc_def HeadMatrixBlocks_init_def SymMatrix_set_data SymMatrix_alloc_wf)
    (simp add: SymMatrix_set_def SymMatrix_size_def)

lemma HeadMatrix_alloc_nlin:
  "nlin (HeadMatrix_alloc junk geo) = nb_parameters geo - nb_current_barrier_triangles geo"
  by (simp add: HeadMatrix_alloc_def HeadMatrixBlocks_init_def SymMatrix_set_def SymMatrix_alloc_def)

lemma HeadMatrix_alloc_zero_below_65536:
  assumes "nb_current_barrier_triangles geo \<le> nb_parameters geo"
    and "nb_parameters geo - nb_current_barrier_triangles geo < 65536"
  shows "nlin (HeadMatrix_alloc junk geo) = nb_parameters geo - nb_current_barrier_triangles geo
       \<and> data (HeadMatrix_alloc junk geo) = replicate (SymMatrix_size (HeadMatrix_alloc junk geo)) 0
       \<and> (\<forall>i < nlin (HeadMatrix_alloc junk geo). \<forall>j < nlin (HeadMatrix_alloc junk geo).
            SymMatrix_at (HeadMatrix_alloc junk geo) i j = Some 0)
       \<and> HeadMatrix junk geo integrator disableBlock =
           Option.bind
             (for_each (communicating_mesh_pairs geo)
                (HeadMatrix_pair junk geo integrator disableBlock) (Sym (HeadMatrix_alloc junk geo)))
             (\<lambda>symmatrix. deflate symmatrix geo)"
proof -
  let ?M = "HeadMatrix_alloc junk geo"
  have n: "nlin ?M = nb_parameters geo - nb_current_barrier_triangles geo"
    by (rule HeadMatrix_alloc_nlin)
  with assms(2) have small: "nlin ?M < 65536" by simp
  have d: "data ?M = replicate (SymMatrix_size ?M) 0" by (rule HeadMatrix_alloc_data)
  have z: "SymMatrix_at ?M i j = Some 0" if "i < nlin ?M" "j < nlin ?M" for i j
  proof -
    from that small have "packed_index i j < SymMatrix_size ?M"
      unfolding SymMatrix_size_small [OF small] by (rule packed_index_bound)
    with that show ?thesis by (simp add: SymMatrix_at_def d)
  qed
  have h: "HeadMatrix junk geo integrator disableBlock =
           Option.bind
             (for_each (communicating_mesh_pairs geo)
                (HeadMatrix_pair junk geo integrator disableBlock) (Sym ?M))
             (\<lambda>symmatrix. deflate symmatrix geo)"
    by (simp add: HeadMatrix_def)
  from n d z h show ?thesis by blast
qed

lemma HeadMatrix_alloc_example:
  "nlin (HeadMatrix_alloc (\<lambda>k. 7) (bare_geometry 5 2)) = 3
   \<and> SymMatrix_at (HeadMatrix_alloc (\<lambda>k. 7) (bare_geometry 5 2)) 0 2 = Some 0"
  using HeadMatrix_alloc_zero_below_65536 [of "bare_geometry 5 2" "\<lambda>k. 7"]
  by (simp add: bare_geometry_def)

text \<open>
  Claim C4. \<open>HeadMatrix\<close> is specified to allocate its output with the dimension
  \<open>geo.nb_parameters() - geo.nb_current_barrier_triangles()\<close> and with every entry zero
  before a block is written. The dimension is as specified. But \<open>init\<close> calls
  \<open>set(0.0)\<close>, which zeroes the \<open>size()\<close> cells of the buffer, and \<open>size()\<close> wraps
  around from the dimension \<open>65536\<close> on (the slip of claim C3): for a geometry of
  \<open>65536\<close> unknowns the matrix of dimension \<open>65536\<close> has a buffer of \<open>32768\<close> zeros, and
  its entry \<open>(0,65535)\<close> is read at the subscript \<open>2147450880\<close>, beyond the buffer: it
  is not one of the zeroed cells. Below \<open>65536\<close> every entry is zero, by
  \<open>HeadMatrix_alloc_zero_below_65536\<close>.
\<close>

theorem C4_entries_beyond_zeroed_buffer:
  "nlin (HeadMatrix_alloc junk (bare_geometry 65536 0)) = 65536
   \<and> data (HeadMatrix_alloc junk (bare_geometry 65536 0)) = replicate 32768 0
   \<and> packed_index 0 65535 = 2147450880
   \<and> \<not> packed_index 0 65535 < length (data (HeadMatrix_alloc junk (bare_geometry 65536 0)))
   \<and> SymMatrix_at (HeadMatrix_alloc junk (bare_geometry 65536 0)) 0 65535
       = Some (data (HeadMatrix_alloc junk (bare_geometry 65536 0)) ! 2147450880)"
proof -
  let ?M = "HeadMatrix_alloc junk (bare_geometry 65536 0)"
  have n: "nlin ?M = 65536"
    by (simp add: HeadMatrix_alloc_nlin bare_geometry_def)
  then have sz: "SymMatrix_size ?M = 32768"
    by (simp add: SymMatrix_size_def u32_def)
  have d: "data ?M = replicate 32768 0"
    using HeadMatrix_alloc_data [of junk "bare_geometry 65536 0"] sz by simp
  have p: "packed_index 0 65535 = 2147450880"
    by (simp add: packed_index_def u32_def)
  have out: "\<not> packed_index 0 65535 < length (data ?M)"
    by (simp add: d p)
  have at: "SymMatrix_at ?M 0 65535 = Some (data ?M ! 2147450880)"
    using n p by (simp add: SymMatrix_at_def)
  from n d p out at show ?thesis by blast
qed

section \<open>The current-barrier flags\<close>

lemma triangles_of_flag [simp]:
  "triangles_of (m\<lparr>current_barrier := b\<rparr>) V = triangles_of m V"
  by (simp add: triangles_of_def)

lemma BlocksBase_N_flags:
  "BlocksBase_N factor V1 V2 (m1\<lparr>current_barrier := b1\<rparr>) (m2\<lparr>current_barrier := b2\<rparr>) S =
   BlocksBase_N factor V1 V2 m1 m2 S"
  by (simp add: BlocksBase_N_def)

lemma DiagonalBlock_N_cell_flag:
  "DiagonalBlock_N_cell (m\<lparr>current_barrier := b\<rparr>) = DiagonalBlock_N_cell m"
  by (intro ext) (simp add: DiagonalBlock_N_cell_def BlocksBase_N_mesh_def BlocksBase_N_flags)

lemma DiagonalBlock_N_rows_flag:
  "DiagonalBlock_N_rows (m\<lparr>current_barrier := b\<rparr>) coeff S vs =
   DiagonalBlock_N_rows m coeff S vs"
proof (induction vs)
  case Nil
  show ?case by (intro ext) simp
next
  case (Cons v vs)
  show ?case by (intro ext) (simp add: Cons.IH DiagonalBlock_N_cell_flag)
qed

lemma DiagonalBlock_N_flag:
  "DiagonalBlock_N junk intg (blk\<lparr>mesh := (mesh blk)\<lparr>current_barrier := b\<rparr>\<rparr>) coeff matrix =
   DiagonalBlock_N junk intg blk coeff matrix"
  by (simp add: DiagonalBlock_N_def DiagonalBlock_S_block_is_computed_def DiagonalBlock_N_from_def
      DiagonalBlock_N_rows_flag DiagonalBlock_S_def split: list.splits)

lemma NonDiagonalBlock_N_cell_flags:
  "NonDiagonalBlock_N_cell (m1\<lparr>current_barrier := b1\<rparr>) (m2\<lparr>current_barrier := b2\<rparr>) =
   NonDiagonalBlock_N_cell m1 m2"
  by (intro ext) (simp add: NonDiagonalBlock_N_cell_def BlocksBase_N_meshes_def BlocksBase_N_flags)

lemma NonDiagonalBlock_N_flags:
  "NonDiagonalBlock_N junk intg
     (blk\<lparr>mesh1 := (mesh1 blk)\<lparr>current_barrier := b1\<rparr>, mesh2 := (mesh2 blk)\<lparr>current_barrier := b2\<rparr>\<rparr>)
     coeff matrix =
   NonDiagonalBlock_N junk intg blk coeff matrix"
  by (simp add: NonDiagonalBlock_N_def NonDiagonalBlock_S_block_is_computed_def
      NonDiagonalBlock_N_from_def NonDiagonalBlock_N_cell_flags NonDiagonalBlock_S_def
      split: list.splits)

section \<open>The pair loop of the orchestrator\<close>



section \<open>Loops as lists of writes\<close>

lemma for_each_map: "for_each (map f xs) body s = for_each xs (\<lambda>x. body (f x)) s"
  by (induction xs arbitrary: s) (auto split: Option.bind_splits)

lemma for_each_product:
  "for_each xs (\<lambda>x s. for_each ys (body x) s) s
     = for_each (List.product xs ys) (\<lambda>(x, y). body x y) s"
proof (induction xs arbitrary: s)
  case Nil
  show ?case by simp
next
  case (Cons x xs)
  have row: "for_each (map (Pair x) ys) (\<lambda>(x, y). body x y) s = for_each ys (body x) s"
    by (simp add: for_each_map)
  show ?case
  proof (cases "for_each ys (body x) s")
    case None
    then show ?thesis by (simp add: for_each_append row)
  next
    case (Some t)
    then show ?thesis by (simp add: for_each_append row Cons.IH)
  qed
qed

lemma for_each_as_ops:
  assumes "Inv s"
    and "\<And>x t. x \<in> set xs \<Longrightarrow> Inv t \<Longrightarrow> body x t = sink_do (op x) t"
    and "\<And>x t t'. x \<in> set xs \<Longrightarrow> Inv t \<Longrightarrow> sink_do (op x) t = Some t' \<Longrightarrow> Inv t'"
  shows "for_each xs body s = run_ops (map op xs) s"
  using assms
proof (induction xs arbitrary: s)
  case Nil
  show ?case by (simp add: run_ops_def)
next
  case (Cons x xs)
  have first: "body x s = sink_do (op x) s"
    using Cons.prems(2) [of x s] Cons.prems(1) by simp
  show ?case
  proof (cases "sink_do (op x) s")
    case None
    with first show ?thesis by (simp add: run_ops_def)
  next
    case (Some t)
    have t: "Inv t" using Cons.prems(3) [of x s t] Cons.prems(1) Some by simp
    have "for_each xs body t = run_ops (map op xs) t"
    proof (rule Cons.IH [OF t])
      fix y u
      assume "y \<in> set xs" "Inv u"
      then show "body y u = sink_do (op y) u" using Cons.prems(2) [of y u] by simp
    next
      fix y u u'
      assume "y \<in> set xs" "Inv u" "sink_do (op y) u = Some u'"
      then show "Inv u'" using Cons.prems(3) [of y u u'] by simp
    qed
    with first Some show ?thesis by (simp add: run_ops_def)
  qed
qed

lemma upper_pairs_subset: "set (upper_pairs xs) \<subseteq> set xs \<times> set xs"
  by (induction xs) auto

lemma upper_pairs_diagonal: "x \<in> set xs \<Longrightarrow> (x, x) \<in> set (upper_pairs xs)"
  by (induction xs) auto

lemma upper_pairs_total:
  "x \<in> set xs \<Longrightarrow> y \<in> set xs \<Longrightarrow> (x, y) \<in> set (upper_pairs xs) \<or> (y, x) \<in> set (upper_pairs xs)"
  by (induction xs) auto

lemma upper_pairs_antisym:
  "distinct xs \<Longrightarrow> (x, y) \<in> set (upper_pairs xs) \<Longrightarrow> (y, x) \<in> set (upper_pairs xs) \<Longrightarrow> x = y"
proof (induction xs)
  case Nil
  then show ?case by simp
next
  case (Cons z zs)
  from upper_pairs_subset [of zs] have sub: "\<And>a b. (a, b) \<in> set (upper_pairs zs) \<Longrightarrow> a \<in> set zs \<and> b \<in> set zs"
    by auto
  from Cons.prems Cons.IH sub show ?case by auto
qed

text \<open>The content of an entry after a list of increases, and after a list of overwrites.\<close>

lemma cell_after_increases:
  "cell_after symm (map (\<lambda>(p, q). (fa p, fb q, Increase (val p q))) pairs) i j y
     = y + (\<Sum>(p, q)\<leftarrow>pairs. if addresses symm (fa p) (fb q) i j then val p q else 0)"
  by (induction pairs arbitrary: y) (auto simp: algebra_simps)

lemma cell_after_overwrites:
  assumes "\<forall>(a, b, w) \<in> set ops. addresses symm a b i j \<longrightarrow> w = Overwrite x"
    and "\<exists>(a, b, w) \<in> set ops. addresses symm a b i j"
  shows "cell_after symm ops i j y = x"
  using assms
proof (induction ops arbitrary: y)
  case Nil
  then show ?case by simp
next
  case (Cons op ops)
  obtain a b w where op: "op = (a, b, w)" by (cases op) auto
  show ?case
  proof (cases "\<exists>(a, b, w) \<in> set ops. addresses symm a b i j")
    case True
    with Cons.prems(1) Cons.IH op show ?thesis by simp
  next
    case False
    then have rest: "cell_after symm ops i j z = z" for z
      by (induction ops arbitrary: z) auto
    from False Cons.prems op have "addresses symm a b i j" and "w = Overwrite x" by auto
    with rest op show ?thesis by simp
  qed
qed

section \<open>The value of the hypersingular operator\<close>

lemma BlocksBase_N_inner:
  assumes "\<forall>T2\<in>set ts2. sink_at S i1 (t_index T2) = Some (s T2)"
  shows "for_each ts2
           (\<lambda>tp2 result. do {
              let CB2 = CB tp2 V2;
              s \<leftarrow> sink_at S i1 (t_index tp2);
              Some (result - f * dotprod c1 CB2 * s / (a1 * area tp2))
            }) r
         = Some (r - (\<Sum>T2\<leftarrow>ts2. f * dotprod c1 (CB T2 V2) * s T2 / (a1 * area T2)))"
  using assms
proof (induction ts2 arbitrary: r)
  case Nil
  then show ?case by simp
next
  case (Cons T ts)
  then show ?case by (simp add: algebra_simps)
qed

lemma BlocksBase_N_outer:
  assumes "\<forall>T1\<in>set ts1. \<forall>T2\<in>set ts2. sink_at S (t_index T1) (t_index T2) = Some (s T1 T2)"
  shows "for_each ts1
           (\<lambda>tp1 result.
              let CB1 = CB tp1 V1
              in for_each ts2
                   (\<lambda>tp2 result. do {
                      let CB2 = CB tp2 V2;
                      s \<leftarrow> sink_at S (t_index tp1) (t_index tp2);
                      Some (result - f * dotprod CB1 CB2 * s / (area tp1 * area tp2))
                    }) result) r
         = Some (r - (\<Sum>T1\<leftarrow>ts1. \<Sum>T2\<leftarrow>ts2.
                        f * dotprod (CB T1 V1) (CB T2 V2) * s T1 T2 / (area T1 * area T2)))"
  using assms
proof (induction ts1 arbitrary: r)
  case Nil
  then show ?case by simp
next
  case (Cons T ts)
  from Cons.prems have h: "\<forall>T2\<in>set ts2. sink_at S (t_index T) (t_index T2) = Some (s T T2)"
    and t: "\<forall>T1\<in>set ts. \<forall>T2\<in>set ts2. sink_at S (t_index T1) (t_index T2) = Some (s T1 T2)"
    by simp_all
  note i = BlocksBase_N_inner [OF h, of V2 f "CB T V1" "area T" r]
  show ?case
    unfolding for_each.simps Let_def
    by (simp only: i [unfolded Let_def] Option.bind.simps Cons.IH [OF t, unfolded Let_def]
        list.map sum_list.Cons diff_diff_eq)
qed

lemma sum_list_factor_inner:
  "(\<Sum>T2\<leftarrow>ts2. f * d T2 * s T2 / a T2) = f * (\<Sum>T2\<leftarrow>ts2. d T2 * s T2 / a T2)" for f :: real
  by (induction ts2) (simp_all add: distrib_left)

lemma sum_list_factor:
  "(\<Sum>T1\<leftarrow>ts1. \<Sum>T2\<leftarrow>ts2. f * d T1 T2 * s T1 T2 / a T1 T2) =
   f * (\<Sum>T1\<leftarrow>ts1. \<Sum>T2\<leftarrow>ts2. d T1 T2 * s T1 T2 / a T1 T2)" for f :: real
  by (induction ts1) (simp_all only: list.map sum_list.Nil sum_list.Cons sum_list_factor_inner
      distrib_left mult_zero_right)

lemma BlocksBase_N_value:
  assumes "\<forall>T1\<in>set (triangles_of m1 V1). \<forall>T2\<in>set (triangles_of m2 V2).
             sink_at S (t_index T1) (t_index T2) = Some (s T1 T2)"
  shows "BlocksBase_N f V1 V2 m1 m2 S = Some (- f * N_sum V1 V2 m1 m2 s)"
proof -
  have "BlocksBase_N f V1 V2 m1 m2 S =
        Some (0 - (\<Sum>T1\<leftarrow>triangles_of m1 V1. \<Sum>T2\<leftarrow>triangles_of m2 V2.
                f * dotprod (CB T1 V1) (CB T2 V2) * s T1 T2 / (area T1 * area T2)))"
    unfolding BlocksBase_N_def by (rule BlocksBase_N_outer [OF assms])
  also have "(\<Sum>T1\<leftarrow>triangles_of m1 V1. \<Sum>T2\<leftarrow>triangles_of m2 V2.
                f * dotprod (CB T1 V1) (CB T2 V2) * s T1 T2 / (area T1 * area T2))
             = f * N_sum V1 V2 m1 m2 s"
    unfolding N_sum_def by (rule sum_list_factor)
  finally show ?thesis by simp
qed


section \<open>The loops of the hypersingular block\<close>

lemma triangles_of_subset: "set (triangles_of m V) \<subseteq> set (triangles m)"
  by (auto simp: triangles_of_def)

lemma N_loop_cells:
  fixes f :: "Vertex \<Rightarrow> Vertex \<Rightarrow> real"
  assumes wf: "sink_wf matrix"
    and reads: "reads_S (S_of S matrix) (triangles m1) (triangles m2) s"
    and apart: "S_apart S (symmetric_sink matrix) pairs (triangles m1) (triangles m2)"
    and inside: "cells_inside matrix pairs"
  shows "\<exists>matrix'.
           for_each pairs
             (\<lambda>(V1, V2) t. do {
                n \<leftarrow> BlocksBase_N (f V1 V2) V1 V2 m1 m2 (S_of S t);
                sink_add t (v_index V1) (v_index V2) (n * coeff)
              }) matrix = Some matrix'
         \<and> sink_wf matrix' \<and> symmetric_sink matrix' = symmetric_sink matrix
         \<and> increased_by matrix matrix'
             (accumulated (symmetric_sink matrix) pairs
                (\<lambda>V1 V2. coeff * (- f V1 V2 * N_sum V1 V2 m1 m2 s)))"
proof -
  let ?val = "\<lambda>V1 V2. coeff * (- f V1 V2 * N_sum V1 V2 m1 m2 s)"
  let ?op = "\<lambda>(V1, V2). (v_index V1, v_index V2, Increase (?val V1 V2))"
  let ?body = "\<lambda>(V1, V2) t. do {
                n \<leftarrow> BlocksBase_N (f V1 V2) V1 V2 m1 m2 (S_of S t);
                sink_add t (v_index V1) (v_index V2) (n * coeff)
              }"
  let ?Inv = "\<lambda>t. sink_wf t \<and> symmetric_sink t = symmetric_sink matrix
      \<and> reads_S (S_of S t) (triangles m1) (triangles m2) s
      \<and> (\<forall>i j. sink_at t i j = None \<longleftrightarrow> sink_at matrix i j = None)"
  have step: "?body x t = sink_do (?op x) t" if "x \<in> set pairs" "?Inv t" for x t
  proof -
    obtain V1 V2 where x: "x = (V1, V2)" by (cases x) auto
    from that(2) have "\<forall>T1\<in>set (triangles_of m1 V1). \<forall>T2\<in>set (triangles_of m2 V2).
        sink_at (S_of S t) (t_index T1) (t_index T2) = Some (s T1 T2)"
      using triangles_of_subset [of m1 V1] triangles_of_subset [of m2 V2]
      by (auto simp: reads_S_def)
    from BlocksBase_N_value [OF this, of "f V1 V2"] x show ?thesis
      by (simp add: mult.commute)
  qed
  have keep: "?Inv t'" if "x \<in> set pairs" "?Inv t" "sink_do (?op x) t = Some t'" for x t t'
  proof -
    obtain V1 V2 where x: "x = (V1, V2)" by (cases x) auto
    from that(1) x inside have "sink_at matrix (v_index V1) (v_index V2) \<noteq> None"
      by (auto simp: cells_inside_def)
    with that(2) have at: "sink_at t (v_index V1) (v_index V2) \<noteq> None" by simp
    from that(2) have wft: "sink_wf t" by simp
    from sink_add_cell [OF wft at, of "?val V1 V2"] that(3) x
    have wf': "sink_wf t'" and kind: "symmetric_sink t' = symmetric_sink t"
      and cells: "\<And>i j. sink_at t' i j =
        map_option (\<lambda>y. if addresses (symmetric_sink t) (v_index V1) (v_index V2) i j
                         then y + ?val V1 V2 else y) (sink_at t i j)"
      by auto
    have range: "\<forall>i j. sink_at t' i j = None \<longleftrightarrow> sink_at matrix i j = None"
      using cells that(2) by simp
    have "reads_S (S_of S t') (triangles m1) (triangles m2) s"
    proof (cases S)
      case (ABlock b)
      with that(2) show ?thesis by (simp add: S_of_def)
    next
      case TheMatrix
      have "sink_at t' (t_index T1) (t_index T2) = Some (s T1 T2)"
        if T: "T1 \<in> set (triangles m1)" "T2 \<in> set (triangles m2)" for T1 T2
      proof -
        from apart TheMatrix \<open>x \<in> set pairs\<close> x T
        have "\<not> addresses (symmetric_sink matrix) (v_index V1) (v_index V2) (t_index T1) (t_index T2)"
          by (auto simp: S_apart_def)
        moreover from \<open>?Inv t\<close> TheMatrix T
        have "sink_at t (t_index T1) (t_index T2) = Some (s T1 T2)"
          by (simp add: reads_S_def S_of_def)
        moreover from \<open>?Inv t\<close> have "symmetric_sink t = symmetric_sink matrix" by simp
        ultimately show ?thesis using cells [of "t_index T1" "t_index T2"] by simp
      qed
      with TheMatrix show ?thesis by (simp add: reads_S_def S_of_def)
    qed
    with wf' kind range that(2) show ?thesis by simp
  qed
  have inv0: "?Inv matrix" using wf reads by simp
  have eq: "for_each pairs ?body matrix = run_ops (map ?op pairs) matrix"
    by (rule for_each_as_ops [where Inv = ?Inv, OF inv0 step keep])
  have in_ops: "\<forall>(a, b, w) \<in> set (map ?op pairs). sink_at matrix a b \<noteq> None"
    using inside by (auto simp: cells_inside_def)
  from run_ops_cells [OF wf in_ops] obtain matrix' where
    run: "run_ops (map ?op pairs) matrix = Some matrix'" and wf': "sink_wf matrix'"
    and kind: "symmetric_sink matrix' = symmetric_sink matrix"
    and cells: "\<And>i j. sink_at matrix' i j =
      map_option (cell_after (symmetric_sink matrix) (map ?op pairs) i j) (sink_at matrix i j)"
    by blast
  have after: "cell_after (symmetric_sink matrix) (map ?op pairs) i j y
      = y + accumulated (symmetric_sink matrix) pairs ?val i j" for i j y
    unfolding accumulated_def
    using cell_after_increases [of "symmetric_sink matrix" v_index v_index ?val pairs i j y]
    by simp
  have "increased_by matrix matrix' (accumulated (symmetric_sink matrix) pairs ?val)"
    unfolding increased_by_def
  proof (intro allI)
    fix i j
    show "sink_at matrix' i j =
        map_option (\<lambda>y. y + accumulated (symmetric_sink matrix) pairs ?val i j) (sink_at matrix i j)"
      unfolding cells by (cases "sink_at matrix i j") (simp_all only: option.map after)
  qed
  with eq run wf' kind show ?thesis by simp
qed

lemma DiagonalBlock_N_rows_pairs:
  "DiagonalBlock_N_rows m coeff S vs matrix
     = for_each (upper_pairs vs) (\<lambda>(V1, V2). DiagonalBlock_N_cell m coeff S V1 V2) matrix"
proof (induction vs arbitrary: matrix)
  case Nil
  show ?case by simp
next
  case (Cons v vs)
  let ?row = "for_each (v # vs) (\<lambda>vit2 matrix. DiagonalBlock_N_cell m coeff S v vit2 matrix) matrix"
  have row: "for_each (map (Pair v) (v # vs)) (\<lambda>(V1, V2). DiagonalBlock_N_cell m coeff S V1 V2) matrix
      = ?row"
    by (simp only: for_each_map prod.case)
  have "DiagonalBlock_N_rows m coeff S (v # vs) matrix
      = Option.bind ?row (DiagonalBlock_N_rows m coeff S vs)"
    by (simp only: DiagonalBlock_N_rows.simps)
  also have "\<dots> = Option.bind ?row
      (for_each (upper_pairs vs) (\<lambda>(V1, V2). DiagonalBlock_N_cell m coeff S V1 V2))"
    by (cases ?row) (simp_all only: Option.bind.simps Cons.IH)
  also have "\<dots> = for_each (upper_pairs (v # vs)) (\<lambda>(V1, V2). DiagonalBlock_N_cell m coeff S V1 V2) matrix"
    by (simp only: upper_pairs.simps for_each_append row)
  finally show ?case .
qed

lemma DiagonalBlock_N_cell_body:
  "(\<lambda>(V1, V2). DiagonalBlock_N_cell m coeff S V1 V2)
     = (\<lambda>(V1, V2) t. do {
          n \<leftarrow> BlocksBase_N (1 / 4) V1 V2 m m (S_of S t);
          sink_add t (v_index V1) (v_index V2) (n * coeff)
        })"
  by (intro ext) (simp add: DiagonalBlock_N_cell_def BlocksBase_N_mesh_def split: prod.splits)

lemma NonDiagonalBlock_N_cell_body:
  "(\<lambda>(V1, V2). NonDiagonalBlock_N_cell m1 m2 coeff S V1 V2)
     = (\<lambda>(V1, V2) t. do {
          n \<leftarrow> BlocksBase_N (if V1 = V2 then 1 / 2 else 1 / 4) V1 V2 m1 m2 (S_of S t);
          sink_add t (v_index V1) (v_index V2) (n * coeff)
        })"
  by (intro ext) (simp add: NonDiagonalBlock_N_cell_def BlocksBase_N_meshes_def split: prod.splits)

text \<open>
  What the private \<open>N(coeff,S,matrix)\<close> of each block returns: every entry of the matrix
  increased by the contributions of the vertex pairs that address it.
\<close>

lemma DiagonalBlock_N_from_cells:
  assumes "sink_wf matrix"
    and "reads_S (S_of S matrix) (triangles (mesh blk)) (triangles (mesh blk)) s"
    and "S_apart S (symmetric_sink matrix) (upper_pairs (vertices (mesh blk)))
           (triangles (mesh blk)) (triangles (mesh blk))"
    and "cells_inside matrix (upper_pairs (vertices (mesh blk)))"
  shows "\<exists>matrix'. DiagonalBlock_N_from blk coeff S matrix = Some matrix'
         \<and> sink_wf matrix' \<and> symmetric_sink matrix' = symmetric_sink matrix
         \<and> increased_by matrix matrix'
             (accumulated (symmetric_sink matrix) (upper_pairs (vertices (mesh blk)))
                (\<lambda>V1 V2. coeff * (- (1 / 4) * N_sum V1 V2 (mesh blk) (mesh blk) s)))"
  using N_loop_cells [OF assms, of "\<lambda>V1 V2. 1 / 4" coeff]
  by (simp only: DiagonalBlock_N_from_def DiagonalBlock_N_rows_pairs DiagonalBlock_N_cell_body)

lemma NonDiagonalBlock_N_from_cells:
  assumes "sink_wf matrix"
    and "reads_S (S_of S matrix) (triangles (mesh1 blk)) (triangles (mesh2 blk)) s"
    and "S_apart S (symmetric_sink matrix) (List.product (vertices (mesh1 blk)) (vertices (mesh2 blk)))
           (triangles (mesh1 blk)) (triangles (mesh2 blk))"
    and "cells_inside matrix (List.product (vertices (mesh1 blk)) (vertices (mesh2 blk)))"
  shows "\<exists>matrix'. NonDiagonalBlock_N_from blk coeff S matrix = Some matrix'
         \<and> sink_wf matrix' \<and> symmetric_sink matrix' = symmetric_sink matrix
         \<and> increased_by matrix matrix'
             (accumulated (symmetric_sink matrix)
                (List.product (vertices (mesh1 blk)) (vertices (mesh2 blk)))
                (\<lambda>V1 V2. coeff * (- (if V1 = V2 then 1 / 2 else 1 / 4)
                                     * N_sum V1 V2 (mesh1 blk) (mesh2 blk) s)))"
proof -
  have "NonDiagonalBlock_N_from blk coeff S matrix
      = for_each (List.product (vertices (mesh1 blk)) (vertices (mesh2 blk)))
          (\<lambda>(V1, V2). NonDiagonalBlock_N_cell (mesh1 blk) (mesh2 blk) coeff S V1 V2) matrix"
    unfolding NonDiagonalBlock_N_from_def
    using for_each_product [of "vertices (mesh1 blk)" "vertices (mesh2 blk)"
        "\<lambda>V1 V2. NonDiagonalBlock_N_cell (mesh1 blk) (mesh2 blk) coeff S V1 V2" matrix]
    by simp
  with N_loop_cells [OF assms, of "\<lambda>V1 V2. if V1 = V2 then 1 / 2 else 1 / 4" coeff]
  show ?thesis by (simp only: NonDiagonalBlock_N_cell_body)
qed

section \<open>The single-layer block\<close>

lemma run_ops_for_each:
  "run_ops (map op xs) s = for_each xs (\<lambda>x. sink_do (op x)) s"
  by (simp add: run_ops_def for_each_map)

lemma DiagonalBlock_S_rows_pairs:
  "DiagonalBlock_S_rows intg coeff tris matrix
     = for_each (upper_pairs tris)
         (\<lambda>(T1, T2) matrix. sink_assign matrix (t_index T1) (t_index T2) (integrate_S intg T1 T2 * coeff))
         matrix"
proof (induction tris arbitrary: matrix)
  case Nil
  show ?case by simp
next
  case (Cons T tris)
  let ?body = "\<lambda>(T1, T2) matrix.
      sink_assign matrix (t_index T1) (t_index T2) (integrate_S intg T1 T2 * coeff)"
  let ?row = "for_each (T # tris)
      (\<lambda>triangle2 matrix. sink_assign matrix (t_index T) (t_index triangle2)
         (integrate_S intg T triangle2 * coeff)) matrix"
  have row: "for_each (map (Pair T) (T # tris)) ?body matrix = ?row"
    by (simp only: for_each_map prod.case)
  have "DiagonalBlock_S_rows intg coeff (T # tris) matrix
      = Option.bind ?row (DiagonalBlock_S_rows intg coeff tris)"
    by (simp only: DiagonalBlock_S_rows.simps)
  also have "\<dots> = Option.bind ?row (for_each (upper_pairs tris) ?body)"
    by (cases ?row) (simp_all only: Option.bind.simps Cons.IH)
  also have "\<dots> = for_each (upper_pairs (T # tris)) ?body matrix"
    by (simp only: upper_pairs.simps for_each_append row)
  finally show ?case .
qed

lemma S_loop_ops:
  "for_each pairs
     (\<lambda>(T1, T2) matrix. sink_assign matrix (t_index T1) (t_index T2) (val T1 T2)) matrix
   = run_ops (map (\<lambda>(T1, T2). (t_index T1, t_index T2, Overwrite (val T1 T2))) pairs) matrix"
proof -
  have "(\<lambda>x. sink_do ((\<lambda>(T1, T2). (t_index T1, t_index T2, Overwrite (val T1 T2))) x))
      = (\<lambda>(T1, T2) matrix. sink_assign matrix (t_index T1) (t_index T2) (val T1 T2))"
    by (intro ext) (simp split: prod.splits)
  then show ?thesis by (simp only: run_ops_for_each)
qed

text \<open>
  A loop of overwrites over pairs of triangles, on a sink that holds all their cells:
  it returns, and a pair that alone addresses its cell is read back with its value.
\<close>

lemma S_loop_cells:
  assumes wf: "sink_wf s0"
    and inside: "\<forall>(T1, T2) \<in> set pairs. sink_at s0 (t_index T1) (t_index T2) \<noteq> None"
  shows "\<exists>s'. for_each pairs
                 (\<lambda>(T1, T2) matrix. sink_assign matrix (t_index T1) (t_index T2) (val T1 T2)) s0
               = Some s'
           \<and> sink_wf s' \<and> symmetric_sink s' = symmetric_sink s0
           \<and> (\<forall>T1 T2. (T1, T2) \<in> set pairs \<longrightarrow>
                 (\<forall>A B. (A, B) \<in> set pairs \<longrightarrow>
                     addresses (symmetric_sink s0) (t_index A) (t_index B) (t_index T1) (t_index T2)
                     \<longrightarrow> A = T1 \<and> B = T2)
                 \<longrightarrow> sink_at s' (t_index T1) (t_index T2) = Some (val T1 T2))"
proof -
  let ?ops = "map (\<lambda>(T1, T2). (t_index T1, t_index T2, Overwrite (val T1 T2))) pairs"
  have in_ops: "\<forall>(a, b, w) \<in> set ?ops. sink_at s0 a b \<noteq> None"
    using inside by auto
  from run_ops_cells [OF wf in_ops] obtain s' where
    run: "run_ops ?ops s0 = Some s'" and wf': "sink_wf s'"
    and kind: "symmetric_sink s' = symmetric_sink s0"
    and cells: "\<And>i j. sink_at s' i j = map_option (cell_after (symmetric_sink s0) ?ops i j) (sink_at s0 i j)"
    by blast
  have "sink_at s' (t_index T1) (t_index T2) = Some (val T1 T2)"
    if p: "(T1, T2) \<in> set pairs"
      and only: "\<forall>A B. (A, B) \<in> set pairs \<longrightarrow>
        addresses (symmetric_sink s0) (t_index A) (t_index B) (t_index T1) (t_index T2)
        \<longrightarrow> A = T1 \<and> B = T2"
    for T1 T2
  proof -
    from inside p obtain y where y: "sink_at s0 (t_index T1) (t_index T2) = Some y" by auto
    have all: "\<forall>(a, b, w) \<in> set ?ops.
        addresses (symmetric_sink s0) a b (t_index T1) (t_index T2) \<longrightarrow> w = Overwrite (val T1 T2)"
      using only by auto
    have "addresses (symmetric_sink s0) (t_index T1) (t_index T2) (t_index T1) (t_index T2)"
      by (simp add: addresses_def)
    with p have some: "\<exists>(a, b, w) \<in> set ?ops.
        addresses (symmetric_sink s0) a b (t_index T1) (t_index T2)"
      by force
    from cell_after_overwrites [OF all some, of y] cells [of "t_index T1" "t_index T2"] y
    show ?thesis by simp
  qed
  then have "\<forall>T1 T2. (T1, T2) \<in> set pairs \<longrightarrow>
      (\<forall>A B. (A, B) \<in> set pairs \<longrightarrow>
          addresses (symmetric_sink s0) (t_index A) (t_index B) (t_index T1) (t_index T2)
          \<longrightarrow> A = T1 \<and> B = T2)
      \<longrightarrow> sink_at s' (t_index T1) (t_index T2) = Some (val T1 T2)"
    by blast
  with run wf' kind show ?thesis unfolding S_loop_ops by blast
qed

lemma indexed_from_inj:
  assumes "indexed_from off n tris" and "A \<in> set tris" and "B \<in> set tris"
    and "t_index A = t_index B"
  shows "A = B"
proof -
  from assms(1) have "inj_on t_index (set tris)"
    by (simp add: indexed_from_def distinct_map)
  with assms(2-4) show ?thesis by (auto dest: inj_onD)
qed

lemma indexed_from_distinct: "indexed_from off n tris \<Longrightarrow> distinct tris"
  by (simp add: indexed_from_def distinct_map)

text \<open>The temporary block of \<open>DiagonalBlock::N\<close> after \<open>S(coeff,Sbloc)\<close>.\<close>

lemma DiagonalBlock_S_fresh:
  assumes idx: "indexed_from off n tris" and small: "n < 65536"
  shows "\<exists>Sbloc. DiagonalBlock_S_rows intg coeff tris (SymBloc off (SymMatrix_alloc junk n)) = Some Sbloc
           \<and> sink_wf Sbloc \<and> reads_S Sbloc tris tris (S_one_mesh intg coeff tris)"
proof -
  let ?s0 = "SymBloc off (SymMatrix_alloc junk n)"
  let ?val = "\<lambda>T1 T2. integrate_S intg T1 T2 * coeff"
  have wf: "sink_wf ?s0"
    using small by (simp add: SymMatrix_alloc_wf) (simp add: SymMatrix_alloc_def)
  have at: "sink_at ?s0 (t_index T1) (t_index T2) \<noteq> None"
    if "T1 \<in> set tris" "T2 \<in> set tris" for T1 T2
    using idx that by (auto simp: indexed_from_def SymMatrix_at_def SymMatrix_alloc_def)
  have inside: "\<forall>(T1, T2) \<in> set (upper_pairs tris). sink_at ?s0 (t_index T1) (t_index T2) \<noteq> None"
    using at upper_pairs_subset [of tris] by (auto simp del: sink_at.simps)
  from S_loop_cells [OF wf inside, of ?val] obtain Sbloc where
    run: "DiagonalBlock_S_rows intg coeff tris ?s0 = Some Sbloc" and wf': "sink_wf Sbloc"
    and kind: "symmetric_sink Sbloc"
    and cells: "\<And>T1 T2. (T1, T2) \<in> set (upper_pairs tris) \<Longrightarrow>
        (\<forall>A B. (A, B) \<in> set (upper_pairs tris) \<longrightarrow>
            addresses True (t_index A) (t_index B) (t_index T1) (t_index T2) \<longrightarrow> A = T1 \<and> B = T2)
        \<Longrightarrow> sink_at Sbloc (t_index T1) (t_index T2) = Some (?val T1 T2)"
    unfolding DiagonalBlock_S_rows_pairs symmetric_sink.simps by blast
  have upper: "sink_at Sbloc (t_index T1) (t_index T2) = Some (?val T1 T2)"
    if p: "(T1, T2) \<in> set (upper_pairs tris)" for T1 T2
  proof (rule cells [OF p], intro allI impI)
    fix A B
    assume q: "(A, B) \<in> set (upper_pairs tris)"
      and ad: "addresses True (t_index A) (t_index B) (t_index T1) (t_index T2)"
    from p q upper_pairs_subset [of tris]
    have mem: "T1 \<in> set tris" "T2 \<in> set tris" "A \<in> set tris" "B \<in> set tris" by auto
    from ad consider "t_index T1 = t_index A" "t_index T2 = t_index B"
      | "t_index T1 = t_index B" "t_index T2 = t_index A"
      by (auto simp: addresses_def)
    then show "A = T1 \<and> B = T2"
    proof cases
      case 1
      with mem show ?thesis using indexed_from_inj [OF idx] by blast
    next
      case 2
      with mem have "A = T2" "B = T1" using indexed_from_inj [OF idx] by blast+
      moreover from this p q have "T1 = T2"
        using upper_pairs_antisym [OF indexed_from_distinct [OF idx]] by blast
      ultimately show ?thesis by simp
    qed
  qed
  have "sink_at Sbloc (t_index T1) (t_index T2) = Some (S_one_mesh intg coeff tris T1 T2)"
    if "T1 \<in> set tris" "T2 \<in> set tris" for T1 T2
  proof (cases "(T1, T2) \<in> set (upper_pairs tris)")
    case True
    with upper [OF True] show ?thesis by (simp add: S_one_mesh_def)
  next
    case False
    with that upper_pairs_total [of T1 tris T2] have "(T2, T1) \<in> set (upper_pairs tris)" by blast
    from upper [OF this] sink_at_symmetric [OF kind, of "t_index T1" "t_index T2"] False
    show ?thesis by (simp add: S_one_mesh_def)
  qed
  with run wf' show ?thesis by (auto simp: reads_S_def)
qed

text \<open>The temporary block of \<open>NonDiagonalBlock::N\<close> after \<open>S(coeff,Sbloc)\<close>.\<close>

lemma NonDiagonalBlock_S_fresh:
  assumes idx1: "indexed_from off1 n1 (triangles (mesh1 blk))"
    and idx2: "indexed_from off2 n2 (triangles (mesh2 blk))"
  shows "\<exists>Sbloc. NonDiagonalBlock_S intg blk coeff (Bloc off1 off2 (Matrix_alloc junk n1 n2)) = Some Sbloc
           \<and> sink_wf Sbloc
           \<and> reads_S Sbloc (triangles (mesh1 blk)) (triangles (mesh2 blk)) (S_two_meshes intg coeff)"
proof -
  let ?s0 = "Bloc off1 off2 (Matrix_alloc junk n1 n2)"
  let ?val = "\<lambda>T1 T2. integrate_S intg T1 T2 * coeff"
  let ?pairs = "List.product (triangles (mesh1 blk)) (triangles (mesh2 blk))"
  have wf: "sink_wf ?s0" by simp
  have inside: "\<forall>(T1, T2) \<in> set ?pairs. sink_at ?s0 (t_index T1) (t_index T2) \<noteq> None"
    using idx1 idx2 by (auto simp: indexed_from_def Matrix_at_def Matrix_alloc_def)
  have loop: "NonDiagonalBlock_S intg blk coeff ?s0
      = for_each ?pairs
          (\<lambda>(T1, T2) matrix. sink_assign matrix (t_index T1) (t_index T2) (?val T1 T2)) ?s0"
    unfolding NonDiagonalBlock_S_def
    using for_each_product [of "triangles (mesh1 blk)" "triangles (mesh2 blk)"
        "\<lambda>T1 T2 matrix. sink_assign matrix (t_index T1) (t_index T2) (?val T1 T2)" ?s0]
    by simp
  from S_loop_cells [OF wf inside, of ?val] obtain Sbloc where
    run: "NonDiagonalBlock_S intg blk coeff ?s0 = Some Sbloc" and wf': "sink_wf Sbloc"
    and cells: "\<And>T1 T2. (T1, T2) \<in> set ?pairs \<Longrightarrow>
        (\<forall>A B. (A, B) \<in> set ?pairs \<longrightarrow>
            addresses False (t_index A) (t_index B) (t_index T1) (t_index T2) \<longrightarrow> A = T1 \<and> B = T2)
        \<Longrightarrow> sink_at Sbloc (t_index T1) (t_index T2) = Some (?val T1 T2)"
    unfolding loop symmetric_sink.simps by blast
  have "sink_at Sbloc (t_index T1) (t_index T2) = Some (S_two_meshes intg coeff T1 T2)"
    if m: "T1 \<in> set (triangles (mesh1 blk))" "T2 \<in> set (triangles (mesh2 blk))" for T1 T2
  proof -
    from m have p: "(T1, T2) \<in> set ?pairs" by simp
    have "sink_at Sbloc (t_index T1) (t_index T2) = Some (?val T1 T2)"
    proof (rule cells [OF p], intro allI impI)
      fix A B
      assume q: "(A, B) \<in> set ?pairs"
        and ad: "addresses False (t_index A) (t_index B) (t_index T1) (t_index T2)"
      then have "t_index T1 = t_index A" "t_index T2 = t_index B" by (auto simp: addresses_def)
      with q m show "A = T1 \<and> B = T2"
        using indexed_from_inj [OF idx1] indexed_from_inj [OF idx2] by auto
    qed
    then show ?thesis by (simp add: S_two_meshes_def)
  qed
  with run wf' show ?thesis by (auto simp: reads_S_def)
qed

section \<open>The hypersingular block from the cached and from the temporary single-layer block\<close>

lemma DiagonalBlock_N_reuse_cells:
  assumes "Scoeff blk \<noteq> 0" and "sink_wf matrix"
    and "reads_S matrix (triangles (mesh blk)) (triangles (mesh blk)) s"
    and "S_apart TheMatrix (symmetric_sink matrix) (upper_pairs (vertices (mesh blk)))
           (triangles (mesh blk)) (triangles (mesh blk))"
    and "cells_inside matrix (upper_pairs (vertices (mesh blk)))"
  shows "\<exists>matrix'. DiagonalBlock_N junk intg blk coeff matrix = Some matrix'
         \<and> sink_wf matrix' \<and> symmetric_sink matrix' = symmetric_sink matrix
         \<and> increased_by matrix matrix'
             (accumulated (symmetric_sink matrix) (upper_pairs (vertices (mesh blk)))
                (\<lambda>V1 V2. coeff / Scoeff blk * (- (1 / 4) * N_sum V1 V2 (mesh blk) (mesh blk) s)))"
proof -
  have reads: "reads_S (S_of TheMatrix matrix) (triangles (mesh blk)) (triangles (mesh blk)) s"
    using assms(3) by (simp add: S_of_def)
  have "DiagonalBlock_N junk intg blk coeff matrix
      = DiagonalBlock_N_from blk (coeff / Scoeff blk) TheMatrix matrix"
    using assms(1) by (simp add: DiagonalBlock_N_def DiagonalBlock_S_block_is_computed_def)
  with DiagonalBlock_N_from_cells [OF assms(2) reads assms(4,5), of "coeff / Scoeff blk"]
  show ?thesis by simp
qed

lemma DiagonalBlock_N_fresh_cells:
  assumes "Scoeff blk = 0" and "sink_wf matrix"
    and "triangles (mesh blk) = front # rest"
    and "indexed_from (t_index front) (length (triangles (mesh blk))) (triangles (mesh blk))"
    and "length (triangles (mesh blk)) < 65536"
    and "cells_inside matrix (upper_pairs (vertices (mesh blk)))"
  shows "\<exists>Sbloc matrix'.
           DiagonalBlock_S intg blk 1
             (SymBloc (t_index front) (SymMatrix_alloc junk (length (triangles (mesh blk))))) = Some Sbloc
         \<and> reads_S Sbloc (triangles (mesh blk)) (triangles (mesh blk))
             (S_one_mesh intg 1 (triangles (mesh blk)))
         \<and> DiagonalBlock_N junk intg blk coeff matrix = Some matrix'
         \<and> sink_wf matrix' \<and> symmetric_sink matrix' = symmetric_sink matrix
         \<and> increased_by matrix matrix'
             (accumulated (symmetric_sink matrix) (upper_pairs (vertices (mesh blk)))
                (\<lambda>V1 V2. coeff * (- (1 / 4) * N_sum V1 V2 (mesh blk) (mesh blk)
                                                 (S_one_mesh intg 1 (triangles (mesh blk))))))"
proof -
  let ?tris = "triangles (mesh blk)"
  let ?s0 = "SymBloc (t_index front) (SymMatrix_alloc junk (length ?tris))"
  from DiagonalBlock_S_fresh [OF assms(4,5), of intg 1 junk] obtain Sbloc where
    S: "DiagonalBlock_S intg blk 1 ?s0 = Some Sbloc"
    and r: "reads_S Sbloc ?tris ?tris (S_one_mesh intg 1 ?tris)"
    by (auto simp: DiagonalBlock_S_def)
  have reads: "reads_S (S_of (ABlock Sbloc) matrix) ?tris ?tris (S_one_mesh intg 1 ?tris)"
    using r by (simp add: S_of_def)
  have apart: "S_apart (ABlock Sbloc) (symmetric_sink matrix) (upper_pairs (vertices (mesh blk)))
      ?tris ?tris"
    by (simp add: S_apart_def)
  have "DiagonalBlock_N junk intg blk coeff matrix
      = DiagonalBlock_N_from blk coeff (ABlock Sbloc) matrix"
    using assms(1,3) S by (simp add: DiagonalBlock_N_def DiagonalBlock_S_block_is_computed_def)
  with DiagonalBlock_N_from_cells [OF assms(2) reads apart assms(6), of coeff] S r
  show ?thesis by simp
qed

lemma NonDiagonalBlock_N_reuse_cells:
  assumes "Scoeff2 blk \<noteq> 0" and "sink_wf matrix"
    and "reads_S matrix (triangles (mesh1 blk)) (triangles (mesh2 blk)) s"
    and "S_apart TheMatrix (symmetric_sink matrix)
           (List.product (vertices (mesh1 blk)) (vertices (mesh2 blk)))
           (triangles (mesh1 blk)) (triangles (mesh2 blk))"
    and "cells_inside matrix (List.product (vertices (mesh1 blk)) (vertices (mesh2 blk)))"
  shows "\<exists>matrix'. NonDiagonalBlock_N junk intg blk coeff matrix = Some matrix'
         \<and> sink_wf matrix' \<and> symmetric_sink matrix' = symmetric_sink matrix
         \<and> increased_by matrix matrix'
             (accumulated (symmetric_sink matrix)
                (List.product (vertices (mesh1 blk)) (vertices (mesh2 blk)))
                (\<lambda>V1 V2. coeff / Scoeff2 blk * (- (if V1 = V2 then 1 / 2 else 1 / 4)
                                     * N_sum V1 V2 (mesh1 blk) (mesh2 blk) s)))"
proof -
  have reads: "reads_S (S_of TheMatrix matrix) (triangles (mesh1 blk)) (triangles (mesh2 blk)) s"
    using assms(3) by (simp add: S_of_def)
  have "NonDiagonalBlock_N junk intg blk coeff matrix
      = NonDiagonalBlock_N_from blk (coeff / Scoeff2 blk) TheMatrix matrix"
    using assms(1) by (simp add: NonDiagonalBlock_N_def NonDiagonalBlock_S_block_is_computed_def)
  with NonDiagonalBlock_N_from_cells [OF assms(2) reads assms(4,5), of "coeff / Scoeff2 blk"]
  show ?thesis by simp
qed

lemma NonDiagonalBlock_N_fresh_cells:
  assumes "Scoeff2 blk = 0" and "sink_wf matrix"
    and "triangles (mesh1 blk) = front_a # rest_a"
    and "triangles (mesh2 blk) = front_b # rest_b"
    and "indexed_from (t_index front_a) (length (triangles (mesh1 blk))) (triangles (mesh1 blk))"
    and "indexed_from (t_index front_b) (length (triangles (mesh2 blk))) (triangles (mesh2 blk))"
    and "cells_inside matrix (List.product (vertices (mesh1 blk)) (vertices (mesh2 blk)))"
  shows "\<exists>Sbloc matrix'.
           NonDiagonalBlock_S intg blk 1
             (Bloc (t_index front_a) (t_index front_b)
                (Matrix_alloc junk (length (triangles (mesh1 blk))) (length (triangles (mesh2 blk)))))
             = Some Sbloc
         \<and> reads_S Sbloc (triangles (mesh1 blk)) (triangles (mesh2 blk)) (S_two_meshes intg 1)
         \<and> NonDiagonalBlock_N junk intg blk coeff matrix = Some matrix'
         \<and> sink_wf matrix' \<and> symmetric_sink matrix' = symmetric_sink matrix
         \<and> increased_by matrix matrix'
             (accumulated (symmetric_sink matrix)
                (List.product (vertices (mesh1 blk)) (vertices (mesh2 blk)))
                (\<lambda>V1 V2. coeff * (- (if V1 = V2 then 1 / 2 else 1 / 4)
                                     * N_sum V1 V2 (mesh1 blk) (mesh2 blk) (S_two_meshes intg 1))))"
proof -
  let ?s0 = "Bloc (t_index front_a) (t_index front_b)
      (Matrix_alloc junk (length (triangles (mesh1 blk))) (length (triangles (mesh2 blk))))"
  from NonDiagonalBlock_S_fresh [OF assms(5,6), of intg 1 junk] obtain Sbloc where
    S: "NonDiagonalBlock_S intg blk 1 ?s0 = Some Sbloc"
    and r: "reads_S Sbloc (triangles (mesh1 blk)) (triangles (mesh2 blk)) (S_two_meshes intg 1)"
    by blast
  have reads: "reads_S (S_of (ABlock Sbloc) matrix) (triangles (mesh1 blk)) (triangles (mesh2 blk))
      (S_two_meshes intg 1)"
    using r by (simp add: S_of_def)
  have apart: "S_apart (ABlock Sbloc) (symmetric_sink matrix)
      (List.product (vertices (mesh1 blk)) (vertices (mesh2 blk)))
      (triangles (mesh1 blk)) (triangles (mesh2 blk))"
    by (simp add: S_apart_def)
  have "NonDiagonalBlock_N junk intg blk coeff matrix
      = NonDiagonalBlock_N_from blk coeff (ABlock Sbloc) matrix"
    using assms(1,3,4) S
    by (simp add: NonDiagonalBlock_N_def NonDiagonalBlock_S_block_is_computed_def)
  with NonDiagonalBlock_N_from_cells [OF assms(2) reads apart assms(7), of coeff] S r
  show ?thesis by simp
qed

section \<open>Evaluation on the concrete inputs\<close>

lemmas example_defs =
  vA_def vB_def vC_def tABC_def mesh_ABC_def vD_def vE_def vF_def tDEF_def mesh_DEF_def
  unit_integrator_def zero_sym4_def zero_sym8_def two_S_sym4_def

lemmas engine_defs =
  DiagonalBlock_N_def DiagonalBlock_S_block_is_computed_def DiagonalBlock_new_def
  DiagonalBlock_S_def DiagonalBlock_N_from_def DiagonalBlock_N_cell_def
  NonDiagonalBlock_N_def NonDiagonalBlock_S_block_is_computed_def NonDiagonalBlock_new_def
  NonDiagonalBlock_S_def NonDiagonalBlock_N_from_def NonDiagonalBlock_N_cell_def
  BlocksBase_N_mesh_def BlocksBase_N_meshes_def BlocksBase_N_def triangles_of_def contains_def
  CB_def edge_def vect_minus_def dotprod_def S_of_def sink_add_def
  SymMatrix_at_def SymMatrix_assign_def SymMatrix_alloc_def Matrix_alloc_def Matrix_at_def
  Matrix_assign_def packed_index_def u32_def

lemma DiagonalBlock_N_fresh_example:
  "DiagonalBlock_N (\<lambda>k. 0) unit_integrator (DiagonalBlock_new (mesh_ABC False)) 1 zero_sym4
     = Some (Sym \<lparr>nlin = 4, data = [- 2, 1, - 1, 1, 0, - 1, 0, 0, 0, 0]\<rparr>)"
  by (simp add: engine_defs example_defs upt_rec)

lemma DiagonalBlock_N_reuse_example:
  "DiagonalBlock_N (\<lambda>k. 0) unit_integrator \<lparr>mesh = mesh_ABC False, Scoeff = 2\<rparr> 1 two_S_sym4
     = Some (Sym \<lparr>nlin = 4, data = [- 2, 1, - 1, 1, 0, - 1, 0, 0, 0, 2]\<rparr>)"
  by (simp add: engine_defs example_defs upt_rec)

lemma NonDiagonalBlock_N_fresh_example:
  "NonDiagonalBlock_N (\<lambda>k. 0) unit_integrator (NonDiagonalBlock_new (mesh_ABC False) (mesh_DEF False)) 1 zero_sym8
     = Some (Sym \<lparr>nlin = 8, data =
         [0, 0, 0, 0, 0, 0, 0, 0, 0, 0, - 2, 1, 1, 0, 0, 1, - 1, 0, 0, 0,
          0, 1, 0, - 1, 0, 0, 0, 0, 0, 0, 0, 0, 0, 0, 0, 0]\<rparr>)"
  by (simp add: engine_defs example_defs upt_rec)

lemma DiagonalBlock_set_S_block_example:
  "DiagonalBlock_set_S_block unit_integrator (DiagonalBlock_new (mesh_ABC False)) 2 zero_sym4
     = Some (\<lparr>mesh = mesh_ABC False, Scoeff = 2\<rparr>, two_S_sym4)"
  by (simp add: DiagonalBlock_set_S_block_def engine_defs example_defs)

lemma DiagonalBlock_set_S_block_zero_example:
  "DiagonalBlock_set_S_block unit_integrator (DiagonalBlock_new (mesh_ABC False)) 0 zero_sym4
     = Some (DiagonalBlock_new (mesh_ABC False), zero_sym4)"
  by (simp add: DiagonalBlock_set_S_block_def engine_defs example_defs)




section \<open>The cached coefficient of the single-layer block\<close>

text \<open>
  Claim C10. In both blocks the quotient \<open>coeff/Scoeff\<close> is formed only in the branch
  taken when \<open>Scoeff\<close> is not zero, which is what \<open>S_block_is_computed()\<close> tests. A new
  block has \<open>Scoeff = 0\<close>, and only \<open>set_S_block\<close> changes it: to its coefficient when it
  runs, not at all when a \<open>current_barrier\<close> flag makes it skip. So after a skipped call,
  or a call with coefficient zero, \<open>N\<close> takes the branch that computes a fresh \<open>S\<close>, and
  when \<open>N\<close> divides, the divisor is the nonzero coefficient of a call of \<open>set_S_block\<close>
  that ran.
\<close>

theorem C10_rescaling_divisor_nonzero:
  "(DiagonalBlock_S_block_is_computed dblk \<longleftrightarrow> Scoeff dblk \<noteq> 0)
   \<and> DiagonalBlock_N junk intg dblk coeff matrix =
       (if Scoeff dblk \<noteq> 0
        then DiagonalBlock_N_from dblk (coeff / Scoeff dblk) TheMatrix matrix
        else case triangles (mesh dblk) of
               [] \<Rightarrow> None
             | front # rest \<Rightarrow>
                 Option.bind
                   (DiagonalBlock_S intg dblk 1
                      (SymBloc (t_index front) (SymMatrix_alloc junk (length (triangles (mesh dblk))))))
                   (\<lambda>Sbloc. DiagonalBlock_N_from dblk coeff (ABlock Sbloc) matrix))
   \<and> Scoeff (DiagonalBlock_new m) = 0
   \<and> (DiagonalBlock_set_S_block intg dblk c matrix = Some (dblk', matrix') \<longrightarrow>
        mesh dblk' = mesh dblk
        \<and> Scoeff dblk' = (if current_barrier (mesh dblk) then Scoeff dblk else c))
   \<and> (DiagonalBlock_set_S_block intg (DiagonalBlock_new m) c matrix = Some (dblk', matrix') \<longrightarrow>
        (current_barrier m \<or> c = 0 \<longrightarrow> \<not> DiagonalBlock_S_block_is_computed dblk')
        \<and> (DiagonalBlock_S_block_is_computed dblk' \<longrightarrow>
             Scoeff dblk' = c \<and> c \<noteq> 0 \<and> \<not> current_barrier m))
   \<and> (NonDiagonalBlock_S_block_is_computed nblk \<longleftrightarrow> Scoeff2 nblk \<noteq> 0)
   \<and> NonDiagonalBlock_N junk intg nblk coeff matrix =
       (if Scoeff2 nblk \<noteq> 0
        then NonDiagonalBlock_N_from nblk (coeff / Scoeff2 nblk) TheMatrix matrix
        else case (triangles (mesh1 nblk), triangles (mesh2 nblk)) of
               (front1 # rest1, front2 # rest2) \<Rightarrow>
                 Option.bind
                   (NonDiagonalBlock_S intg nblk 1
                      (Bloc (t_index front1) (t_index front2)
                         (Matrix_alloc junk (length (triangles (mesh1 nblk)))
                            (length (triangles (mesh2 nblk))))))
                   (\<lambda>Sbloc. NonDiagonalBlock_N_from nblk coeff (ABlock Sbloc) matrix)
             | _ \<Rightarrow> None)
   \<and> Scoeff2 (NonDiagonalBlock_new m m') = 0
   \<and> (NonDiagonalBlock_set_S_block intg nblk c matrix = Some (nblk', matrix'') \<longrightarrow>
        mesh1 nblk' = mesh1 nblk \<and> mesh2 nblk' = mesh2 nblk
        \<and> Scoeff2 nblk' =
            (if current_barrier (mesh1 nblk) \<or> current_barrier (mesh2 nblk) then Scoeff2 nblk else c))
   \<and> (NonDiagonalBlock_set_S_block intg (NonDiagonalBlock_new m m') c matrix = Some (nblk', matrix'') \<longrightarrow>
        (current_barrier m \<or> current_barrier m' \<or> c = 0 \<longrightarrow>
           \<not> NonDiagonalBlock_S_block_is_computed nblk')
        \<and> (NonDiagonalBlock_S_block_is_computed nblk' \<longrightarrow>
             Scoeff2 nblk' = c \<and> c \<noteq> 0 \<and> \<not> current_barrier m \<and> \<not> current_barrier m'))"
proof -
  have d: "DiagonalBlock_set_S_block intg blk c matrix = Some (blk', mat') \<Longrightarrow>
        mesh blk' = mesh blk
        \<and> Scoeff blk' = (if current_barrier (mesh blk) then Scoeff blk else c)" for blk blk' mat'
    by (auto simp: DiagonalBlock_set_S_block_def split: if_splits Option.bind_splits)
  have n: "NonDiagonalBlock_set_S_block intg blk c matrix = Some (blk', mat') \<Longrightarrow>
        mesh1 blk' = mesh1 blk \<and> mesh2 blk' = mesh2 blk
        \<and> Scoeff2 blk' =
            (if current_barrier (mesh1 blk) \<or> current_barrier (mesh2 blk) then Scoeff2 blk else c)"
    for blk blk' mat'
    by (auto simp: NonDiagonalBlock_set_S_block_def split: if_splits Option.bind_splits)
  have d0: "DiagonalBlock_set_S_block intg (DiagonalBlock_new m) c matrix = Some (dblk', matrix') \<longrightarrow>
        (current_barrier m \<or> c = 0 \<longrightarrow> \<not> DiagonalBlock_S_block_is_computed dblk')
        \<and> (DiagonalBlock_S_block_is_computed dblk' \<longrightarrow>
             Scoeff dblk' = c \<and> c \<noteq> 0 \<and> \<not> current_barrier m)"
    using d [of "DiagonalBlock_new m" dblk' matrix']
    by (auto simp: DiagonalBlock_new_def DiagonalBlock_S_block_is_computed_def)
  have n0: "NonDiagonalBlock_set_S_block intg (NonDiagonalBlock_new m m') c matrix = Some (nblk', matrix'') \<longrightarrow>
        (current_barrier m \<or> current_barrier m' \<or> c = 0 \<longrightarrow>
           \<not> NonDiagonalBlock_S_block_is_computed nblk')
        \<and> (NonDiagonalBlock_S_block_is_computed nblk' \<longrightarrow>
             Scoeff2 nblk' = c \<and> c \<noteq> 0 \<and> \<not> current_barrier m \<and> \<not> current_barrier m')"
    using n [of "NonDiagonalBlock_new m m'" nblk' matrix'']
    by (auto simp: NonDiagonalBlock_new_def NonDiagonalBlock_S_block_is_computed_def)
  have dN: "DiagonalBlock_N junk intg dblk coeff matrix =
       (if Scoeff dblk \<noteq> 0
        then DiagonalBlock_N_from dblk (coeff / Scoeff dblk) TheMatrix matrix
        else case triangles (mesh dblk) of
               [] \<Rightarrow> None
             | front # rest \<Rightarrow>
                 Option.bind
                   (DiagonalBlock_S intg dblk 1
                      (SymBloc (t_index front) (SymMatrix_alloc junk (length (triangles (mesh dblk))))))
                   (\<lambda>Sbloc. DiagonalBlock_N_from dblk coeff (ABlock Sbloc) matrix))"
    by (simp add: DiagonalBlock_N_def DiagonalBlock_S_block_is_computed_def split: list.splits)
  have nN: "NonDiagonalBlock_N junk intg nblk coeff matrix =
       (if Scoeff2 nblk \<noteq> 0
        then NonDiagonalBlock_N_from nblk (coeff / Scoeff2 nblk) TheMatrix matrix
        else case (triangles (mesh1 nblk), triangles (mesh2 nblk)) of
               (front1 # rest1, front2 # rest2) \<Rightarrow>
                 Option.bind
                   (NonDiagonalBlock_S intg nblk 1
                      (Bloc (t_index front1) (t_index front2)
                         (Matrix_alloc junk (length (triangles (mesh1 nblk)))
                            (length (triangles (mesh2 nblk))))))
                   (\<lambda>Sbloc. NonDiagonalBlock_N_from nblk coeff (ABlock Sbloc) matrix)
             | _ \<Rightarrow> None)"
    by (simp add: NonDiagonalBlock_N_def NonDiagonalBlock_S_block_is_computed_def split: list.splits)
  have dc: "DiagonalBlock_S_block_is_computed dblk \<longleftrightarrow> Scoeff dblk \<noteq> 0"
    by (simp add: DiagonalBlock_S_block_is_computed_def)
  have nc: "NonDiagonalBlock_S_block_is_computed nblk \<longleftrightarrow> Scoeff2 nblk \<noteq> 0"
    by (simp add: NonDiagonalBlock_S_block_is_computed_def)
  have dz: "Scoeff (DiagonalBlock_new m) = 0" by (simp add: DiagonalBlock_new_def)
  have nz: "Scoeff2 (NonDiagonalBlock_new m m') = 0" by (simp add: NonDiagonalBlock_new_def)
  have d1: "DiagonalBlock_set_S_block intg dblk c matrix = Some (dblk', matrix') \<longrightarrow>
        mesh dblk' = mesh dblk
        \<and> Scoeff dblk' = (if current_barrier (mesh dblk) then Scoeff dblk else c)"
    using d [of dblk dblk' matrix'] by blast
  have n1: "NonDiagonalBlock_set_S_block intg nblk c matrix = Some (nblk', matrix'') \<longrightarrow>
        mesh1 nblk' = mesh1 nblk \<and> mesh2 nblk' = mesh2 nblk
        \<and> Scoeff2 nblk' =
            (if current_barrier (mesh1 nblk) \<or> current_barrier (mesh2 nblk) then Scoeff2 nblk else c)"
    using n [of nblk nblk' matrix''] by blast
  show ?thesis
    by (intro conjI dc dN dz d1 d0 nc nN nz n1 n0)
qed



theorem C10_rescaling_divisor_nonzero_witness:
  "DiagonalBlock_set_S_block unit_integrator (DiagonalBlock_new (mesh_ABC True)) 2 zero_sym4
     = Some (DiagonalBlock_new (mesh_ABC True), zero_sym4)
   \<and> current_barrier (mesh_ABC True)
   \<and> \<not> DiagonalBlock_S_block_is_computed (DiagonalBlock_new (mesh_ABC True))
   \<and> DiagonalBlock_set_S_block unit_integrator (DiagonalBlock_new (mesh_ABC False)) 0 zero_sym4
       = Some (DiagonalBlock_new (mesh_ABC False), zero_sym4)
   \<and> \<not> DiagonalBlock_S_block_is_computed (DiagonalBlock_new (mesh_ABC False))
   \<and> DiagonalBlock_set_S_block unit_integrator (DiagonalBlock_new (mesh_ABC False)) 2 zero_sym4
       = Some (\<lparr>mesh = mesh_ABC False, Scoeff = 2\<rparr>, two_S_sym4)
   \<and> DiagonalBlock_S_block_is_computed \<lparr>mesh = mesh_ABC False, Scoeff = 2\<rparr>
   \<and> Scoeff \<lparr>mesh = mesh_ABC False, Scoeff = 2\<rparr> \<noteq> 0
   \<and> DiagonalBlock_N (\<lambda>k. 0) unit_integrator \<lparr>mesh = mesh_ABC False, Scoeff = 2\<rparr> 1 two_S_sym4
       = DiagonalBlock_N_from \<lparr>mesh = mesh_ABC False, Scoeff = 2\<rparr> (1 / 2) TheMatrix two_S_sym4
   \<and> NonDiagonalBlock_set_S_block unit_integrator
        (NonDiagonalBlock_new (mesh_ABC True) (mesh_DEF False)) 2 zero_sym8
       = Some (NonDiagonalBlock_new (mesh_ABC True) (mesh_DEF False), zero_sym8)
   \<and> \<not> NonDiagonalBlock_S_block_is_computed (NonDiagonalBlock_new (mesh_ABC True) (mesh_DEF False))"
proof -
  let ?D = "DiagonalBlock_new (mesh_ABC True)" and ?E = "DiagonalBlock_new (mesh_ABC False)"
  let ?F = "\<lparr>mesh = mesh_ABC False, Scoeff = 2\<rparr>"
  let ?N = "NonDiagonalBlock_new (mesh_ABC True) (mesh_DEF False)"
  have skip: "DiagonalBlock_set_S_block unit_integrator ?D 2 zero_sym4 = Some (?D, zero_sym4)"
    by (simp add: DiagonalBlock_set_S_block_def DiagonalBlock_new_def mesh_ABC_def)
  have nskip: "NonDiagonalBlock_set_S_block unit_integrator ?N 2 zero_sym8 = Some (?N, zero_sym8)"
    by (simp add: NonDiagonalBlock_set_S_block_def NonDiagonalBlock_new_def mesh_ABC_def)
  have cb: "current_barrier (mesh_ABC True)"
    by (simp add: mesh_ABC_def)
  note zero = DiagonalBlock_set_S_block_zero_example
  note two = DiagonalBlock_set_S_block_example
  from C10_rescaling_divisor_nonzero [where intg = unit_integrator and m = "mesh_ABC True"
        and c = 2 and matrix = zero_sym4 and dblk' = ?D and matrix' = zero_sym4] skip cb
  have a: "\<not> DiagonalBlock_S_block_is_computed ?D" by blast
  from C10_rescaling_divisor_nonzero [where intg = unit_integrator and m = "mesh_ABC False"
        and c = 0 and matrix = zero_sym4 and dblk' = ?E and matrix' = zero_sym4] zero
  have b: "\<not> DiagonalBlock_S_block_is_computed ?E" by blast
  from C10_rescaling_divisor_nonzero [where intg = unit_integrator and m = "mesh_ABC False"
        and c = 2 and matrix = zero_sym4 and dblk' = ?F and matrix' = two_S_sym4
        and dblk = ?F]
  have c: "DiagonalBlock_S_block_is_computed ?F \<longleftrightarrow> Scoeff ?F \<noteq> 0" by blast
  have c': "Scoeff ?F \<noteq> 0" by simp
  from C10_rescaling_divisor_nonzero [where intg = unit_integrator and junk = "\<lambda>k. 0"
        and coeff = 1 and matrix = two_S_sym4 and dblk = ?F]
  have d: "DiagonalBlock_N (\<lambda>k. 0) unit_integrator ?F 1 two_S_sym4
       = (if Scoeff ?F \<noteq> 0 then DiagonalBlock_N_from ?F (1 / Scoeff ?F) TheMatrix two_S_sym4
        else case triangles (mesh ?F) of
               [] \<Rightarrow> None
             | front # rest \<Rightarrow>
                 Option.bind
                   (DiagonalBlock_S unit_integrator ?F 1
                      (SymBloc (t_index front) (SymMatrix_alloc (\<lambda>k. 0) (length (triangles (mesh ?F))))))
                   (\<lambda>Sbloc. DiagonalBlock_N_from ?F 1 (ABlock Sbloc) two_S_sym4))"
    by blast
  from C10_rescaling_divisor_nonzero [where intg = unit_integrator and m = "mesh_ABC True"
        and m' = "mesh_DEF False" and c = 2 and matrix = zero_sym8 and nblk' = ?N
        and matrix'' = zero_sym8] nskip cb
  have e: "\<not> NonDiagonalBlock_S_block_is_computed ?N" by blast
  from d have d': "DiagonalBlock_N (\<lambda>k. 0) unit_integrator ?F 1 two_S_sym4
       = DiagonalBlock_N_from ?F (1 / 2) TheMatrix two_S_sym4" by simp
  from skip cb a zero b two c c' d' nskip e show ?thesis by blast
qed


section \<open>The value of the hypersingular operator\<close>

lemma accumulated_only:
  assumes "\<forall>A B. (A, B) \<in> set pairs \<longrightarrow>
      addresses symm (v_index A) (v_index B) (v_index V1) (v_index V2) \<longrightarrow> A = V1 \<and> B = V2"
  shows "accumulated symm pairs val (v_index V1) (v_index V2)
       = real (count_list pairs (V1, V2)) * val V1 V2"
  using assms
proof (induction pairs)
  case Nil
  show ?case by (simp add: accumulated_def)
next
  case (Cons p pairs)
  obtain A B where p: "p = (A, B)" by (cases p) auto
  from Cons.prems have rest: "\<forall>A B. (A, B) \<in> set pairs \<longrightarrow>
      addresses symm (v_index A) (v_index B) (v_index V1) (v_index V2) \<longrightarrow> A = V1 \<and> B = V2"
    by simp
  have IH: "accumulated symm pairs val (v_index V1) (v_index V2)
       = real (count_list pairs (V1, V2)) * val V1 V2"
    by (rule Cons.IH [OF rest])
  have split: "accumulated symm (p # pairs) val (v_index V1) (v_index V2)
      = (if addresses symm (v_index A) (v_index B) (v_index V1) (v_index V2) then val A B else 0)
        + accumulated symm pairs val (v_index V1) (v_index V2)"
    by (simp add: accumulated_def p)
  show ?case
  proof (cases "addresses symm (v_index A) (v_index B) (v_index V1) (v_index V2)")
    case True
    with Cons.prems p have "A = V1" "B = V2" by auto
    with True split IH p show ?thesis by (simp add: algebra_simps)
  next
    case False
    then have "(A, B) \<noteq> (V1, V2)" by (auto simp: addresses_def)
    with False split IH p show ?thesis by auto
  qed
qed

text \<open>
  Claim C1, amended. Let the block \<open>S\<close> hold \<open>s T1 T2\<close> at the triangle pairs of the two
  meshes. The overload of \<open>BlocksBase::N\<close> for one mesh returns, for the vertex pair
  \<open>(V1,V2)\<close>, \<open>N(V1,V2) = -factor \<cdot> \<Sum> dot(CB1,CB2) \<cdot> s T1 T2 / (area T1 \<cdot> area T2)\<close> over the
  triangles \<open>T1\<close> incident to \<open>V1\<close> and \<open>T2\<close> incident to \<open>V2\<close> with \<open>factor\<close> 0.25, also when
  \<open>V1==V2\<close>; the overload for two meshes returns it with \<open>factor\<close> 0.5 when \<open>V1==V2\<close> and
  0.25 otherwise.

  The loop of the same-mesh engine visits the pairs of the vertex list of the mesh from
  each vertex on (\<open>upper_pairs\<close>), the loop of the different-mesh engine the pairs of a
  vertex of the first mesh and a vertex of the second (\<open>List.product\<close>). Each loop returns
  the matrix in which every entry \<open>(i,j)\<close> is the entry before plus the sum of
  \<open>coeff \<cdot> N(V1,V2)\<close> over the visited pairs that address it, at
  \<open>(V1.index,V2.index)\<close> or, in a symmetric matrix, at \<open>(V2.index,V1.index)\<close>. When
  \<open>(V1,V2)\<close> is visited once and no other visited pair addresses its entry, the
  accumulated contribution is \<open>coeff \<cdot> N(V1,V2)\<close>.

  The hypotheses: the matrix is well formed, which for a packed matrix includes a
  dimension below 65536; the vertex pairs address entries of the matrix; and, when \<open>S\<close>
  is the matrix that is written, no vertex pair addresses the entry of a triangle pair.
\<close>

theorem C1_hypersingular_contribution:
  "(reads_S S (triangles m) (triangles m) s \<longrightarrow>
      BlocksBase_N_mesh V1 V2 m S = Some (- (1 / 4) * N_sum V1 V2 m m s))
   \<and> (reads_S S (triangles m1) (triangles m2) s \<longrightarrow>
        BlocksBase_N_meshes V1 V2 m1 m2 S
          = Some (- (if V1 = V2 then 1 / 2 else 1 / 4) * N_sum V1 V2 m1 m2 s))
   \<and> (sink_wf matrix
        \<and> reads_S (S_of src matrix) (triangles (mesh dblk)) (triangles (mesh dblk)) s
        \<and> S_apart src (symmetric_sink matrix) (upper_pairs (vertices (mesh dblk)))
            (triangles (mesh dblk)) (triangles (mesh dblk))
        \<and> cells_inside matrix (upper_pairs (vertices (mesh dblk)))
      \<longrightarrow> (\<exists>matrix'. DiagonalBlock_N_from dblk coeff src matrix = Some matrix'
             \<and> increased_by matrix matrix'
                 (accumulated (symmetric_sink matrix) (upper_pairs (vertices (mesh dblk)))
                    (\<lambda>V1 V2. coeff * (- (1 / 4) * N_sum V1 V2 (mesh dblk) (mesh dblk) s)))))
   \<and> (sink_wf matrix
        \<and> reads_S (S_of src matrix) (triangles (mesh1 nblk)) (triangles (mesh2 nblk)) s
        \<and> S_apart src (symmetric_sink matrix)
            (List.product (vertices (mesh1 nblk)) (vertices (mesh2 nblk)))
            (triangles (mesh1 nblk)) (triangles (mesh2 nblk))
        \<and> cells_inside matrix (List.product (vertices (mesh1 nblk)) (vertices (mesh2 nblk)))
      \<longrightarrow> (\<exists>matrix'. NonDiagonalBlock_N_from nblk coeff src matrix = Some matrix'
             \<and> increased_by matrix matrix'
                 (accumulated (symmetric_sink matrix)
                    (List.product (vertices (mesh1 nblk)) (vertices (mesh2 nblk)))
                    (\<lambda>V1 V2. coeff * (- (if V1 = V2 then 1 / 2 else 1 / 4)
                                         * N_sum V1 V2 (mesh1 nblk) (mesh2 nblk) s)))))
   \<and> ((\<forall>A B. (A, B) \<in> set pairs \<longrightarrow>
          addresses symm (v_index A) (v_index B) (v_index V1) (v_index V2) \<longrightarrow> A = V1 \<and> B = V2)
        \<and> count_list pairs (V1, V2) = 1
      \<longrightarrow> accumulated symm pairs val (v_index V1) (v_index V2) = val V1 V2)"
proof -
  have nval: "BlocksBase_N f V1 V2 ma mb S = Some (- f * N_sum V1 V2 ma mb s)"
    if "reads_S S (triangles ma) (triangles mb) s" for f ma mb
  proof -
    from that have "\<forall>T1\<in>set (triangles_of ma V1). \<forall>T2\<in>set (triangles_of mb V2).
        sink_at S (t_index T1) (t_index T2) = Some (s T1 T2)"
      using triangles_of_subset [of ma V1] triangles_of_subset [of mb V2]
      by (auto simp: reads_S_def)
    then show ?thesis by (rule BlocksBase_N_value)
  qed
  have one: "reads_S S (triangles m) (triangles m) s \<longrightarrow>
      BlocksBase_N_mesh V1 V2 m S = Some (- (1 / 4) * N_sum V1 V2 m m s)"
    using nval [of m m "1 / 4"] by (simp add: BlocksBase_N_mesh_def)
  have two: "BlocksBase_N_meshes V1 V2 m1 m2 S
        = Some (- (if V1 = V2 then 1 / 2 else 1 / 4) * N_sum V1 V2 m1 m2 s)"
    if r: "reads_S S (triangles m1) (triangles m2) s"
  proof (cases "V1 = V2")
    case True
    have "BlocksBase_N_meshes V1 V2 m1 m2 S = BlocksBase_N (1 / 2) V1 V2 m1 m2 S"
      using True by (simp add: BlocksBase_N_meshes_def)
    with nval [OF r, of "1 / 2"] True show ?thesis by simp
  next
    case False
    have "BlocksBase_N_meshes V1 V2 m1 m2 S = BlocksBase_N (1 / 4) V1 V2 m1 m2 S"
      using False by (simp add: BlocksBase_N_meshes_def)
    with nval [OF r, of "1 / 4"] False show ?thesis by simp
  qed
  then have two': "reads_S S (triangles m1) (triangles m2) s \<longrightarrow>
        BlocksBase_N_meshes V1 V2 m1 m2 S
          = Some (- (if V1 = V2 then 1 / 2 else 1 / 4) * N_sum V1 V2 m1 m2 s)"
    by blast
  have diag: "sink_wf matrix
        \<and> reads_S (S_of src matrix) (triangles (mesh dblk)) (triangles (mesh dblk)) s
        \<and> S_apart src (symmetric_sink matrix) (upper_pairs (vertices (mesh dblk)))
            (triangles (mesh dblk)) (triangles (mesh dblk))
        \<and> cells_inside matrix (upper_pairs (vertices (mesh dblk)))
      \<longrightarrow> (\<exists>matrix'. DiagonalBlock_N_from dblk coeff src matrix = Some matrix'
             \<and> increased_by matrix matrix'
                 (accumulated (symmetric_sink matrix) (upper_pairs (vertices (mesh dblk)))
                    (\<lambda>V1 V2. coeff * (- (1 / 4) * N_sum V1 V2 (mesh dblk) (mesh dblk) s))))"
    using DiagonalBlock_N_from_cells [of matrix src dblk s coeff] by blast
  have nondiag: "sink_wf matrix
        \<and> reads_S (S_of src matrix) (triangles (mesh1 nblk)) (triangles (mesh2 nblk)) s
        \<and> S_apart src (symmetric_sink matrix)
            (List.product (vertices (mesh1 nblk)) (vertices (mesh2 nblk)))
            (triangles (mesh1 nblk)) (triangles (mesh2 nblk))
        \<and> cells_inside matrix (List.product (vertices (mesh1 nblk)) (vertices (mesh2 nblk)))
      \<longrightarrow> (\<exists>matrix'. NonDiagonalBlock_N_from nblk coeff src matrix = Some matrix'
             \<and> increased_by matrix matrix'
                 (accumulated (symmetric_sink matrix)
                    (List.product (vertices (mesh1 nblk)) (vertices (mesh2 nblk)))
                    (\<lambda>V1 V2. coeff * (- (if V1 = V2 then 1 / 2 else 1 / 4)
                                         * N_sum V1 V2 (mesh1 nblk) (mesh2 nblk) s))))"
    using NonDiagonalBlock_N_from_cells [of matrix src nblk s coeff] by blast
  have only: "(\<forall>A B. (A, B) \<in> set pairs \<longrightarrow>
          addresses symm (v_index A) (v_index B) (v_index V1) (v_index V2) \<longrightarrow> A = V1 \<and> B = V2)
        \<and> count_list pairs (V1, V2) = 1
      \<longrightarrow> accumulated symm pairs val (v_index V1) (v_index V2) = val V1 V2"
    using accumulated_only [of pairs symm V1 V2 val] by simp
  from one two' diag nondiag only show ?thesis by (intro conjI)
qed

lemmas mesh_defs =
  mesh_ABC_def mesh_BAF_def mesh_DEF_def tABC_def tBAF_def tDEF_def
  vA_def vB_def vC_def vD_def vE_def vF_def

lemmas N_sum_defs =
  N_sum_def triangles_of_def contains_def CB_def edge_def vect_minus_def dotprod_def

theorem C1_hypersingular_contribution_witness:
  "sink_wf one_S_sym4
   \<and> reads_S (S_of TheMatrix one_S_sym4) (triangles (mesh_ABC False)) (triangles (mesh_ABC False))
       (\<lambda>T1 T2. 1)
   \<and> S_apart TheMatrix (symmetric_sink one_S_sym4) (upper_pairs (vertices (mesh_ABC False)))
       (triangles (mesh_ABC False)) (triangles (mesh_ABC False))
   \<and> cells_inside one_S_sym4 (upper_pairs (vertices (mesh_ABC False)))
   \<and> (\<exists>matrix'. DiagonalBlock_N_from (DiagonalBlock_new (mesh_ABC False)) 1 TheMatrix one_S_sym4
                   = Some matrix'
          \<and> sink_at matrix' 0 0 = Some (- 2) \<and> sink_at matrix' 0 1 = Some 1
          \<and> sink_at matrix' 1 0 = Some 1 \<and> sink_at matrix' 3 3 = Some 1)
   \<and> sink_wf zero_sym8
   \<and> reads_S (S_of (ABlock one_S_bloc) zero_sym8) (triangles (mesh_ABC False)) (triangles mesh_BAF)
       (\<lambda>T1 T2. 1)
   \<and> cells_inside zero_sym8 (List.product (vertices (mesh_ABC False)) (vertices mesh_BAF))
   \<and> (\<exists>matrix'. NonDiagonalBlock_N_from (NonDiagonalBlock_new (mesh_ABC False) mesh_BAF) 1
                   (ABlock one_S_bloc) zero_sym8 = Some matrix'
          \<and> sink_at matrix' 0 0 = Some 4 \<and> sink_at matrix' 0 1 = Some (- 2)
          \<and> sink_at matrix' 1 0 = Some (- 2) \<and> sink_at matrix' 2 6 = Some 1)"
proof -
  let ?d = "DiagonalBlock_new (mesh_ABC False)"
  let ?n = "NonDiagonalBlock_new (mesh_ABC False) mesh_BAF"
  let ?one = "\<lambda>(T1 :: Triangle) (T2 :: Triangle). 1 :: real"
  let ?dval = "\<lambda>V1 V2. 1 * (- (1 / 4) * N_sum V1 V2 (mesh ?d) (mesh ?d) ?one)"
  let ?nval = "\<lambda>V1 V2. 1 * (- (if V1 = V2 then 1 / 2 else 1 / 4)
                             * N_sum V1 V2 (mesh1 ?n) (mesh2 ?n) ?one)"
  have md: "mesh ?d = mesh_ABC False" by (simp add: DiagonalBlock_new_def)
  have mn: "mesh1 ?n = mesh_ABC False" "mesh2 ?n = mesh_BAF" by (simp_all add: NonDiagonalBlock_new_def)
  have w4: "sink_wf one_S_sym4"
    by (simp add: one_S_sym4_def SymMatrix_wf_def SymMatrix_size_def u32_def)
  have r4: "reads_S (S_of TheMatrix one_S_sym4) (triangles (mesh_ABC False))
      (triangles (mesh_ABC False)) ?one"
    by (simp add: reads_S_def S_of_def one_S_sym4_def mesh_defs SymMatrix_at_def packed_index_def u32_def)
  have a4: "S_apart TheMatrix (symmetric_sink one_S_sym4) (upper_pairs (vertices (mesh_ABC False)))
      (triangles (mesh_ABC False)) (triangles (mesh_ABC False))"
    by (simp add: S_apart_def one_S_sym4_def mesh_defs addresses_def)
  have c4: "cells_inside one_S_sym4 (upper_pairs (vertices (mesh_ABC False)))"
    by (simp add: cells_inside_def one_S_sym4_def mesh_defs SymMatrix_at_def)
  have w8: "sink_wf zero_sym8"
    by (simp add: zero_sym8_def SymMatrix_wf_def SymMatrix_size_def u32_def)
  have r8: "reads_S (S_of (ABlock one_S_bloc) zero_sym8) (triangles (mesh_ABC False))
      (triangles mesh_BAF) ?one"
    by (simp add: reads_S_def S_of_def one_S_bloc_def mesh_defs Matrix_at_def)
  have a8: "S_apart (ABlock one_S_bloc) (symmetric_sink zero_sym8)
      (List.product (vertices (mesh_ABC False)) (vertices mesh_BAF))
      (triangles (mesh_ABC False)) (triangles mesh_BAF)"
    by (simp add: S_apart_def)
  have c8: "cells_inside zero_sym8 (List.product (vertices (mesh_ABC False)) (vertices mesh_BAF))"
    by (simp add: cells_inside_def zero_sym8_def mesh_defs SymMatrix_at_def)
  note inst_d = C1_hypersingular_contribution [where matrix = one_S_sym4 and src = TheMatrix
      and dblk = ?d and s = ?one and coeff = 1]
  from inst_d w4 r4 a4 c4 obtain M where
    M: "DiagonalBlock_N_from ?d 1 TheMatrix one_S_sym4 = Some M"
    and incM: "increased_by one_S_sym4 M
        (accumulated (symmetric_sink one_S_sym4) (upper_pairs (vertices (mesh ?d))) ?dval)"
    unfolding md by blast
  note inst_n = C1_hypersingular_contribution [where matrix = zero_sym8 and src = "ABlock one_S_bloc"
      and nblk = ?n and s = ?one and coeff = 1]
  from inst_n w8 r8 a8 c8 obtain L where
    L: "NonDiagonalBlock_N_from ?n 1 (ABlock one_S_bloc) zero_sym8 = Some L"
    and incL: "increased_by zero_sym8 L
        (accumulated (symmetric_sink zero_sym8)
           (List.product (vertices (mesh1 ?n)) (vertices (mesh2 ?n))) ?nval)"
    unfolding mn by blast
  have dacc: "accumulated (symmetric_sink one_S_sym4) (upper_pairs (vertices (mesh ?d))) ?dval 0 0 = - 2"
    "accumulated (symmetric_sink one_S_sym4) (upper_pairs (vertices (mesh ?d))) ?dval 0 1 = 1"
    "accumulated (symmetric_sink one_S_sym4) (upper_pairs (vertices (mesh ?d))) ?dval 1 0 = 1"
    "accumulated (symmetric_sink one_S_sym4) (upper_pairs (vertices (mesh ?d))) ?dval 3 3 = 0"
    by (simp_all add: DiagonalBlock_new_def accumulated_def addresses_def one_S_sym4_def mesh_defs N_sum_defs)
  have d_at: "sink_at one_S_sym4 0 0 = Some 0" "sink_at one_S_sym4 0 1 = Some 0"
    "sink_at one_S_sym4 1 0 = Some 0" "sink_at one_S_sym4 3 3 = Some 1"
    by (simp_all add: one_S_sym4_def SymMatrix_at_def packed_index_def u32_def)
  have nacc: "accumulated (symmetric_sink zero_sym8)
        (List.product (vertices (mesh1 ?n)) (vertices (mesh2 ?n))) ?nval 0 0 = 4"
    "accumulated (symmetric_sink zero_sym8)
        (List.product (vertices (mesh1 ?n)) (vertices (mesh2 ?n))) ?nval 0 1 = - 2"
    "accumulated (symmetric_sink zero_sym8)
        (List.product (vertices (mesh1 ?n)) (vertices (mesh2 ?n))) ?nval 1 0 = - 2"
    "accumulated (symmetric_sink zero_sym8)
        (List.product (vertices (mesh1 ?n)) (vertices (mesh2 ?n))) ?nval 2 6 = 1"
    by (simp_all add: NonDiagonalBlock_new_def accumulated_def addresses_def zero_sym8_def mesh_defs N_sum_defs)
  have n_at: "sink_at zero_sym8 0 0 = Some 0" "sink_at zero_sym8 0 1 = Some 0"
    "sink_at zero_sym8 1 0 = Some 0" "sink_at zero_sym8 2 6 = Some 0"
    by (simp_all add: zero_sym8_def SymMatrix_at_def packed_index_def u32_def)
  have dres: "sink_at M 0 0 = Some (- 2)" "sink_at M 0 1 = Some 1" "sink_at M 1 0 = Some 1"
    "sink_at M 3 3 = Some 1"
    using incM [unfolded increased_by_def] by (simp_all only: dacc d_at option.map) simp_all
  have nres: "sink_at L 0 0 = Some 4" "sink_at L 0 1 = Some (- 2)" "sink_at L 1 0 = Some (- 2)"
    "sink_at L 2 6 = Some 1"
    using incL [unfolded increased_by_def] by (simp_all only: nacc n_at option.map) simp_all
  from M dres have dex: "\<exists>matrix'. DiagonalBlock_N_from ?d 1 TheMatrix one_S_sym4 = Some matrix'
          \<and> sink_at matrix' 0 0 = Some (- 2) \<and> sink_at matrix' 0 1 = Some 1
          \<and> sink_at matrix' 1 0 = Some 1 \<and> sink_at matrix' 3 3 = Some 1"
    by blast
  from L nres have nex: "\<exists>matrix'. NonDiagonalBlock_N_from ?n 1 (ABlock one_S_bloc) zero_sym8 = Some matrix'
          \<and> sink_at matrix' 0 0 = Some 4 \<and> sink_at matrix' 0 1 = Some (- 2)
          \<and> sink_at matrix' 1 0 = Some (- 2) \<and> sink_at matrix' 2 6 = Some 1"
    by blast
  from w4 r4 a4 c4 dex w8 r8 c8 nex show ?thesis by (intro conjI)
qed

lemma DiagonalBlock_N_from_example:
  "DiagonalBlock_N_from (DiagonalBlock_new (mesh_ABC False)) 1 TheMatrix one_S_sym4
     = Some (Sym \<lparr>nlin = 4, data = [- 2, 1, - 1, 1, 0, - 1, 0, 0, 0, 1]\<rparr>)"
  by (simp add: engine_defs example_defs one_S_sym4_def upt_rec)

lemma NonDiagonalBlock_N_from_shared_edge_example:
  "NonDiagonalBlock_N_from (NonDiagonalBlock_new (mesh_ABC False) mesh_BAF) 1 (ABlock one_S_bloc)
       zero_sym8
     = Some (Sym \<lparr>nlin = 8, data =
         [4, - 2, 2, - 1, 0, 0, 0, 0, 0, 0, 0, 0, 0, 0, 0, 0, 0, 0,
          0, 0, 0, - 1, 0, 1, 0, 0, 0, 0, 0, 0, 0, 0, 0, 0, 0, 0]\<rparr>)"
  by (simp add: engine_defs example_defs mesh_BAF_def tBAF_def one_S_bloc_def upt_rec)

text \<open>
  Claim C1 as stated selects the factor 0.5 when \<open>V1==V2\<close> and the two meshes coincide,
  and takes the entry at \<open>(V1.index,V2.index)\<close> to hold the contribution of \<open>(V1,V2)\<close>
  alone. On the mesh of one triangle, with \<open>S(T,T) = 1\<close>, the same-mesh engine adds
  \<open>-2\<close> at \<open>(0,0)\<close>, for the vertex \<open>A\<close> against itself, where the claim says \<open>-4\<close>. On
  two meshes that share the edge \<open>AB\<close>, with \<open>S = 1\<close>, the different-mesh engine adds
  \<open>4\<close> at \<open>(0,0)\<close>, where the claim says \<open>2\<close>, and the entry \<open>(0,1)\<close> of the symmetric
  matrix receives the contributions of \<open>(A,B)\<close> and of \<open>(B,A)\<close>, \<open>-1\<close> each: it holds
  \<open>-2\<close>, where the claim says \<open>-1\<close>.
\<close>

theorem C1_factor_and_shared_edge_counterexample:
  "DiagonalBlock_N_from (DiagonalBlock_new (mesh_ABC False)) 1 TheMatrix one_S_sym4
     = Some (Sym \<lparr>nlin = 4, data = [- 2, 1, - 1, 1, 0, - 1, 0, 0, 0, 1]\<rparr>)
   \<and> sink_at one_S_sym4 0 0 = Some 0
   \<and> sink_at (Sym \<lparr>nlin = 4, data = [- 2, 1, - 1, 1, 0, - 1, 0, 0, 0, 1]\<rparr>) 0 0 = Some (- 2)
   \<and> 1 * (- claimed_factor vA vA (mesh_ABC False) (mesh_ABC False)
            * N_sum vA vA (mesh_ABC False) (mesh_ABC False) (\<lambda>T1 T2. 1)) = - 4
   \<and> NonDiagonalBlock_N_from (NonDiagonalBlock_new (mesh_ABC False) mesh_BAF) 1 (ABlock one_S_bloc)
        zero_sym8
     = Some (Sym \<lparr>nlin = 8, data =
         [4, - 2, 2, - 1, 0, 0, 0, 0, 0, 0, 0, 0, 0, 0, 0, 0, 0, 0,
          0, 0, 0, - 1, 0, 1, 0, 0, 0, 0, 0, 0, 0, 0, 0, 0, 0, 0]\<rparr>)
   \<and> sink_at zero_sym8 0 0 = Some 0 \<and> sink_at zero_sym8 0 1 = Some 0
   \<and> sink_at (Sym \<lparr>nlin = 8, data =
         [4, - 2, 2, - 1, 0, 0, 0, 0, 0, 0, 0, 0, 0, 0, 0, 0, 0, 0,
          0, 0, 0, - 1, 0, 1, 0, 0, 0, 0, 0, 0, 0, 0, 0, 0, 0, 0]\<rparr>) 0 0 = Some 4
   \<and> 1 * (- claimed_factor vA vA (mesh_ABC False) mesh_BAF
            * N_sum vA vA (mesh_ABC False) mesh_BAF (\<lambda>T1 T2. 1)) = 2
   \<and> sink_at (Sym \<lparr>nlin = 8, data =
         [4, - 2, 2, - 1, 0, 0, 0, 0, 0, 0, 0, 0, 0, 0, 0, 0, 0, 0,
          0, 0, 0, - 1, 0, 1, 0, 0, 0, 0, 0, 0, 0, 0, 0, 0, 0, 0]\<rparr>) 0 1 = Some (- 2)
   \<and> 1 * (- claimed_factor vA vB (mesh_ABC False) mesh_BAF
            * N_sum vA vB (mesh_ABC False) mesh_BAF (\<lambda>T1 T2. 1)) = - 1
   \<and> 1 * (- claimed_factor vB vA (mesh_ABC False) mesh_BAF
            * N_sum vB vA (mesh_ABC False) mesh_BAF (\<lambda>T1 T2. 1)) = - 1"
  by (simp add: DiagonalBlock_N_from_example NonDiagonalBlock_N_from_shared_edge_example)
    (simp add: claimed_factor_def N_sum_defs mesh_defs one_S_sym4_def zero_sym8_def
      SymMatrix_at_def packed_index_def u32_def)

section \<open>The two branches of the hypersingular block\<close>

lemma DiagonalBlock_N_reuse:
  assumes "Scoeff blk \<noteq> 0" and "reuse_ready_one matrix (mesh blk) s"
  shows "DiagonalBlock_N junk intg blk coeff matrix
           = DiagonalBlock_N_from blk (coeff / Scoeff blk) TheMatrix matrix
       \<and> (\<exists>matrix'. DiagonalBlock_N junk intg blk coeff matrix = Some matrix'
            \<and> increased_by matrix matrix'
                (N_one_mesh_added matrix (mesh blk) (coeff / Scoeff blk) s))"
proof -
  have "DiagonalBlock_N junk intg blk coeff matrix
      = DiagonalBlock_N_from blk (coeff / Scoeff blk) TheMatrix matrix"
    using assms(1) by (simp add: DiagonalBlock_N_def DiagonalBlock_S_block_is_computed_def)
  moreover from assms(2) have "sink_wf matrix"
    "reads_S matrix (triangles (mesh blk)) (triangles (mesh blk)) s"
    "S_apart TheMatrix (symmetric_sink matrix) (upper_pairs (vertices (mesh blk)))
       (triangles (mesh blk)) (triangles (mesh blk))"
    "cells_inside matrix (upper_pairs (vertices (mesh blk)))"
    by (simp_all add: reuse_ready_one_def)
  from DiagonalBlock_N_reuse_cells [OF assms(1) this, of junk intg coeff]
  have "\<exists>matrix'. DiagonalBlock_N junk intg blk coeff matrix = Some matrix'
            \<and> increased_by matrix matrix'
                (N_one_mesh_added matrix (mesh blk) (coeff / Scoeff blk) s)"
    unfolding N_one_mesh_added_def by blast
  ultimately show ?thesis by blast
qed

lemma DiagonalBlock_N_fresh:
  assumes "Scoeff blk = 0" and "fresh_ready_one matrix (mesh blk)"
  shows "\<exists>Sbloc matrix'.
           DiagonalBlock_S intg blk 1
             (SymBloc (t_index (hd (triangles (mesh blk))))
                (SymMatrix_alloc junk (length (triangles (mesh blk))))) = Some Sbloc
         \<and> reads_S Sbloc (triangles (mesh blk)) (triangles (mesh blk))
             (S_one_mesh intg 1 (triangles (mesh blk)))
         \<and> DiagonalBlock_N junk intg blk coeff matrix
             = DiagonalBlock_N_from blk coeff (ABlock Sbloc) matrix
         \<and> DiagonalBlock_N junk intg blk coeff matrix = Some matrix'
         \<and> increased_by matrix matrix'
             (N_one_mesh_added matrix (mesh blk) coeff (S_one_mesh intg 1 (triangles (mesh blk))))"
proof -
  from assms(2) obtain front rest where tr: "triangles (mesh blk) = front # rest"
    by (cases "triangles (mesh blk)") (auto simp: fresh_ready_one_def)
  then have hd: "hd (triangles (mesh blk)) = front" by simp
  from assms(2) have h: "sink_wf matrix"
    "indexed_from (t_index front) (length (triangles (mesh blk))) (triangles (mesh blk))"
    "length (triangles (mesh blk)) < 65536"
    "cells_inside matrix (upper_pairs (vertices (mesh blk)))"
    by (simp_all add: fresh_ready_one_def hd)
  from DiagonalBlock_N_fresh_cells [OF assms(1) h(1) tr h(2,3,4), of intg junk coeff]
  obtain Sbloc matrix' where
    S: "DiagonalBlock_S intg blk 1
          (SymBloc (t_index front) (SymMatrix_alloc junk (length (triangles (mesh blk))))) = Some Sbloc"
    and r: "reads_S Sbloc (triangles (mesh blk)) (triangles (mesh blk))
          (S_one_mesh intg 1 (triangles (mesh blk)))"
    and N: "DiagonalBlock_N junk intg blk coeff matrix = Some matrix'"
    and inc: "increased_by matrix matrix'
          (N_one_mesh_added matrix (mesh blk) coeff (S_one_mesh intg 1 (triangles (mesh blk))))"
    unfolding N_one_mesh_added_def by blast
  have via: "DiagonalBlock_N junk intg blk coeff matrix
      = DiagonalBlock_N_from blk coeff (ABlock Sbloc) matrix"
    using assms(1) tr S by (simp add: DiagonalBlock_N_def DiagonalBlock_S_block_is_computed_def)
  from S r via N inc show ?thesis unfolding hd by blast
qed

lemma NonDiagonalBlock_N_reuse:
  assumes "Scoeff2 blk \<noteq> 0" and "reuse_ready_two matrix (mesh1 blk) (mesh2 blk) s"
  shows "NonDiagonalBlock_N junk intg blk coeff matrix
           = NonDiagonalBlock_N_from blk (coeff / Scoeff2 blk) TheMatrix matrix
       \<and> (\<exists>matrix'. NonDiagonalBlock_N junk intg blk coeff matrix = Some matrix'
            \<and> increased_by matrix matrix'
                (N_two_meshes_added matrix (mesh1 blk) (mesh2 blk) (coeff / Scoeff2 blk) s))"
proof -
  have "NonDiagonalBlock_N junk intg blk coeff matrix
      = NonDiagonalBlock_N_from blk (coeff / Scoeff2 blk) TheMatrix matrix"
    using assms(1) by (simp add: NonDiagonalBlock_N_def NonDiagonalBlock_S_block_is_computed_def)
  moreover from assms(2) have "sink_wf matrix"
    "reads_S matrix (triangles (mesh1 blk)) (triangles (mesh2 blk)) s"
    "S_apart TheMatrix (symmetric_sink matrix)
       (List.product (vertices (mesh1 blk)) (vertices (mesh2 blk)))
       (triangles (mesh1 blk)) (triangles (mesh2 blk))"
    "cells_inside matrix (List.product (vertices (mesh1 blk)) (vertices (mesh2 blk)))"
    by (simp_all add: reuse_ready_two_def)
  from NonDiagonalBlock_N_reuse_cells [OF assms(1) this, of junk intg coeff]
  have "\<exists>matrix'. NonDiagonalBlock_N junk intg blk coeff matrix = Some matrix'
            \<and> increased_by matrix matrix'
                (N_two_meshes_added matrix (mesh1 blk) (mesh2 blk) (coeff / Scoeff2 blk) s)"
    unfolding N_two_meshes_added_def by blast
  ultimately show ?thesis by blast
qed

lemma NonDiagonalBlock_N_fresh:
  assumes "Scoeff2 blk = 0" and "fresh_ready_two matrix (mesh1 blk) (mesh2 blk)"
  shows "\<exists>Sbloc matrix'.
           NonDiagonalBlock_S intg blk 1
             (Bloc (t_index (hd (triangles (mesh1 blk)))) (t_index (hd (triangles (mesh2 blk))))
                (Matrix_alloc junk (length (triangles (mesh1 blk))) (length (triangles (mesh2 blk)))))
             = Some Sbloc
         \<and> reads_S Sbloc (triangles (mesh1 blk)) (triangles (mesh2 blk)) (S_two_meshes intg 1)
         \<and> NonDiagonalBlock_N junk intg blk coeff matrix
             = NonDiagonalBlock_N_from blk coeff (ABlock Sbloc) matrix
         \<and> NonDiagonalBlock_N junk intg blk coeff matrix = Some matrix'
         \<and> increased_by matrix matrix'
             (N_two_meshes_added matrix (mesh1 blk) (mesh2 blk) coeff (S_two_meshes intg 1))"
proof -
  from assms(2) obtain front_a rest_a where ta: "triangles (mesh1 blk) = front_a # rest_a"
    by (cases "triangles (mesh1 blk)") (auto simp: fresh_ready_two_def)
  from assms(2) obtain front_b rest_b where tb: "triangles (mesh2 blk) = front_b # rest_b"
    by (cases "triangles (mesh2 blk)") (auto simp: fresh_ready_two_def)
  from ta tb have hd: "hd (triangles (mesh1 blk)) = front_a" "hd (triangles (mesh2 blk)) = front_b"
    by simp_all
  from assms(2) have h: "sink_wf matrix"
    "indexed_from (t_index front_a) (length (triangles (mesh1 blk))) (triangles (mesh1 blk))"
    "indexed_from (t_index front_b) (length (triangles (mesh2 blk))) (triangles (mesh2 blk))"
    "cells_inside matrix (List.product (vertices (mesh1 blk)) (vertices (mesh2 blk)))"
    by (simp_all add: fresh_ready_two_def hd)
  from NonDiagonalBlock_N_fresh_cells [OF assms(1) h(1) ta tb h(2,3,4), of intg junk coeff]
  obtain Sbloc matrix' where
    S: "NonDiagonalBlock_S intg blk 1
          (Bloc (t_index front_a) (t_index front_b)
             (Matrix_alloc junk (length (triangles (mesh1 blk))) (length (triangles (mesh2 blk)))))
          = Some Sbloc"
    and r: "reads_S Sbloc (triangles (mesh1 blk)) (triangles (mesh2 blk)) (S_two_meshes intg 1)"
    and N: "NonDiagonalBlock_N junk intg blk coeff matrix = Some matrix'"
    and inc: "increased_by matrix matrix'
          (N_two_meshes_added matrix (mesh1 blk) (mesh2 blk) coeff (S_two_meshes intg 1))"
    unfolding N_two_meshes_added_def by blast
  have via: "NonDiagonalBlock_N junk intg blk coeff matrix
      = NonDiagonalBlock_N_from blk coeff (ABlock Sbloc) matrix"
    using assms(1) ta tb S
    by (simp add: NonDiagonalBlock_N_def NonDiagonalBlock_S_block_is_computed_def)
  from S r via N inc show ?thesis unfolding hd by blast
qed

text \<open>
  Outside \<open>fresh_ready\<close> the branch without a cached block can abort: when the first
  triangle of the mesh does not carry the least index, a write into the temporary block
  has a subscript below its offset.
\<close>

lemma DiagonalBlock_N_unordered_example:
  "DiagonalBlock_N (\<lambda>k. 0) unit_integrator (DiagonalBlock_new mesh_unordered) 1 zero_sym8 = None"
  by (simp add: engine_defs example_defs mesh_unordered_def)

text \<open>
  Claim C7. ``An S block has been computed and cached'' is the test
  \<open>S_block_is_computed()\<close> of the source, \<open>Scoeff != 0.0\<close>.

  With a cached block, \<open>N(coeff,matrix)\<close> is \<open>N(coeff/Scoeff,matrix,matrix)\<close>: it reads the
  stored values \<open>s\<close> of \<open>S\<close> from the matrix it writes and returns the matrix in which
  every entry is increased by what \<open>N\<close> adds to it for these values and the coefficient
  \<open>coeff/Scoeff\<close>.

  Without, it computes \<open>S\<close> at the coefficient 1 into a temporary block, a \<open>SymBloc\<close>
  view that starts at the index of the first triangle of the mesh, or a \<open>Bloc\<close> view
  that starts at the indices of the first triangles of the two meshes; the temporary
  block then holds the values of \<open>S\<close> at the coefficient 1 at the triangle pairs; \<open>N\<close>
  reads them from this block and returns the matrix in which every entry is increased
  by what \<open>N\<close> adds to it for these values and the coefficient \<open>coeff\<close>. The result
  differs from the given matrix by the contributions of \<open>N\<close> only: the temporary block
  is not written into it.

  The hypotheses \<open>reuse_ready\<close> and \<open>fresh_ready\<close> are those under which the branches
  return; \<open>N\<close> aborts on an assertion otherwise.
\<close>

theorem C7_N_from_cached_or_temporary_S:
  "(Scoeff dblk \<noteq> 0 \<and> reuse_ready_one matrix (mesh dblk) s \<longrightarrow>
      DiagonalBlock_N junk intg dblk coeff matrix
        = DiagonalBlock_N_from dblk (coeff / Scoeff dblk) TheMatrix matrix
      \<and> (\<exists>matrix'. DiagonalBlock_N junk intg dblk coeff matrix = Some matrix'
            \<and> increased_by matrix matrix'
                (N_one_mesh_added matrix (mesh dblk) (coeff / Scoeff dblk) s)))
   \<and> (Scoeff dblk = 0 \<and> fresh_ready_one matrix (mesh dblk) \<longrightarrow>
        (\<exists>Sbloc matrix'.
           DiagonalBlock_S intg dblk 1
             (SymBloc (t_index (hd (triangles (mesh dblk))))
                (SymMatrix_alloc junk (length (triangles (mesh dblk))))) = Some Sbloc
         \<and> reads_S Sbloc (triangles (mesh dblk)) (triangles (mesh dblk))
             (S_one_mesh intg 1 (triangles (mesh dblk)))
         \<and> DiagonalBlock_N junk intg dblk coeff matrix
             = DiagonalBlock_N_from dblk coeff (ABlock Sbloc) matrix
         \<and> DiagonalBlock_N junk intg dblk coeff matrix = Some matrix'
         \<and> increased_by matrix matrix'
             (N_one_mesh_added matrix (mesh dblk) coeff (S_one_mesh intg 1 (triangles (mesh dblk))))))
   \<and> (Scoeff2 nblk \<noteq> 0 \<and> reuse_ready_two matrix (mesh1 nblk) (mesh2 nblk) s \<longrightarrow>
        NonDiagonalBlock_N junk intg nblk coeff matrix
          = NonDiagonalBlock_N_from nblk (coeff / Scoeff2 nblk) TheMatrix matrix
        \<and> (\<exists>matrix'. NonDiagonalBlock_N junk intg nblk coeff matrix = Some matrix'
              \<and> increased_by matrix matrix'
                  (N_two_meshes_added matrix (mesh1 nblk) (mesh2 nblk) (coeff / Scoeff2 nblk) s)))
   \<and> (Scoeff2 nblk = 0 \<and> fresh_ready_two matrix (mesh1 nblk) (mesh2 nblk) \<longrightarrow>
        (\<exists>Sbloc matrix'.
           NonDiagonalBlock_S intg nblk 1
             (Bloc (t_index (hd (triangles (mesh1 nblk)))) (t_index (hd (triangles (mesh2 nblk))))
                (Matrix_alloc junk (length (triangles (mesh1 nblk))) (length (triangles (mesh2 nblk)))))
             = Some Sbloc
         \<and> reads_S Sbloc (triangles (mesh1 nblk)) (triangles (mesh2 nblk)) (S_two_meshes intg 1)
         \<and> NonDiagonalBlock_N junk intg nblk coeff matrix
             = NonDiagonalBlock_N_from nblk coeff (ABlock Sbloc) matrix
         \<and> NonDiagonalBlock_N junk intg nblk coeff matrix = Some matrix'
         \<and> increased_by matrix matrix'
             (N_two_meshes_added matrix (mesh1 nblk) (mesh2 nblk) coeff (S_two_meshes intg 1))))"
  using DiagonalBlock_N_reuse [of dblk matrix s junk intg coeff]
    DiagonalBlock_N_fresh [of dblk matrix intg junk coeff]
    NonDiagonalBlock_N_reuse [of nblk matrix s junk intg coeff]
    NonDiagonalBlock_N_fresh [of nblk matrix intg junk coeff]
  by blast

lemmas ready_defs =
  reuse_ready_one_def reuse_ready_two_def fresh_ready_one_def fresh_ready_two_def
  reads_S_def S_apart_def cells_inside_def indexed_from_def addresses_def
  SymMatrix_wf_def SymMatrix_size_def SymMatrix_at_def packed_index_def u32_def

lemmas added_defs =
  N_one_mesh_added_def N_two_meshes_added_def accumulated_def addresses_def
  S_one_mesh_def S_two_meshes_def unit_integrator_def

theorem C7_N_from_cached_or_temporary_S_witness:
  "Scoeff \<lparr>mesh = mesh_ABC False, Scoeff = 2\<rparr> \<noteq> 0
   \<and> reuse_ready_one two_S_sym4 (mesh_ABC False) (\<lambda>T1 T2. 2)
   \<and> (\<exists>matrix'. DiagonalBlock_N (\<lambda>k. 0) unit_integrator \<lparr>mesh = mesh_ABC False, Scoeff = 2\<rparr> 1
                   two_S_sym4 = Some matrix'
          \<and> sink_at matrix' 0 0 = Some (- 2) \<and> sink_at matrix' 0 1 = Some 1
          \<and> sink_at matrix' 3 3 = Some 2)
   \<and> Scoeff (DiagonalBlock_new (mesh_ABC False)) = 0
   \<and> fresh_ready_one zero_sym4 (mesh_ABC False)
   \<and> (\<exists>Sbloc matrix'.
         DiagonalBlock_S unit_integrator (DiagonalBlock_new (mesh_ABC False)) 1
           (SymBloc 3 (SymMatrix_alloc (\<lambda>k. 0) 1)) = Some Sbloc
         \<and> sink_at Sbloc 3 3 = Some 1
         \<and> DiagonalBlock_N (\<lambda>k. 0) unit_integrator (DiagonalBlock_new (mesh_ABC False)) 1 zero_sym4
             = Some matrix'
         \<and> sink_at matrix' 0 0 = Some (- 2) \<and> sink_at matrix' 0 1 = Some 1
         \<and> sink_at matrix' 3 3 = Some 0)
   \<and> Scoeff2 \<lparr>mesh1 = mesh_ABC False, mesh2 = mesh_DEF False, Scoeff2 = 2\<rparr> \<noteq> 0
   \<and> reuse_ready_two two_S_sym8 (mesh_ABC False) (mesh_DEF False) (\<lambda>T1 T2. 2)
   \<and> (\<exists>matrix'. NonDiagonalBlock_N (\<lambda>k. 0) unit_integrator
                   \<lparr>mesh1 = mesh_ABC False, mesh2 = mesh_DEF False, Scoeff2 = 2\<rparr> 1 two_S_sym8
                   = Some matrix'
          \<and> sink_at matrix' 0 4 = Some (- 2) \<and> sink_at matrix' 1 4 = Some 1
          \<and> sink_at matrix' 3 7 = Some 2)
   \<and> Scoeff2 (NonDiagonalBlock_new (mesh_ABC False) (mesh_DEF False)) = 0
   \<and> fresh_ready_two zero_sym8 (mesh_ABC False) (mesh_DEF False)
   \<and> (\<exists>Sbloc matrix'.
         NonDiagonalBlock_S unit_integrator (NonDiagonalBlock_new (mesh_ABC False) (mesh_DEF False)) 1
           (Bloc 3 7 (Matrix_alloc (\<lambda>k. 0) 1 1)) = Some Sbloc
         \<and> sink_at Sbloc 3 7 = Some 1
         \<and> NonDiagonalBlock_N (\<lambda>k. 0) unit_integrator
             (NonDiagonalBlock_new (mesh_ABC False) (mesh_DEF False)) 1 zero_sym8 = Some matrix'
         \<and> sink_at matrix' 0 4 = Some (- 2) \<and> sink_at matrix' 1 4 = Some 1
         \<and> sink_at matrix' 3 7 = Some 0)"
proof -
  let ?r = "\<lparr>mesh = mesh_ABC False, Scoeff = 2\<rparr>"
  let ?d = "DiagonalBlock_new (mesh_ABC False)"
  let ?q = "\<lparr>mesh1 = mesh_ABC False, mesh2 = mesh_DEF False, Scoeff2 = 2\<rparr>"
  let ?n = "NonDiagonalBlock_new (mesh_ABC False) (mesh_DEF False)"
  let ?two = "\<lambda>(T1 :: Triangle) (T2 :: Triangle). 2 :: real"
  let ?j = "\<lambda>k :: nat. 0 :: real"
  have sel: "mesh ?r = mesh_ABC False" "Scoeff ?r = 2" "mesh ?d = mesh_ABC False" "Scoeff ?d = 0"
    "mesh1 ?q = mesh_ABC False" "mesh2 ?q = mesh_DEF False" "Scoeff2 ?q = 2"
    "mesh1 ?n = mesh_ABC False" "mesh2 ?n = mesh_DEF False" "Scoeff2 ?n = 0"
    by (simp_all add: DiagonalBlock_new_def NonDiagonalBlock_new_def)
  have tri: "triangles (mesh_ABC False) = [tABC]" "triangles (mesh_DEF False) = [tDEF]"
    "t_index tABC = 3" "t_index tDEF = 7"
    by (simp_all add: mesh_ABC_def mesh_DEF_def tABC_def tDEF_def)
  have one: "hd [tABC] = tABC" "hd [tDEF] = tDEF" "length [tABC] = 1" "length [tDEF] = 1"
    by simp_all
  have h1: "Scoeff ?r \<noteq> 0" by simp
  have ne: "(2 :: real) \<noteq> 0" by simp
  have h2: "reuse_ready_one two_S_sym4 (mesh_ABC False) ?two"
    by (simp add: ready_defs two_S_sym4_def mesh_defs)
  have h3: "Scoeff ?d = 0" by (simp add: DiagonalBlock_new_def)
  have h4: "fresh_ready_one zero_sym4 (mesh_ABC False)"
    by (simp add: ready_defs zero_sym4_def mesh_defs)
  have h5: "Scoeff2 ?q \<noteq> 0" by simp
  have h6: "reuse_ready_two two_S_sym8 (mesh_ABC False) (mesh_DEF False) ?two"
    by (simp add: ready_defs two_S_sym8_def mesh_defs)
  have h7: "Scoeff2 ?n = 0" by (simp add: NonDiagonalBlock_new_def)
  have h8: "fresh_ready_two zero_sym8 (mesh_ABC False) (mesh_DEF False)"
    by (simp add: ready_defs zero_sym8_def mesh_defs)
  note i1 = C7_N_from_cached_or_temporary_S [where dblk = ?r and matrix = two_S_sym4 and s = ?two
      and junk = ?j and intg = unit_integrator and coeff = 1, unfolded sel]
  from i1 h2 ne obtain M1 where
    M1: "DiagonalBlock_N ?j unit_integrator ?r 1 two_S_sym4 = Some M1"
    and inc1: "increased_by two_S_sym4 M1 (N_one_mesh_added two_S_sym4 (mesh_ABC False) (1 / 2) ?two)"
    by blast
  note i2 = C7_N_from_cached_or_temporary_S [where dblk = ?d and matrix = zero_sym4
      and junk = ?j and intg = unit_integrator and coeff = 1, unfolded sel tri one]
  from i2 h4 obtain S2 M2 where
    S2: "DiagonalBlock_S unit_integrator ?d 1 (SymBloc 3 (SymMatrix_alloc ?j 1)) = Some S2"
    and r2: "reads_S S2 [tABC] [tABC] (S_one_mesh unit_integrator 1 [tABC])"
    and M2: "DiagonalBlock_N ?j unit_integrator ?d 1 zero_sym4 = Some M2"
    and inc2: "increased_by zero_sym4 M2
        (N_one_mesh_added zero_sym4 (mesh_ABC False) 1 (S_one_mesh unit_integrator 1 [tABC]))"
    unfolding tri by blast
  note i3 = C7_N_from_cached_or_temporary_S [where nblk = ?q and matrix = two_S_sym8 and s = ?two
      and junk = ?j and intg = unit_integrator and coeff = 1, unfolded sel]
  from i3 h6 ne obtain M3 where
    M3: "NonDiagonalBlock_N ?j unit_integrator ?q 1 two_S_sym8 = Some M3"
    and inc3: "increased_by two_S_sym8 M3
        (N_two_meshes_added two_S_sym8 (mesh_ABC False) (mesh_DEF False) (1 / 2) ?two)"
    by blast
  note i4 = C7_N_from_cached_or_temporary_S [where nblk = ?n and matrix = zero_sym8
      and junk = ?j and intg = unit_integrator and coeff = 1, unfolded sel tri one]
  from i4 h8 obtain S4 M4 where
    S4: "NonDiagonalBlock_S unit_integrator ?n 1 (Bloc 3 7 (Matrix_alloc ?j 1 1)) = Some S4"
    and r4: "reads_S S4 [tABC] [tDEF] (S_two_meshes unit_integrator 1)"
    and M4: "NonDiagonalBlock_N ?j unit_integrator ?n 1 zero_sym8 = Some M4"
    and inc4: "increased_by zero_sym8 M4
        (N_two_meshes_added zero_sym8 (mesh_ABC False) (mesh_DEF False) 1 (S_two_meshes unit_integrator 1))"
    unfolding tri by blast
  have a1: "N_one_mesh_added two_S_sym4 (mesh_ABC False) (1 / 2) ?two 0 0 = - 2"
    "N_one_mesh_added two_S_sym4 (mesh_ABC False) (1 / 2) ?two 0 1 = 1"
    "N_one_mesh_added two_S_sym4 (mesh_ABC False) (1 / 2) ?two 3 3 = 0"
    by (simp_all add: added_defs two_S_sym4_def mesh_defs N_sum_defs)
  have b1: "sink_at two_S_sym4 0 0 = Some 0" "sink_at two_S_sym4 0 1 = Some 0"
    "sink_at two_S_sym4 3 3 = Some 2"
    by (simp_all add: two_S_sym4_def SymMatrix_at_def packed_index_def u32_def)
  have a2: "N_one_mesh_added zero_sym4 (mesh_ABC False) 1 (S_one_mesh unit_integrator 1 [tABC]) 0 0 = - 2"
    "N_one_mesh_added zero_sym4 (mesh_ABC False) 1 (S_one_mesh unit_integrator 1 [tABC]) 0 1 = 1"
    "N_one_mesh_added zero_sym4 (mesh_ABC False) 1 (S_one_mesh unit_integrator 1 [tABC]) 3 3 = 0"
    by (simp_all add: added_defs zero_sym4_def mesh_defs N_sum_defs)
  have b2: "sink_at zero_sym4 0 0 = Some 0" "sink_at zero_sym4 0 1 = Some 0"
    "sink_at zero_sym4 3 3 = Some 0"
    by (simp_all add: zero_sym4_def SymMatrix_at_def packed_index_def u32_def)
  have a3: "N_two_meshes_added two_S_sym8 (mesh_ABC False) (mesh_DEF False) (1 / 2) ?two 0 4 = - 2"
    "N_two_meshes_added two_S_sym8 (mesh_ABC False) (mesh_DEF False) (1 / 2) ?two 1 4 = 1"
    "N_two_meshes_added two_S_sym8 (mesh_ABC False) (mesh_DEF False) (1 / 2) ?two 3 7 = 0"
    by (simp_all add: added_defs two_S_sym8_def mesh_defs N_sum_defs)
  have b3: "sink_at two_S_sym8 0 4 = Some 0" "sink_at two_S_sym8 1 4 = Some 0"
    "sink_at two_S_sym8 3 7 = Some 2"
    by (simp_all add: two_S_sym8_def SymMatrix_at_def packed_index_def u32_def)
  have a4: "N_two_meshes_added zero_sym8 (mesh_ABC False) (mesh_DEF False) 1
        (S_two_meshes unit_integrator 1) 0 4 = - 2"
    "N_two_meshes_added zero_sym8 (mesh_ABC False) (mesh_DEF False) 1
        (S_two_meshes unit_integrator 1) 1 4 = 1"
    "N_two_meshes_added zero_sym8 (mesh_ABC False) (mesh_DEF False) 1
        (S_two_meshes unit_integrator 1) 3 7 = 0"
    by (simp_all add: added_defs zero_sym8_def mesh_defs N_sum_defs)
  have b4: "sink_at zero_sym8 0 4 = Some 0" "sink_at zero_sym8 1 4 = Some 0"
    "sink_at zero_sym8 3 7 = Some 0"
    by (simp_all add: zero_sym8_def SymMatrix_at_def packed_index_def u32_def)
  have c1: "sink_at M1 0 0 = Some (- 2)" "sink_at M1 0 1 = Some 1" "sink_at M1 3 3 = Some 2"
    using inc1 [unfolded increased_by_def] by (simp_all only: a1 b1 option.map) simp_all
  have c2: "sink_at M2 0 0 = Some (- 2)" "sink_at M2 0 1 = Some 1" "sink_at M2 3 3 = Some 0"
    using inc2 [unfolded increased_by_def] by (simp_all only: a2 b2 option.map) simp_all
  have c3: "sink_at M3 0 4 = Some (- 2)" "sink_at M3 1 4 = Some 1" "sink_at M3 3 7 = Some 2"
    using inc3 [unfolded increased_by_def] by (simp_all only: a3 b3 option.map) simp_all
  have c4: "sink_at M4 0 4 = Some (- 2)" "sink_at M4 1 4 = Some 1" "sink_at M4 3 7 = Some 0"
    using inc4 [unfolded increased_by_def] by (simp_all only: a4 b4 option.map) simp_all
  have s2: "sink_at S2 3 3 = Some 1"
    using r2 by (simp add: reads_S_def tri S_one_mesh_def unit_integrator_def)
  have s4: "sink_at S4 3 7 = Some 1"
    using r4 by (simp add: reads_S_def tri S_two_meshes_def unit_integrator_def)
  have e1: "\<exists>matrix'. DiagonalBlock_N ?j unit_integrator ?r 1 two_S_sym4 = Some matrix'
          \<and> sink_at matrix' 0 0 = Some (- 2) \<and> sink_at matrix' 0 1 = Some 1
          \<and> sink_at matrix' 3 3 = Some 2"
    using M1 c1 by blast
  have e2: "\<exists>Sbloc matrix'.
         DiagonalBlock_S unit_integrator ?d 1 (SymBloc 3 (SymMatrix_alloc ?j 1)) = Some Sbloc
         \<and> sink_at Sbloc 3 3 = Some 1
         \<and> DiagonalBlock_N ?j unit_integrator ?d 1 zero_sym4 = Some matrix'
         \<and> sink_at matrix' 0 0 = Some (- 2) \<and> sink_at matrix' 0 1 = Some 1
         \<and> sink_at matrix' 3 3 = Some 0"
    using S2 s2 M2 c2 by blast
  have e3: "\<exists>matrix'. NonDiagonalBlock_N ?j unit_integrator ?q 1 two_S_sym8 = Some matrix'
          \<and> sink_at matrix' 0 4 = Some (- 2) \<and> sink_at matrix' 1 4 = Some 1
          \<and> sink_at matrix' 3 7 = Some 2"
    using M3 c3 by blast
  have e4: "\<exists>Sbloc matrix'.
         NonDiagonalBlock_S unit_integrator ?n 1 (Bloc 3 7 (Matrix_alloc ?j 1 1)) = Some Sbloc
         \<and> sink_at Sbloc 3 7 = Some 1
         \<and> NonDiagonalBlock_N ?j unit_integrator ?n 1 zero_sym8 = Some matrix'
         \<and> sink_at matrix' 0 4 = Some (- 2) \<and> sink_at matrix' 1 4 = Some 1
         \<and> sink_at matrix' 3 7 = Some 0"
    using S4 s4 M4 c4 by blast
  from h1 h2 e1 h3 h4 e2 h5 h6 e3 h7 h8 e4 show ?thesis by (intro conjI)
qed

section \<open>The setters of the blocks under the current-barrier flags\<close>

text \<open>
  Claim C6. In both engines \<open>set_S_block\<close>, \<open>set_D_block\<close> and \<open>set_Dstar_block\<close> return
  the sink as they got it when the mesh relevant to the operator is flagged
  \<open>current_barrier\<close>: the mesh of a \<open>DiagonalBlock\<close>; for a \<open>NonDiagonalBlock\<close> either
  mesh for \<open>S\<close>, the first mesh for \<open>D\<close>, the second for \<open>D*\<close>.

  \<open>set_N_block\<close> tests no flag. Its result on a block whose meshes are flagged anew in
  any way is the result of \<open>N\<close> on the block; and it computes and accumulates: whatever
  the flags are, it returns the matrix in which every entry is increased by what \<open>N\<close>
  adds to it, from the temporary single-layer block at the coefficient 1 when no block
  is cached (as after a \<open>set_S_block\<close> that the flags have skipped), and from the
  cached block, with the coefficient \<open>coeff/Scoeff\<close>, otherwise. The hypotheses
  \<open>fresh_ready\<close> and \<open>reuse_ready\<close> are those under which \<open>N\<close> returns; they do not
  mention the flags.
\<close>

theorem C6_current_barrier_skips:
  "(current_barrier (mesh dblk) \<longrightarrow>
      DiagonalBlock_set_S_block intg dblk coeff matrix = Some (dblk, matrix)
    \<and> DiagonalBlock_set_D_block intg dblk coeff matrix = Some matrix
    \<and> DiagonalBlock_set_Dstar_block intg dblk coeff matrix = Some matrix)
   \<and> DiagonalBlock_set_N_block junk intg (dblk\<lparr>mesh := (mesh dblk)\<lparr>current_barrier := b\<rparr>\<rparr>) coeff matrix
       = DiagonalBlock_N junk intg dblk coeff matrix
   \<and> (Scoeff dblk = 0 \<and> fresh_ready_one matrix (mesh dblk) \<longrightarrow>
        (\<exists>matrix'. DiagonalBlock_set_N_block junk intg dblk coeff matrix = Some matrix'
           \<and> increased_by matrix matrix'
               (N_one_mesh_added matrix (mesh dblk) coeff
                  (S_one_mesh intg 1 (triangles (mesh dblk))))))
   \<and> (Scoeff dblk \<noteq> 0 \<and> reuse_ready_one matrix (mesh dblk) s \<longrightarrow>
        (\<exists>matrix'. DiagonalBlock_set_N_block junk intg dblk coeff matrix = Some matrix'
           \<and> increased_by matrix matrix'
               (N_one_mesh_added matrix (mesh dblk) (coeff / Scoeff dblk) s)))
   \<and> (current_barrier (mesh1 nblk) \<or> current_barrier (mesh2 nblk) \<longrightarrow>
        NonDiagonalBlock_set_S_block intg nblk coeff matrix = Some (nblk, matrix))
   \<and> (current_barrier (mesh1 nblk) \<longrightarrow>
        NonDiagonalBlock_set_D_block intg nblk coeff matrix = Some matrix)
   \<and> (current_barrier (mesh2 nblk) \<longrightarrow>
        NonDiagonalBlock_set_Dstar_block intg nblk coeff matrix = Some matrix)
   \<and> NonDiagonalBlock_set_N_block junk intg
        (nblk\<lparr>mesh1 := (mesh1 nblk)\<lparr>current_barrier := b1\<rparr>,
              mesh2 := (mesh2 nblk)\<lparr>current_barrier := b2\<rparr>\<rparr>) coeff matrix
       = NonDiagonalBlock_N junk intg nblk coeff matrix
   \<and> (Scoeff2 nblk = 0 \<and> fresh_ready_two matrix (mesh1 nblk) (mesh2 nblk) \<longrightarrow>
        (\<exists>matrix'. NonDiagonalBlock_set_N_block junk intg nblk coeff matrix = Some matrix'
           \<and> increased_by matrix matrix'
               (N_two_meshes_added matrix (mesh1 nblk) (mesh2 nblk) coeff (S_two_meshes intg 1))))
   \<and> (Scoeff2 nblk \<noteq> 0 \<and> reuse_ready_two matrix (mesh1 nblk) (mesh2 nblk) s \<longrightarrow>
        (\<exists>matrix'. NonDiagonalBlock_set_N_block junk intg nblk coeff matrix = Some matrix'
           \<and> increased_by matrix matrix'
               (N_two_meshes_added matrix (mesh1 nblk) (mesh2 nblk) (coeff / Scoeff2 nblk) s)))"
proof -
  have skips: "(current_barrier (mesh dblk) \<longrightarrow>
      DiagonalBlock_set_S_block intg dblk coeff matrix = Some (dblk, matrix)
    \<and> DiagonalBlock_set_D_block intg dblk coeff matrix = Some matrix
    \<and> DiagonalBlock_set_Dstar_block intg dblk coeff matrix = Some matrix)"
    "current_barrier (mesh1 nblk) \<or> current_barrier (mesh2 nblk) \<longrightarrow>
        NonDiagonalBlock_set_S_block intg nblk coeff matrix = Some (nblk, matrix)"
    "current_barrier (mesh1 nblk) \<longrightarrow>
        NonDiagonalBlock_set_D_block intg nblk coeff matrix = Some matrix"
    "current_barrier (mesh2 nblk) \<longrightarrow>
        NonDiagonalBlock_set_Dstar_block intg nblk coeff matrix = Some matrix"
    by (simp_all add: DiagonalBlock_set_S_block_def DiagonalBlock_set_D_block_def
        DiagonalBlock_set_Dstar_block_def NonDiagonalBlock_set_S_block_def
        NonDiagonalBlock_set_D_block_def NonDiagonalBlock_set_Dstar_block_def)
  have flags: "DiagonalBlock_set_N_block junk intg (dblk\<lparr>mesh := (mesh dblk)\<lparr>current_barrier := b\<rparr>\<rparr>) coeff matrix
       = DiagonalBlock_N junk intg dblk coeff matrix"
    "NonDiagonalBlock_set_N_block junk intg
        (nblk\<lparr>mesh1 := (mesh1 nblk)\<lparr>current_barrier := b1\<rparr>,
              mesh2 := (mesh2 nblk)\<lparr>current_barrier := b2\<rparr>\<rparr>) coeff matrix
       = NonDiagonalBlock_N junk intg nblk coeff matrix"
    by (simp_all add: DiagonalBlock_set_N_block_def DiagonalBlock_N_flag
        NonDiagonalBlock_set_N_block_def NonDiagonalBlock_N_flags)
  have d_fresh: "Scoeff dblk = 0 \<and> fresh_ready_one matrix (mesh dblk) \<longrightarrow>
        (\<exists>matrix'. DiagonalBlock_set_N_block junk intg dblk coeff matrix = Some matrix'
           \<and> increased_by matrix matrix'
               (N_one_mesh_added matrix (mesh dblk) coeff
                  (S_one_mesh intg 1 (triangles (mesh dblk)))))"
    unfolding DiagonalBlock_set_N_block_def
    using DiagonalBlock_N_fresh [of dblk matrix intg junk coeff] by blast
  have d_reuse: "Scoeff dblk \<noteq> 0 \<and> reuse_ready_one matrix (mesh dblk) s \<longrightarrow>
        (\<exists>matrix'. DiagonalBlock_set_N_block junk intg dblk coeff matrix = Some matrix'
           \<and> increased_by matrix matrix'
               (N_one_mesh_added matrix (mesh dblk) (coeff / Scoeff dblk) s))"
    unfolding DiagonalBlock_set_N_block_def
    using DiagonalBlock_N_reuse [of dblk matrix s junk intg coeff] by blast
  have n_fresh: "Scoeff2 nblk = 0 \<and> fresh_ready_two matrix (mesh1 nblk) (mesh2 nblk) \<longrightarrow>
        (\<exists>matrix'. NonDiagonalBlock_set_N_block junk intg nblk coeff matrix = Some matrix'
           \<and> increased_by matrix matrix'
               (N_two_meshes_added matrix (mesh1 nblk) (mesh2 nblk) coeff (S_two_meshes intg 1)))"
    unfolding NonDiagonalBlock_set_N_block_def
    using NonDiagonalBlock_N_fresh [of nblk matrix intg junk coeff] by blast
  have n_reuse: "Scoeff2 nblk \<noteq> 0 \<and> reuse_ready_two matrix (mesh1 nblk) (mesh2 nblk) s \<longrightarrow>
        (\<exists>matrix'. NonDiagonalBlock_set_N_block junk intg nblk coeff matrix = Some matrix'
           \<and> increased_by matrix matrix'
               (N_two_meshes_added matrix (mesh1 nblk) (mesh2 nblk) (coeff / Scoeff2 nblk) s))"
    unfolding NonDiagonalBlock_set_N_block_def
    using NonDiagonalBlock_N_reuse [of nblk matrix s junk intg coeff] by blast
  from skips(1) flags(1) d_fresh d_reuse skips(2,3,4) flags(2) n_fresh n_reuse
  show ?thesis by (intro conjI)
qed

theorem C6_current_barrier_skips_witness:
  "current_barrier (mesh (DiagonalBlock_new (mesh_ABC True)))
   \<and> DiagonalBlock_set_S_block unit_integrator (DiagonalBlock_new (mesh_ABC True)) 1 zero_sym4
       = Some (DiagonalBlock_new (mesh_ABC True), zero_sym4)
   \<and> DiagonalBlock_set_D_block unit_integrator (DiagonalBlock_new (mesh_ABC True)) 1 zero_sym4
       = Some zero_sym4
   \<and> Scoeff (DiagonalBlock_new (mesh_ABC True)) = 0
   \<and> fresh_ready_one zero_sym4 (mesh_ABC True)
   \<and> (\<exists>matrix'. DiagonalBlock_set_N_block (\<lambda>k. 0) unit_integrator
                   (DiagonalBlock_new (mesh_ABC True)) 1 zero_sym4 = Some matrix'
          \<and> sink_at matrix' 0 0 = Some (- 2) \<and> sink_at matrix' 0 1 = Some 1
          \<and> sink_at matrix' 3 3 = Some 0)
   \<and> current_barrier (mesh1 (NonDiagonalBlock_new (mesh_ABC True) (mesh_DEF True)))
   \<and> current_barrier (mesh2 (NonDiagonalBlock_new (mesh_ABC True) (mesh_DEF True)))
   \<and> NonDiagonalBlock_set_S_block unit_integrator
        (NonDiagonalBlock_new (mesh_ABC True) (mesh_DEF True)) 1 zero_sym8
       = Some (NonDiagonalBlock_new (mesh_ABC True) (mesh_DEF True), zero_sym8)
   \<and> NonDiagonalBlock_set_D_block unit_integrator
        (NonDiagonalBlock_new (mesh_ABC True) (mesh_DEF True)) 1 zero_sym8 = Some zero_sym8
   \<and> NonDiagonalBlock_set_Dstar_block unit_integrator
        (NonDiagonalBlock_new (mesh_ABC True) (mesh_DEF True)) 1 zero_sym8 = Some zero_sym8
   \<and> Scoeff2 (NonDiagonalBlock_new (mesh_ABC True) (mesh_DEF True)) = 0
   \<and> fresh_ready_two zero_sym8 (mesh_ABC True) (mesh_DEF True)
   \<and> (\<exists>matrix'. NonDiagonalBlock_set_N_block (\<lambda>k. 0) unit_integrator
                   (NonDiagonalBlock_new (mesh_ABC True) (mesh_DEF True)) 1 zero_sym8 = Some matrix'
          \<and> sink_at matrix' 0 4 = Some (- 2) \<and> sink_at matrix' 1 4 = Some 1
          \<and> sink_at matrix' 3 7 = Some 0)"
proof -
  let ?d = "DiagonalBlock_new (mesh_ABC True)"
  let ?n = "NonDiagonalBlock_new (mesh_ABC True) (mesh_DEF True)"
  let ?j = "\<lambda>k :: nat. 0 :: real"
  have sel: "mesh ?d = mesh_ABC True" "Scoeff ?d = 0"
    "mesh1 ?n = mesh_ABC True" "mesh2 ?n = mesh_DEF True" "Scoeff2 ?n = 0"
    by (simp_all add: DiagonalBlock_new_def NonDiagonalBlock_new_def)
  have cb: "current_barrier (mesh_ABC True)" "current_barrier (mesh_DEF True)"
    by (simp_all add: mesh_ABC_def mesh_DEF_def)
  have tri: "triangles (mesh_ABC True) = [tABC]" "triangles (mesh_DEF True) = [tDEF]"
    by (simp_all add: mesh_ABC_def mesh_DEF_def)
  have h4: "fresh_ready_one zero_sym4 (mesh_ABC True)"
    by (simp add: ready_defs zero_sym4_def mesh_defs)
  have h8: "fresh_ready_two zero_sym8 (mesh_ABC True) (mesh_DEF True)"
    by (simp add: ready_defs zero_sym8_def mesh_defs)
  note i1 = C6_current_barrier_skips [where dblk = ?d and nblk = ?n and matrix = zero_sym4
      and junk = ?j and intg = unit_integrator and coeff = 1, unfolded sel tri]
  note i2 = C6_current_barrier_skips [where dblk = ?d and nblk = ?n and matrix = zero_sym8
      and junk = ?j and intg = unit_integrator and coeff = 1, unfolded sel tri]
  from i1 cb have s1: "DiagonalBlock_set_S_block unit_integrator ?d 1 zero_sym4 = Some (?d, zero_sym4)"
    and d1: "DiagonalBlock_set_D_block unit_integrator ?d 1 zero_sym4 = Some zero_sym4"
    by blast+
  from i1 h4 obtain M1 where
    M1: "DiagonalBlock_set_N_block ?j unit_integrator ?d 1 zero_sym4 = Some M1"
    and inc1: "increased_by zero_sym4 M1
        (N_one_mesh_added zero_sym4 (mesh_ABC True) 1 (S_one_mesh unit_integrator 1 [tABC]))"
    by blast
  from i2 cb have s2: "NonDiagonalBlock_set_S_block unit_integrator ?n 1 zero_sym8 = Some (?n, zero_sym8)"
    and d2: "NonDiagonalBlock_set_D_block unit_integrator ?n 1 zero_sym8 = Some zero_sym8"
    and e2: "NonDiagonalBlock_set_Dstar_block unit_integrator ?n 1 zero_sym8 = Some zero_sym8"
    by blast+
  from i2 h8 obtain M2 where
    M2: "NonDiagonalBlock_set_N_block ?j unit_integrator ?n 1 zero_sym8 = Some M2"
    and inc2: "increased_by zero_sym8 M2
        (N_two_meshes_added zero_sym8 (mesh_ABC True) (mesh_DEF True) 1 (S_two_meshes unit_integrator 1))"
    by blast
  have a1: "N_one_mesh_added zero_sym4 (mesh_ABC True) 1 (S_one_mesh unit_integrator 1 [tABC]) 0 0 = - 2"
    "N_one_mesh_added zero_sym4 (mesh_ABC True) 1 (S_one_mesh unit_integrator 1 [tABC]) 0 1 = 1"
    "N_one_mesh_added zero_sym4 (mesh_ABC True) 1 (S_one_mesh unit_integrator 1 [tABC]) 3 3 = 0"
    by (simp_all add: added_defs zero_sym4_def mesh_defs N_sum_defs)
  have b1: "sink_at zero_sym4 0 0 = Some 0" "sink_at zero_sym4 0 1 = Some 0"
    "sink_at zero_sym4 3 3 = Some 0"
    by (simp_all add: zero_sym4_def SymMatrix_at_def packed_index_def u32_def)
  have a2: "N_two_meshes_added zero_sym8 (mesh_ABC True) (mesh_DEF True) 1
        (S_two_meshes unit_integrator 1) 0 4 = - 2"
    "N_two_meshes_added zero_sym8 (mesh_ABC True) (mesh_DEF True) 1
        (S_two_meshes unit_integrator 1) 1 4 = 1"
    "N_two_meshes_added zero_sym8 (mesh_ABC True) (mesh_DEF True) 1
        (S_two_meshes unit_integrator 1) 3 7 = 0"
    by (simp_all add: added_defs zero_sym8_def mesh_defs N_sum_defs)
  have b2: "sink_at zero_sym8 0 4 = Some 0" "sink_at zero_sym8 1 4 = Some 0"
    "sink_at zero_sym8 3 7 = Some 0"
    by (simp_all add: zero_sym8_def SymMatrix_at_def packed_index_def u32_def)
  have c1: "sink_at M1 0 0 = Some (- 2)" "sink_at M1 0 1 = Some 1" "sink_at M1 3 3 = Some 0"
    using inc1 [unfolded increased_by_def] by (simp_all only: a1 b1 option.map) simp_all
  have c2: "sink_at M2 0 4 = Some (- 2)" "sink_at M2 1 4 = Some 1" "sink_at M2 3 7 = Some 0"
    using inc2 [unfolded increased_by_def] by (simp_all only: a2 b2 option.map) simp_all
  have x1: "\<exists>matrix'. DiagonalBlock_set_N_block ?j unit_integrator ?d 1 zero_sym4 = Some matrix'
          \<and> sink_at matrix' 0 0 = Some (- 2) \<and> sink_at matrix' 0 1 = Some 1
          \<and> sink_at matrix' 3 3 = Some 0"
    using M1 c1 by blast
  have x2: "\<exists>matrix'. NonDiagonalBlock_set_N_block ?j unit_integrator ?n 1 zero_sym8 = Some matrix'
          \<and> sink_at matrix' 0 4 = Some (- 2) \<and> sink_at matrix' 1 4 = Some 1
          \<and> sink_at matrix' 3 7 = Some 0"
    using M2 c2 by blast
  have f1: "current_barrier (mesh ?d)" "current_barrier (mesh1 ?n)" "current_barrier (mesh2 ?n)"
    using cb by (simp_all add: sel)
  have z: "Scoeff ?d = 0" "Scoeff2 ?n = 0" by (simp_all add: sel)
  from f1(1) s1 d1 z(1) h4 x1 f1(2,3) s2 d2 e2 z(2) h8 x2 show ?thesis by (intro conjI)
qed

section \<open>Deflation\<close>

lemma deflate_two_outer_example:
  "deflate (Sym six_sym8) two_outer_geometry =
     Some (Sym \<lparr>nlin = 8, data =
       [1, 1, 1, 1, 1, 1, 0, 0, 0, 0, 0, 0, 0, 0, 7, 0, 0, 0,
        0, 1, 1, 0, 0, 0, 0, 1, 1, 1, 0, 0, 0, 0, 0, 0, 0, 0]\<rparr>)"
  by (simp add: deflate_def deflate_part_def deflate_count_def two_outer_geometry_def six_sym8_def
      mesh_ABC_def mesh_DEF_def vA_def vB_def vC_def vD_def vE_def vF_def
      sink_add_def SymMatrix_at_def SymMatrix_assign_def packed_index_def u32_def)

text \<open>
  Claim C2. After deflation every entry \<open>M(v1,v2)\<close> with \<open>v1\<close> and \<open>v2\<close> vertices of the
  outermost meshes of an isolated group is specified to be increased by
  \<open>coef = M(i_first,i_first)/nb_vertices_in_group\<close>. The source announces the same,
  ``deflate all current barriers as one'', and computes one \<open>nb_vertices\<close> and one \<open>coef\<close>
  for the whole part; but the loops over \<open>vit1\<close> and \<open>vit2\<close> run inside the loop over
  the meshes of the part, so they pair the vertices of each outermost mesh with one
  another and never a vertex of one outermost mesh with a vertex of another. On a matrix
  of dimension 8 with \<open>M(4,4) = 6\<close> and a part of two outermost meshes, with the vertices
  4, 5, 6 and 0, 1, 2, the first loop returns \<open>nb_vertices = 6\<close> and \<open>i_first = 4\<close>, so
  \<open>coef = 1\<close>; the entries inside each mesh are increased by 1, and the entry \<open>(0,4)\<close>,
  whose vertices belong to the two outermost meshes, is 0 before and 0 after. The
  entries that involve no outermost vertex and the dimension are unchanged.
\<close>

theorem C2_cross_mesh_pairs_not_deflated:
  "deflate (Sym six_sym8) two_outer_geometry =
     Some (Sym \<lparr>nlin = 8, data =
       [1, 1, 1, 1, 1, 1, 0, 0, 0, 0, 0, 0, 0, 0, 7, 0, 0, 0,
        0, 1, 1, 0, 0, 0, 0, 1, 1, 1, 0, 0, 0, 0, 0, 0, 0, 0]\<rparr>)
   \<and> isolated_parts two_outer_geometry = [[mesh_DEF False, mesh_ABC False]]
   \<and> outermost (mesh_DEF False) \<and> outermost (mesh_ABC False)
   \<and> vD \<in> set (vertices (mesh_DEF False)) \<and> vA \<in> set (vertices (mesh_ABC False))
   \<and> v_index vD = 4 \<and> v_index vA = 0
   \<and> deflate_count [mesh_DEF False, mesh_ABC False] = Some (6, 4)
   \<and> SymMatrix_at six_sym8 4 4 = Some 6
   \<and> SymMatrix_at six_sym8 0 4 = Some 0
   \<and> SymMatrix_at \<lparr>nlin = 8, data =
       [1, 1, 1, 1, 1, 1, 0, 0, 0, 0, 0, 0, 0, 0, 7, 0, 0, 0,
        0, 1, 1, 0, 0, 0, 0, 1, 1, 1, 0, 0, 0, 0, 0, 0, 0, 0]\<rparr> 0 4 = Some 0
   \<and> SymMatrix_at \<lparr>nlin = 8, data =
       [1, 1, 1, 1, 1, 1, 0, 0, 0, 0, 0, 0, 0, 0, 7, 0, 0, 0,
        0, 1, 1, 0, 0, 0, 0, 1, 1, 1, 0, 0, 0, 0, 0, 0, 0, 0]\<rparr> 4 5 = Some 1
   \<and> (0 :: real) \<noteq> 0 + 6 / real 6"
  by (simp add: deflate_two_outer_example)
    (simp add: deflate_count_def two_outer_geometry_def six_sym8_def
      mesh_ABC_def mesh_DEF_def vA_def vB_def vC_def vD_def vE_def vF_def
      SymMatrix_at_def packed_index_def u32_def)

text \<open>
  A second slip of the first loop: \<open>i_first==0\<close> is its test for ``not yet set'', so when
  the first vertex of the first outermost mesh has the index 0, the next outermost mesh
  overwrites \<open>i_first\<close>.
\<close>

lemma deflate_count_sentinel_example:
  "deflate_count [mesh_ABC False, mesh_DEF False] = Some (6, 4)
   \<and> map v_index (vertices (mesh_ABC False)) = [0, 1, 2]"
  by (simp add: deflate_count_def
      mesh_ABC_def mesh_DEF_def vA_def vB_def vC_def vD_def vE_def vF_def)

section \<open>Point-evaluation matrices: the dropped points\<close>

lemma for_each_succeeds:
  assumes "I s" and "\<And>x t. x \<in> set xs \<Longrightarrow> I t \<Longrightarrow> \<exists>t'. body x t = Some t' \<and> I t'"
  shows "\<exists>s'. for_each xs body s = Some s' \<and> I s'"
  using assms
proof (induction xs arbitrary: s)
  case Nil
  then show ?case by simp
next
  case (Cons x xs)
  from Cons.prems(2) [of x s] Cons.prems(1) obtain t where t: "body x s = Some t" "I t" by auto
  have "\<exists>s'. for_each xs body t = Some s' \<and> I s'"
  proof (rule Cons.IH [OF t(2)])
    fix y u
    assume "y \<in> set xs" "I u"
    then show "\<exists>t'. body y u = Some t' \<and> I t'" using Cons.prems(2) [of y u] by simp
  qed
  with t show ?case by simp
qed

lemma Matrix_assign_ok:
  "dims n c M \<Longrightarrow> i < n \<Longrightarrow> j < c \<Longrightarrow> \<exists>M'. Matrix_assign M i j x = Some M' \<and> dims n c M'"
  by (simp add: Matrix_assign_def dims_def)

lemma Matrix_add_ok:
  "dims n c M \<Longrightarrow> i < n \<Longrightarrow> j < c \<Longrightarrow> \<exists>M'. Matrix_add M i j x = Some M' \<and> dims n c M'"
  by (simp add: Matrix_add_def Matrix_at_def Matrix_assign_def dims_def)

lemma PartialBlock_addD_ok:
  assumes "dims n c M" and "\<forall>v\<in>set points. v_index v < n"
    and "\<forall>t\<in>set (triangles m). \<forall>i<3. v_index (vertex t i) < c"
  shows "\<exists>M'. PartialBlock_addD an m coeff points M = Some M' \<and> dims n c M'"
  unfolding PartialBlock_addD_def
proof (rule for_each_succeeds [where I = "dims n c", OF assms(1)])
  fix t M1
  assume t: "t \<in> set (triangles m)" and d1: "dims n c M1"
  show "\<exists>M'. for_each points
               (\<lambda>vertex1 matrix.
                  let integrals = analyD an t (position vertex1)
                  in for_each [0..<3]
                       (\<lambda>i matrix. Matrix_add matrix (v_index vertex1) (v_index (vertex t i))
                                     (coord integrals i * coeff)) matrix) M1 = Some M'
             \<and> dims n c M'"
  proof (rule for_each_succeeds [where I = "dims n c", OF d1])
    fix v M2
    assume v: "v \<in> set points" and d2: "dims n c M2"
    have "\<exists>M'. for_each [0..<3]
                 (\<lambda>i matrix. Matrix_add matrix (v_index v) (v_index (vertex t i))
                                (coord (analyD an t (position v)) i * coeff)) M2 = Some M'
               \<and> dims n c M'"
    proof (rule for_each_succeeds [where I = "dims n c", OF d2])
      fix i M3
      assume i: "i \<in> set [0..<3]" and d3: "dims n c M3"
      from v assms(2) have "v_index v < n" by simp
      moreover from i t assms(3) have "v_index (vertex t i) < c" by simp
      ultimately show "\<exists>M'. Matrix_add M3 (v_index v) (v_index (vertex t i))
                               (coord (analyD an t (position v)) i * coeff) = Some M'
                             \<and> dims n c M'"
        by (intro Matrix_add_ok d3)
    qed
    then show "\<exists>M'. (let integrals = analyD an t (position v)
                      in for_each [0..<3]
                           (\<lambda>i matrix. Matrix_add matrix (v_index v) (v_index (vertex t i))
                                          (coord integrals i * coeff)) M2) = Some M'
                    \<and> dims n c M'"
      by (simp add: Let_def)
  qed
qed

lemma PartialBlock_S_ok:
  assumes "dims n c M" and "\<forall>v\<in>set points. v_index v < n"
    and "\<forall>t\<in>set (triangles m). t_index t < c"
  shows "\<exists>M'. PartialBlock_S an m coeff points M = Some M' \<and> dims n c M'"
  unfolding PartialBlock_S_def
proof (rule for_each_succeeds [where I = "dims n c", OF assms(1)])
  fix t M1
  assume t: "t \<in> set (triangles m)" and d1: "dims n c M1"
  show "\<exists>M'. for_each points
               (\<lambda>vertex1 matrix. Matrix_assign matrix (v_index vertex1) (t_index t)
                                    (coeff * analyS an t (position vertex1))) M1 = Some M'
             \<and> dims n c M'"
  proof (rule for_each_succeeds [where I = "dims n c", OF d1])
    fix v M2
    assume v: "v \<in> set points" and d2: "dims n c M2"
    from v assms(2) have "v_index v < n" by simp
    moreover from t assms(3) have "t_index t < c" by simp
    ultimately show "\<exists>M'. Matrix_assign M2 (v_index v) (t_index t)
                             (coeff * analyS an t (position v)) = Some M' \<and> dims n c M'"
      by (intro Matrix_assign_ok d2)
  qed
qed


lemma Surf2VolMat_fill_ok:
  assumes "dims n c M"
    and "\<forall>e\<in>set m_points. domain_fits c (fst e) \<and> (\<forall>v\<in>set (snd e). v_index v < n)"
  shows "\<exists>M'. Surf2VolMat_fill an m_points M = Some M' \<and> dims n c M'"
  unfolding Surf2VolMat_fill_def
proof (rule for_each_succeeds [where I = "dims n c", OF assms(1)])
  fix e M1
  assume e: "e \<in> set m_points" and d1: "dims n c M1"
  obtain d pts where dp: "e = (d, pts)" by (cases e)
  from e assms(2) dp have fit: "domain_fits c d" and r: "\<forall>v\<in>set pts. v_index v < n" by auto
  have "\<exists>M'. for_each (boundaries d)
            (\<lambda>boundary mat.
               for_each (oriented_meshes boundary)
                 (\<lambda>omesh mat.
                    let m = om_mesh omesh;
                        coeff = real_of_int (mesh_orientation boundary omesh) * K
                    in do {
                      mat \<leftarrow> PartialBlock_addD an m (- coeff) pts mat;
                      if \<not> current_barrier m
                      then PartialBlock_S an m (coeff / conductivity d) pts mat
                      else Some mat
                    })
                 mat) M1 = Some M' \<and> dims n c M'"
  proof (rule for_each_succeeds [where I = "dims n c", OF d1])
    fix b M2
    assume b: "b \<in> set (boundaries d)" and d2: "dims n c M2"
    show "\<exists>M'. for_each (oriented_meshes b)
                 (\<lambda>omesh mat.
                    let m = om_mesh omesh;
                        coeff = real_of_int (mesh_orientation b omesh) * K
                    in do {
                      mat \<leftarrow> PartialBlock_addD an m (- coeff) pts mat;
                      if \<not> current_barrier m
                      then PartialBlock_S an m (coeff / conductivity d) pts mat
                      else Some mat
                    }) M2 = Some M' \<and> dims n c M'"
    proof (rule for_each_succeeds [where I = "dims n c", OF d2])
      fix om M3
      assume om: "om \<in> set (oriented_meshes b)" and d3: "dims n c M3"
      let ?m = "om_mesh om" and ?coeff = "real_of_int (mesh_orientation b om) * K"
      from fit b om have tv: "\<forall>t\<in>set (triangles ?m). \<forall>i<3. v_index (vertex t i) < c"
        and tt: "\<not> current_barrier ?m \<longrightarrow> (\<forall>t\<in>set (triangles ?m). t_index t < c)"
        by (auto simp: domain_fits_def)
      from PartialBlock_addD_ok [OF d3 r tv, of an "- ?coeff"] obtain M4
        where a: "PartialBlock_addD an ?m (- ?coeff) pts M3 = Some M4" and d4: "dims n c M4"
        by blast
      have "\<exists>M'. (if \<not> current_barrier ?m
                  then PartialBlock_S an ?m (?coeff / conductivity d) pts M4
                  else Some M4) = Some M' \<and> dims n c M'"
      proof (cases "current_barrier ?m")
        case True
        with d4 show ?thesis by simp
      next
        case False
        with tt have "\<forall>t\<in>set (triangles ?m). t_index t < c" by simp
        from PartialBlock_S_ok [OF d4 r this, of an "?coeff / conductivity d"] False
        show ?thesis by simp
      qed
      with a show "\<exists>M'. (let m = om_mesh om;
                            coeff = real_of_int (mesh_orientation b om) * K
                        in do {
                          mat \<leftarrow> PartialBlock_addD an m (- coeff) pts M3;
                          if \<not> current_barrier m
                          then PartialBlock_S an m (coeff / conductivity d) pts mat
                          else Some mat
                        }) = Some M' \<and> dims n c M'"
        by (simp add: Let_def)
    qed
  qed
  with dp show "\<exists>M'. (case e of (domainptr, pts) \<Rightarrow> \<lambda>mat.
            for_each (boundaries domainptr)
            (\<lambda>boundary mat.
               for_each (oriented_meshes boundary)
                 (\<lambda>omesh mat.
                    let m = om_mesh omesh;
                        coeff = real_of_int (mesh_orientation boundary omesh) * K
                    in do {
                      mat \<leftarrow> PartialBlock_addD an m (- coeff) pts mat;
                      if \<not> current_barrier m
                      then PartialBlock_S an m (coeff / conductivity domainptr) pts mat
                      else Some mat
                    })
                 mat) mat) M1 = Some M' \<and> dims n c M'"
    by simp
qed

lemma map_push_back_vertices:
  "set (concat (map snd (map_push_back d v mp))) = insert v (set (concat (map snd mp)))"
  by (induction d v mp rule: map_push_back.induct) auto

lemma map_push_back_length:
  "length (concat (map snd (map_push_back d v mp))) = Suc (length (concat (map snd mp)))"
  by (induction d v mp rule: map_push_back.induct) auto

lemma map_push_back_keys:
  "fst ` set (map_push_back d v mp) \<subseteq> insert d (fst ` set mp)"
  by (induction d v mp rule: map_push_back.induct) auto

lemma numbered_Cons:
  "numbered k (p # ps) = \<lparr>position = p, v_index = k\<rparr> # numbered (Suc k) ps"
  by (simp add: numbered_def)

lemma numbered_index: "v \<in> set (numbered k ps) \<Longrightarrow> k \<le> v_index v \<and> v_index v < k + length ps"
  by (induction ps arbitrary: k) (force simp: numbered_Cons numbered_def)+

lemma split_points:
  "length (retained_points geo points) + length (dropped_points geo points) = length points"
  by (induction points) (simp_all add: retained_points_def dropped_points_def)

lemma Surf2VolMat_points_fold:
  assumes "foldl (Surf2VolMat_step geo) (mp, k, w) points = (mp', k', w')"
  shows "k' = k + length (retained_points geo points)
       \<and> w' = w @ dropped_points geo points
       \<and> set (concat (map snd mp')) =
           set (concat (map snd mp)) \<union> set (numbered k (retained_points geo points))
       \<and> length (concat (map snd mp')) =
           length (concat (map snd mp)) + length (retained_points geo points)
       \<and> fst ` set mp' \<subseteq> fst ` set mp \<union> domain_at geo ` set (retained_points geo points)"
  using assms
proof (induction points arbitrary: mp k w)
  case Nil
  then show ?case by (simp add: retained_points_def dropped_points_def numbered_def)
next
  case (Cons p ps)
  show ?case
  proof (cases "conductivity (domain_at geo p) = 0")
    case True
    then have r: "retained_points geo (p # ps) = retained_points geo ps"
      and d: "dropped_points geo (p # ps) = p # dropped_points geo ps"
      by (simp_all add: retained_points_def dropped_points_def)
    from Cons.prems True
    have "foldl (Surf2VolMat_step geo) (mp, k, w @ [p]) ps = (mp', k', w')"
      by (simp add: Surf2VolMat_step_def)
    from Cons.IH [OF this] show ?thesis by (simp add: r d)
  next
    case False
    then have r: "retained_points geo (p # ps) = p # retained_points geo ps"
      and d: "dropped_points geo (p # ps) = dropped_points geo ps"
      by (simp_all add: retained_points_def dropped_points_def)
    from Cons.prems False
    have "foldl (Surf2VolMat_step geo)
            (map_push_back (domain_at geo p) \<lparr>position = p, v_index = k\<rparr> mp, Suc k, w) ps
          = (mp', k', w')"
      by (simp add: Surf2VolMat_step_def Let_def)
    from Cons.IH [OF this]
    have 1: "k' = Suc k + length (retained_points geo ps)"
      and 2: "w' = w @ dropped_points geo ps"
      and 3: "set (concat (map snd mp')) =
                set (concat (map snd (map_push_back (domain_at geo p) \<lparr>position = p, v_index = k\<rparr> mp)))
                \<union> set (numbered (Suc k) (retained_points geo ps))"
      and 4: "length (concat (map snd mp')) =
                length (concat (map snd (map_push_back (domain_at geo p) \<lparr>position = p, v_index = k\<rparr> mp)))
                + length (retained_points geo ps)"
      and 5: "fst ` set mp' \<subseteq>
                fst ` set (map_push_back (domain_at geo p) \<lparr>position = p, v_index = k\<rparr> mp)
                \<union> domain_at geo ` set (retained_points geo ps)"
      by blast+
    from 1 have a: "k' = k + length (retained_points geo (p # ps))" by (simp add: r)
    from 2 have b: "w' = w @ dropped_points geo (p # ps)" by (simp add: d)
    from 3 have c: "set (concat (map snd mp')) =
           set (concat (map snd mp)) \<union> set (numbered k (retained_points geo (p # ps)))"
      by (simp only: map_push_back_vertices r numbered_Cons) auto
    from 4 have e: "length (concat (map snd mp')) =
           length (concat (map snd mp)) + length (retained_points geo (p # ps))"
      by (simp only: map_push_back_length r) simp
    from 5 map_push_back_keys [of "domain_at geo p" "\<lparr>position = p, v_index = k\<rparr>" mp]
    have f: "fst ` set mp' \<subseteq> fst ` set mp \<union> domain_at geo ` set (retained_points geo (p # ps))"
      by (simp only: r) auto
    from a b c e f show ?thesis by blast
  qed
qed

lemma Surf2VolMat_points_eq:
  "Surf2VolMat_points geo points = foldl (Surf2VolMat_step geo) ([], 0, []) points"
  by (simp add: Surf2VolMat_points_def Surf2VolMat_step_def)

lemma DipSource2InternalPotMat_points_fold:
  "foldl (DipSource2InternalPotMat_step geo) (pd, pts, w) points =
     (pd @ map (domain_at geo) (retained_points geo points),
      pts @ retained_points geo points,
      w @ dropped_points geo points)"
  by (induction points arbitrary: pd pts w)
    (simp_all add: DipSource2InternalPotMat_step_def retained_points_def dropped_points_def Let_def)

lemma DipSource2InternalPotMat_points_eq:
  "DipSource2InternalPotMat_points geo points =
     (map (domain_at geo) (retained_points geo points),
      retained_points geo points, dropped_points geo points)"
  using DipSource2InternalPotMat_points_fold [of geo "[]" "[]" "[]" points]
  by (simp add: DipSource2InternalPotMat_points_def DipSource2InternalPotMat_step_def)


lemma Matrix_alloc_dims: "dims n c (Matrix_set (Matrix_alloc junk n c) x)"
  by (simp add: dims_def Matrix_set_def Matrix_alloc_def)

lemma Surf2VolMat_result:
  assumes "\<forall>p\<in>set (retained_points geo points).
             domain_fits (nb_parameters geo - nb_current_barrier_triangles geo) (domain_at geo p)"
  shows "\<exists>mat. Surf2VolMat junk an geo points = Some (mat, dropped_points geo points)
           \<and> m_nlin mat = length (retained_points geo points)
           \<and> m_ncol mat = nb_parameters geo - nb_current_barrier_triangles geo"
proof -
  let ?c = "nb_parameters geo - nb_current_barrier_triangles geo"
  let ?n = "length (retained_points geo points)"
  obtain mp k w where pts: "Surf2VolMat_points geo points = (mp, k, w)"
    by (cases "Surf2VolMat_points geo points") auto
  then have "foldl (Surf2VolMat_step geo) ([], 0, []) points = (mp, k, w)"
    by (simp add: Surf2VolMat_points_eq)
  from Surf2VolMat_points_fold [OF this]
  have k: "k = ?n" and w: "w = dropped_points geo points"
    and vs: "set (concat (map snd mp)) = set (numbered 0 (retained_points geo points))"
    and ks: "fst ` set mp \<subseteq> domain_at geo ` set (retained_points geo points)"
    by simp_all
  have ok: "\<forall>e\<in>set mp. domain_fits ?c (fst e) \<and> (\<forall>v\<in>set (snd e). v_index v < ?n)"
  proof (intro ballI conjI)
    fix e
    assume e: "e \<in> set mp"
    with ks have "fst e \<in> domain_at geo ` set (retained_points geo points)" by auto
    with assms show "domain_fits ?c (fst e)" by auto
  next
    fix e v
    assume e: "e \<in> set mp" and v: "v \<in> set (snd e)"
    then have "v \<in> set (concat (map snd mp))" by auto
    with vs have "v \<in> set (numbered 0 (retained_points geo points))" by simp
    from numbered_index [OF this] show "v_index v < ?n" by simp
  qed
  from Surf2VolMat_fill_ok [OF Matrix_alloc_dims ok, of an junk 0] obtain mat
    where f: "Surf2VolMat_fill an mp (Matrix_set (Matrix_alloc junk ?n ?c) 0) = Some mat"
      and d: "dims ?n ?c mat"
    by blast
  from pts k w f have "Surf2VolMat junk an geo points = Some (mat, dropped_points geo points)"
    by (simp add: Surf2VolMat_def)
  with d show ?thesis by (auto simp: dims_def)
qed

lemma DipSource2InternalPotMat_result:
  "\<exists>mat. DipSource2InternalPotMat junk geo dipoles points domain_name
            = Some (mat, dropped_points geo points)
         \<and> m_nlin mat = length (retained_points geo points)
         \<and> m_ncol mat = length dipoles"
proof -
  let ?pd = "map (domain_at geo) (retained_points geo points)"
  let ?pts = "retained_points geo points"
  let ?n = "length ?pts" and ?c = "length dipoles"
  have "\<exists>mat. for_each [0..<?c]
                  (\<lambda>iDIP mat.
                     let dipole = dipoles ! iDIP;
                         domain = (if domain_name = [] then domain_at geo (dipole_position dipole)
                                   else domain_named geo domain_name);
                         coeff = K / conductivity domain
                     in for_each [0..<?n]
                          (\<lambda>iPTS mat.
                             if address (?pd ! iPTS) = address domain
                             then Matrix_add mat iPTS iDIP (coeff * potential dipole (?pts ! iPTS))
                             else Some mat)
                          mat)
                  (Matrix_set (Matrix_alloc junk ?n ?c) 0) = Some mat \<and> dims ?n ?c mat"
  proof (rule for_each_succeeds [where I = "dims ?n ?c", OF Matrix_alloc_dims])
    fix iDIP M1
    assume i: "iDIP \<in> set [0..<?c]" and d1: "dims ?n ?c M1"
    let ?dipole = "dipoles ! iDIP"
    let ?domain = "if domain_name = [] then domain_at geo (dipole_position ?dipole)
                   else domain_named geo domain_name"
    have "\<exists>M'. for_each [0..<?n]
                 (\<lambda>iPTS mat.
                    if address (?pd ! iPTS) = address ?domain
                    then Matrix_add mat iPTS iDIP
                           (K / conductivity ?domain * potential ?dipole (?pts ! iPTS))
                    else Some mat) M1 = Some M' \<and> dims ?n ?c M'"
    proof (rule for_each_succeeds [where I = "dims ?n ?c", OF d1])
      fix iPTS M2
      assume j: "iPTS \<in> set [0..<?n]" and d2: "dims ?n ?c M2"
      from i j have "iPTS < ?n" "iDIP < ?c" by simp_all
      from Matrix_add_ok [OF d2 this] d2
      show "\<exists>M'. (if address (?pd ! iPTS) = address ?domain
                   then Matrix_add M2 iPTS iDIP
                          (K / conductivity ?domain * potential ?dipole (?pts ! iPTS))
                   else Some M2) = Some M' \<and> dims ?n ?c M'"
        by simp
    qed
    then show "\<exists>M'. (let dipole = dipoles ! iDIP;
                         domain = (if domain_name = [] then domain_at geo (dipole_position dipole)
                                   else domain_named geo domain_name);
                         coeff = K / conductivity domain
                     in for_each [0..<?n]
                          (\<lambda>iPTS mat.
                             if address (?pd ! iPTS) = address domain
                             then Matrix_add mat iPTS iDIP (coeff * potential dipole (?pts ! iPTS))
                             else Some mat)
                          M1) = Some M' \<and> dims ?n ?c M'"
      by (simp only: Let_def)
  qed
  then obtain mat where "for_each [0..<?c]
                  (\<lambda>iDIP mat.
                     let dipole = dipoles ! iDIP;
                         domain = (if domain_name = [] then domain_at geo (dipole_position dipole)
                                   else domain_named geo domain_name);
                         coeff = K / conductivity domain
                     in for_each [0..<?n]
                          (\<lambda>iPTS mat.
                             if address (?pd ! iPTS) = address domain
                             then Matrix_add mat iPTS iDIP (coeff * potential dipole (?pts ! iPTS))
                             else Some mat)
                          mat)
                  (Matrix_set (Matrix_alloc junk ?n ?c) 0) = Some mat" and d: "dims ?n ?c mat"
    by blast
  then have "DipSource2InternalPotMat junk geo dipoles points domain_name
            = Some (mat, dropped_points geo points)"
    by (simp add: DipSource2InternalPotMat_def DipSource2InternalPotMat_points_eq)
  with d show ?thesis by (auto simp: dims_def)
qed

lemma point_geometry_split:
  "retained_points point_geometry three_points = [(1, 0, 0), (2, 0, 0)]
   \<and> dropped_points point_geometry three_points = [(- 1, 0, 0)]"
  by (simp add: retained_points_def dropped_points_def point_geometry_def three_points_def
      head_domain_def no_domain_def)

lemma head_domain_fits: "domain_fits 4 head_domain"
  by (simp add: domain_fits_def head_domain_def mesh_ABC_def tABC_def vertex_def
      vA_def vB_def vC_def)

section \<open>Point-evaluation matrices: the writes\<close>

lemma run_ops_append:
  "run_ops (xs @ ys) s = Option.bind (run_ops xs s) (run_ops ys)"
proof -
  have "run_ops ys = for_each ys sink_do" by (intro ext) (simp add: run_ops_def)
  then show ?thesis by (simp add: run_ops_def for_each_append)
qed

lemma run_ops_Nil: "run_ops [] s = Some s"
  by (simp add: run_ops_def)

lemma run_ops_single: "run_ops [op] s = sink_do op s"
  by (cases "sink_do op s") (simp_all add: run_ops_def)

lemma Dense_add: "map_option Dense (Matrix_add M i j x) = run_ops [(i, j, Increase x)] (Dense M)"
  by (cases "Matrix_at M i j") (simp_all add: run_ops_single sink_add_def Matrix_add_def)

lemma Dense_assign: "map_option Dense (Matrix_assign M i j x) = run_ops [(i, j, Overwrite x)] (Dense M)"
  by (simp add: run_ops_single)

text \<open>A loop on a dense matrix whose body performs a list of writes performs their concatenation.\<close>

lemma for_each_Dense:
  assumes "\<And>x M. x \<in> set xs \<Longrightarrow> map_option Dense (body x M) = run_ops (ops x) (Dense M)"
  shows "map_option Dense (for_each xs body M) = run_ops (concat (map ops xs)) (Dense M)"
  using assms
proof (induction xs arbitrary: M)
  case Nil
  show ?case by (simp add: run_ops_Nil)
next
  case (Cons x xs)
  have first: "run_ops (ops x) (Dense M) = map_option Dense (body x M)"
    using Cons.prems [of x M] by simp
  show ?case
  proof (cases "body x M")
    case None
    with first show ?thesis by (simp add: run_ops_append)
  next
    case (Some M')
    have "map_option Dense (for_each xs body M') = run_ops (concat (map ops xs)) (Dense M')"
    proof (rule Cons.IH)
      fix y N
      assume "y \<in> set xs"
      then show "map_option Dense (body y N) = run_ops (ops y) (Dense N)"
        using Cons.prems [of y N] by simp
    qed
    with first Some show ?thesis by (simp add: run_ops_append)
  qed
qed

lemma bind_Dense:
  assumes "map_option Dense (f M) = run_ops xs (Dense M)"
    and "\<And>N. map_option Dense (g N) = run_ops ys (Dense N)"
  shows "map_option Dense (Option.bind (f M) g) = run_ops (xs @ ys) (Dense M)"
proof -
  have first: "run_ops xs (Dense M) = map_option Dense (f M)" using assms(1) by simp
  show ?thesis by (cases "f M") (simp_all add: run_ops_append first assms(2))
qed

lemma for_each_Dense_map:
  assumes "\<And>x M. x \<in> set xs \<Longrightarrow> map_option Dense (body x M) = run_ops [op x] (Dense M)"
  shows "map_option Dense (for_each xs body M) = run_ops (map op xs) (Dense M)"
  using for_each_Dense [of xs body "\<lambda>x. [op x]" M] assms by (simp add: concat_map_singleton)

lemma PartialBlock_addD_ops:
  "map_option Dense (PartialBlock_addD an m coeff points M)
     = run_ops (PartialBlock_addD_ops an m coeff points) (Dense M)"
  unfolding PartialBlock_addD_def PartialBlock_addD_ops_def Let_def
  by (intro for_each_Dense for_each_Dense_map) (rule Dense_add)

lemma PartialBlock_S_ops:
  "map_option Dense (PartialBlock_S an m coeff points M)
     = run_ops (PartialBlock_S_ops an m coeff points) (Dense M)"
proof -
  have inner: "map_option Dense
        (for_each points
           (\<lambda>vertex1 matrix. Matrix_assign matrix (v_index vertex1) (t_index triangle)
              (coeff * analyS an triangle (position vertex1))) N)
      = run_ops (map (\<lambda>vertex1. (v_index vertex1, t_index triangle,
                       Overwrite (coeff * analyS an triangle (position vertex1)))) points) (Dense N)"
    for triangle N
    by (intro for_each_Dense_map) (rule Dense_assign)
  show ?thesis
    unfolding PartialBlock_S_def PartialBlock_S_ops_def
    by (intro for_each_Dense) (rule inner)
qed

lemma Surf2VolMat_fill_ops:
  "map_option Dense (Surf2VolMat_fill an m_points M)
     = run_ops (Surf2VolMat_ops an m_points) (Dense M)"
  unfolding Surf2VolMat_fill_def Surf2VolMat_ops_def
proof (rule for_each_Dense)
  fix x :: "Domain \<times> Vertex list" and N
  obtain d pts where x: "x = (d, pts)" by (cases x) auto
  have om: "map_option Dense
        (let m = om_mesh omesh; coeff = real_of_int (mesh_orientation boundary omesh) * K
         in do {
              mat \<leftarrow> PartialBlock_addD an m (- coeff) pts L;
              if \<not> current_barrier m
              then PartialBlock_S an m (coeff / conductivity d) pts mat
              else Some mat
            })
      = run_ops (omesh_ops an d pts boundary omesh) (Dense L)" for boundary omesh L
    unfolding Let_def omesh_ops_def
    by (rule bind_Dense [OF PartialBlock_addD_ops]) (simp add: PartialBlock_S_ops run_ops_Nil)
  show "map_option Dense
        ((case x of
          (domainptr, pts) \<Rightarrow> \<lambda>mat.
            for_each (boundaries domainptr)
              (\<lambda>boundary mat.
                 for_each (oriented_meshes boundary)
                   (\<lambda>omesh mat.
                      let m = om_mesh omesh;
                          coeff = real_of_int (mesh_orientation boundary omesh) * K
                      in do {
                           mat \<leftarrow> PartialBlock_addD an m (- coeff) pts mat;
                           if \<not> current_barrier m
                           then PartialBlock_S an m (coeff / conductivity domainptr) pts mat
                           else Some mat
                         })
                   mat)
              mat) N)
      = run_ops
          (case x of
           (d, pts) \<Rightarrow>
             concat (map (\<lambda>b. concat (map (omesh_ops an d pts b) (oriented_meshes b))) (boundaries d)))
          (Dense N)"
    unfolding x prod.case by (intro for_each_Dense) (rule om)
qed

lemma sink_do_inside: "sink_do (a, b, w) s = Some s' \<Longrightarrow> sink_at s a b \<noteq> None"
proof (cases w)
  case (Increase x)
  assume "sink_do (a, b, w) s = Some s'"
  with Increase show ?thesis by (auto simp: sink_add_def split: Option.bind_splits)
next
  case (Overwrite x)
  assume "sink_do (a, b, w) s = Some s'"
  with Overwrite show ?thesis
    by (cases s)
      (auto simp: SymMatrix_assign_def SymMatrix_at_def Matrix_assign_def Matrix_at_def
        split: if_splits)
qed

text \<open>The content of the entries after a list of writes that has been performed to the end.\<close>

lemma run_ops_performed:
  assumes "sink_wf s" and "run_ops ops s = Some s'"
  shows "\<forall>i j. sink_at s' i j = map_option (cell_after (symmetric_sink s) ops i j) (sink_at s i j)"
proof -
  have "\<forall>(a, b, w) \<in> set ops. sink_at s a b \<noteq> None"
    using assms
  proof (induction ops arbitrary: s)
    case Nil
    show ?case by simp
  next
    case (Cons op ops)
    obtain a b w where op: "op = (a, b, w)" by (cases op) auto
    from Cons.prems(2) op obtain s1 where s1: "sink_do (a, b, w) s = Some s1"
      and rest: "run_ops ops s1 = Some s'"
      by (auto simp: run_ops_def split: Option.bind_splits)
    from sink_do_inside [OF s1] have ab: "sink_at s a b \<noteq> None" .
    from sink_do_cell [OF Cons.prems(1) ab, of w] s1
    have wf1: "sink_wf s1"
      and c1: "\<And>i j. sink_at s1 i j = None \<longleftrightarrow> sink_at s i j = None"
      by auto
    from Cons.IH [OF wf1 rest] c1 ab op show ?case by auto
  qed
  from run_ops_cells [OF assms(1) this] assms(2) show ?thesis by auto
qed

lemma cell_after_append:
  "cell_after symm (xs @ ys) i j y = cell_after symm ys i j (cell_after symm xs i j y)"
  by (induction xs arbitrary: y) auto

lemma cell_after_skip:
  "\<forall>(a, b, w) \<in> set ops. \<not> addresses symm a b i j \<Longrightarrow> cell_after symm ops i j y = y"
  by (induction ops arbitrary: y) auto

lemma cell_after_concat_skip:
  assumes "\<And>x a b w. x \<in> set xs \<Longrightarrow> (a, b, w) \<in> set (f x) \<Longrightarrow> \<not> addresses symm a b i j"
  shows "cell_after symm (concat (map f xs)) i j y = y"
proof (rule cell_after_skip, clarify)
  fix a b w
  assume "(a, b, w) \<in> set (concat (map f xs))"
  then obtain x where "x \<in> set xs" "(a, b, w) \<in> set (f x)" by auto
  then have "\<not> addresses symm a b i j" by (rule assms)
  moreover assume "addresses symm a b i j"
  ultimately show False by simp
qed

lemma cell_after_concat_upt:
  assumes "x0 < n"
    and "\<And>x a b w. x < n \<Longrightarrow> x \<noteq> x0 \<Longrightarrow> (a, b, w) \<in> set (f x) \<Longrightarrow> \<not> addresses symm a b i j"
  shows "cell_after symm (concat (map f [0..<n])) i j y = cell_after symm (f x0) i j y"
proof -
  have "[0..<n] = [0..<x0] @ [x0..<n]"
    using assms(1) upt_add_eq_append [of 0 x0 "n - x0"] by simp
  moreover have "[x0..<n] = x0 # [Suc x0..<n]"
    using assms(1) by (simp add: upt_conv_Cons)
  ultimately have split: "[0..<n] = [0..<x0] @ x0 # [Suc x0..<n]" by simp
  have before: "cell_after symm (concat (map f [0..<x0])) i j z = z" for z
  proof (rule cell_after_concat_skip)
    fix x a b w
    assume "x \<in> set [0..<x0]" and m: "(a, b, w) \<in> set (f x)"
    with assms(1) have "x < n" "x \<noteq> x0" by simp_all
    from assms(2) [OF this m] show "\<not> addresses symm a b i j" .
  qed
  have after: "cell_after symm (concat (map f [Suc x0..<n])) i j z = z" for z
  proof (rule cell_after_concat_skip)
    fix x a b w
    assume "x \<in> set [Suc x0..<n]" and m: "(a, b, w) \<in> set (f x)"
    then have "x < n" "x \<noteq> x0" by simp_all
    from assms(2) [OF this m] show "\<not> addresses symm a b i j" .
  qed
  have "cell_after symm (concat (map f [0..<n])) i j y
      = cell_after symm (concat (map f ([0..<x0] @ x0 # [Suc x0..<n]))) i j y"
    by (simp only: split [symmetric])
  also have "\<dots> = cell_after symm (f x0) i j y"
    by (simp only: map_append list.map concat_append concat.simps cell_after_append before after)
  finally show ?thesis .
qed
lemma DipSource2InternalPotMat_loop_ops:
  "map_option Dense
     (for_each [0..<length dipoles]
        (\<lambda>iDIP mat.
           let dipole = dipoles ! iDIP;
               domain = (if domain_name = [] then domain_at geo (dipole_position dipole)
                         else domain_named geo domain_name);
               coeff = K / conductivity domain
           in for_each [0..<length pts]
                (\<lambda>iPTS mat.
                   if address (points_domain ! iPTS) = address domain
                   then Matrix_add mat iPTS iDIP (coeff * potential dipole (pts ! iPTS))
                   else Some mat)
                mat)
        M)
   = run_ops (DipSource2InternalPotMat_ops geo domain_name dipoles points_domain pts) (Dense M)"
  unfolding DipSource2InternalPotMat_ops_def dipole_domain_def Let_def
  by (intro for_each_Dense) (simp add: Dense_add run_ops_Nil)

lemma DipSource2InternalPotMat_ops_cell:
  assumes c: "c < length dipoles" and k: "k < length pts"
  shows "cell_after False (DipSource2InternalPotMat_ops geo dn dipoles pd pts) k c y
     = (if address (pd ! k) = address (dipole_domain geo dn (dipoles ! c))
        then y + K / conductivity (dipole_domain geo dn (dipoles ! c))
                 * potential (dipoles ! c) (pts ! k)
        else y)"
proof -
  let ?inner = "\<lambda>iDIP iPTS.
      if address (pd ! iPTS) = address (dipole_domain geo dn (dipoles ! iDIP))
      then [(iPTS, iDIP,
             Increase (K / conductivity (dipole_domain geo dn (dipoles ! iDIP))
                       * potential (dipoles ! iDIP) (pts ! iPTS)))]
      else []"
  let ?outer = "\<lambda>iDIP. concat (map (?inner iDIP) [0..<length pts])"
  have "cell_after False (concat (map ?outer [0..<length dipoles])) k c y
      = cell_after False (?outer c) k c y"
  proof (rule cell_after_concat_upt [OF c])
    fix x a b w
    assume "x \<noteq> c" and "(a, b, w) \<in> set (?outer x)"
    then show "\<not> addresses False a b k c"
      by (auto simp: addresses_def split: if_splits)
  qed
  also have "\<dots> = cell_after False (?inner c k) k c y"
  proof (rule cell_after_concat_upt [OF k])
    fix x a b w
    assume "x \<noteq> k" and "(a, b, w) \<in> set (?inner c x)"
    then show "\<not> addresses False a b k c"
      by (auto simp: addresses_def split: if_splits)
  qed
  also have "\<dots> = (if address (pd ! k) = address (dipole_domain geo dn (dipoles ! c))
        then y + K / conductivity (dipole_domain geo dn (dipoles ! c))
                 * potential (dipoles ! c) (pts ! k)
        else y)"
    by (simp add: addresses_def)
  finally show ?thesis by (simp only: DipSource2InternalPotMat_ops_def)
qed


lemma Matrix_zero_at:
  "i < n \<Longrightarrow> j < c \<Longrightarrow> Matrix_at (Matrix_set (Matrix_alloc junk n c) 0) i j = Some 0"
  by (simp add: Matrix_at_def Matrix_set_def Matrix_alloc_def)

lemma Surf2VolMat_cells:
  assumes "\<forall>p\<in>set (retained_points geo points).
             domain_fits (nb_parameters geo - nb_current_barrier_triangles geo) (domain_at geo p)"
  shows "\<exists>mat m_points.
           Surf2VolMat junk an geo points = Some (mat, dropped_points geo points)
         \<and> m_nlin mat = length (retained_points geo points)
         \<and> m_ncol mat = nb_parameters geo - nb_current_barrier_triangles geo
         \<and> Surf2VolMat_points geo points =
             (m_points, length (retained_points geo points), dropped_points geo points)
         \<and> set (concat (map snd m_points)) = set (numbered 0 (retained_points geo points))
         \<and> length (concat (map snd m_points)) = length (retained_points geo points)
         \<and> (\<forall>k c. k < length (retained_points geo points)
                \<longrightarrow> c < nb_parameters geo - nb_current_barrier_triangles geo
                \<longrightarrow> Matrix_at mat k c = Some (cell_after False (Surf2VolMat_ops an m_points) k c 0))"
proof -
  let ?c = "nb_parameters geo - nb_current_barrier_triangles geo"
  let ?n = "length (retained_points geo points)"
  let ?M0 = "Matrix_set (Matrix_alloc junk ?n ?c) 0"
  obtain mp k w where pts: "Surf2VolMat_points geo points = (mp, k, w)"
    by (cases "Surf2VolMat_points geo points") auto
  then have "foldl (Surf2VolMat_step geo) ([], 0, []) points = (mp, k, w)"
    by (simp add: Surf2VolMat_points_eq)
  from Surf2VolMat_points_fold [OF this]
  have k: "k = ?n" and w: "w = dropped_points geo points"
    and vs: "set (concat (map snd mp)) = set (numbered 0 (retained_points geo points))"
    and len: "length (concat (map snd mp)) = ?n"
    by simp_all
  from Surf2VolMat_result [OF assms, of junk an] obtain mat where
    S: "Surf2VolMat junk an geo points = Some (mat, dropped_points geo points)"
    and rows: "m_nlin mat = ?n" and cols: "m_ncol mat = ?c"
    by blast
  from S pts k have fill: "Surf2VolMat_fill an mp ?M0 = Some mat"
    by (auto simp: Surf2VolMat_def)
  have run: "run_ops (Surf2VolMat_ops an mp) (Dense ?M0) = Some (Dense mat)"
    using Surf2VolMat_fill_ops [of an mp ?M0] fill by simp
  have wf: "sink_wf (Dense ?M0)" by simp
  from run_ops_performed [OF wf run]
  have cells: "\<And>i j. Matrix_at mat i j
      = map_option (cell_after False (Surf2VolMat_ops an mp) i j) (Matrix_at ?M0 i j)"
    by simp
  have "Matrix_at mat i j = Some (cell_after False (Surf2VolMat_ops an mp) i j 0)"
    if "i < ?n" "j < ?c" for i j
    using cells [of i j] Matrix_zero_at [OF that, of junk] by simp
  with S rows cols pts k w vs len show ?thesis by blast
qed

lemma DipSource2InternalPotMat_cells:
  "\<exists>mat. DipSource2InternalPotMat junk geo dipoles points domain_name
            = Some (mat, dropped_points geo points)
         \<and> m_nlin mat = length (retained_points geo points)
         \<and> m_ncol mat = length dipoles
         \<and> (\<forall>k c. k < length (retained_points geo points) \<longrightarrow> c < length dipoles
                \<longrightarrow> Matrix_at mat k c =
                    Some (if address (domain_at geo (retained_points geo points ! k))
                             = address (dipole_domain geo domain_name (dipoles ! c))
                          then K / conductivity (dipole_domain geo domain_name (dipoles ! c))
                               * potential (dipoles ! c) (retained_points geo points ! k)
                          else 0))"
proof -
  let ?pts = "retained_points geo points"
  let ?pd = "map (domain_at geo) ?pts"
  let ?n = "length ?pts" and ?c = "length dipoles"
  let ?M0 = "Matrix_set (Matrix_alloc junk ?n ?c) 0"
  let ?ops = "DipSource2InternalPotMat_ops geo domain_name dipoles ?pd ?pts"
  from DipSource2InternalPotMat_result [of junk geo dipoles points domain_name] obtain mat where
    D: "DipSource2InternalPotMat junk geo dipoles points domain_name
          = Some (mat, dropped_points geo points)"
    and rows: "m_nlin mat = ?n" and cols: "m_ncol mat = ?c"
    by blast
  from D have "map_option Dense
     (for_each [0..<length dipoles]
        (\<lambda>iDIP mat.
           let dipole = dipoles ! iDIP;
               domain = (if domain_name = [] then domain_at geo (dipole_position dipole)
                         else domain_named geo domain_name);
               coeff = K / conductivity domain
           in for_each [0..<length ?pts]
                (\<lambda>iPTS mat.
                   if address (?pd ! iPTS) = address domain
                   then Matrix_add mat iPTS iDIP (coeff * potential dipole (?pts ! iPTS))
                   else Some mat)
                mat)
        ?M0) = Some (Dense mat)"
    by (auto simp: DipSource2InternalPotMat_def DipSource2InternalPotMat_points_eq)
  then have run: "run_ops ?ops (Dense ?M0) = Some (Dense mat)"
    by (simp only: DipSource2InternalPotMat_loop_ops)
  have wf: "sink_wf (Dense ?M0)" by simp
  from run_ops_performed [OF wf run]
  have cells: "\<And>i j. Matrix_at mat i j = map_option (cell_after False ?ops i j) (Matrix_at ?M0 i j)"
    by simp
  have "Matrix_at mat k c =
      Some (if address (domain_at geo (?pts ! k)) = address (dipole_domain geo domain_name (dipoles ! c))
            then K / conductivity (dipole_domain geo domain_name (dipoles ! c))
                 * potential (dipoles ! c) (?pts ! k)
            else 0)"
    if kc: "k < ?n" "c < ?c" for k c
  proof -
    have "Matrix_at mat k c = Some (cell_after False ?ops k c 0)"
      using cells [of k c] Matrix_zero_at [OF kc, of junk] by simp
    also have "cell_after False ?ops k c 0 =
        (if address (?pd ! k) = address (dipole_domain geo domain_name (dipoles ! c))
         then 0 + K / conductivity (dipole_domain geo domain_name (dipoles ! c))
                  * potential (dipoles ! c) (?pts ! k)
         else 0)"
      by (rule DipSource2InternalPotMat_ops_cell [OF kc(2,1)])
    finally show ?thesis using kc(1) by simp
  qed
  with D rows cols show ?thesis by blast
qed


text \<open>
  Claim C9. An input point lying in a domain of conductivity zero makes neither builder
  fail. \<open>DipSource2InternalPotMat\<close> always returns, and \<open>Surf2VolMat\<close> returns whenever
  the domains of the retained points address columns of the matrix. Both report exactly
  the points of zero conductivity, in the order of the input, and the matrix returned
  has one row for each retained point and none for a dropped one.

  The retained points are processed. \<open>Surf2VolMat\<close> files them, numbered from 0 in the
  order of the input, under their domains, and every entry of its matrix holds what the
  writes of its second loop for these points (\<open>Surf2VolMat_ops\<close>: the increases of
  \<open>addD\<close> and the overwrites of \<open>S\<close>, for every oriented mesh of every boundary of the
  domain of each point) leave in it, from the content 0. In the matrix of
  \<open>DipSource2InternalPotMat\<close> the entry of the retained point \<open>k\<close> and the dipole \<open>c\<close>
  is \<open>K / conductivity \<cdot> potential\<close> of the dipole at the point when the point lies in
  the domain of the dipole, and 0 otherwise.
\<close>

theorem C9_points_outside_conductor_dropped:
  assumes "\<forall>p\<in>set (retained_points geo points).
             domain_fits (nb_parameters geo - nb_current_barrier_triangles geo) (domain_at geo p)"
  shows "(\<exists>mat m_points.
            Surf2VolMat junk an geo points = Some (mat, dropped_points geo points)
          \<and> m_nlin mat = length (retained_points geo points)
          \<and> m_ncol mat = nb_parameters geo - nb_current_barrier_triangles geo
          \<and> Surf2VolMat_points geo points =
              (m_points, length (retained_points geo points), dropped_points geo points)
          \<and> set (concat (map snd m_points)) = set (numbered 0 (retained_points geo points))
          \<and> length (concat (map snd m_points)) = length (retained_points geo points)
          \<and> (\<forall>k c. k < length (retained_points geo points)
                 \<longrightarrow> c < nb_parameters geo - nb_current_barrier_triangles geo
                 \<longrightarrow> Matrix_at mat k c
                       = Some (cell_after False (Surf2VolMat_ops an m_points) k c 0)))
       \<and> (\<exists>mat. DipSource2InternalPotMat junk geo dipoles points domain_name
                   = Some (mat, dropped_points geo points)
            \<and> m_nlin mat = length (retained_points geo points)
            \<and> m_ncol mat = length dipoles
            \<and> (\<forall>k c. k < length (retained_points geo points) \<longrightarrow> c < length dipoles
                   \<longrightarrow> Matrix_at mat k c =
                       Some (if address (domain_at geo (retained_points geo points ! k))
                                = address (dipole_domain geo domain_name (dipoles ! c))
                             then K / conductivity (dipole_domain geo domain_name (dipoles ! c))
                                  * potential (dipoles ! c) (retained_points geo points ! k)
                             else 0)))
       \<and> DipSource2InternalPotMat_points geo points =
           (map (domain_at geo) (retained_points geo points),
            retained_points geo points, dropped_points geo points)
       \<and> retained_points geo points = filter (\<lambda>p. conductivity (domain_at geo p) \<noteq> 0) points
       \<and> dropped_points geo points = filter (\<lambda>p. conductivity (domain_at geo p) = 0) points
       \<and> length (retained_points geo points) + length (dropped_points geo points) = length points"
proof -
  have r: "retained_points geo points = filter (\<lambda>p. conductivity (domain_at geo p) \<noteq> 0) points"
    and d: "dropped_points geo points = filter (\<lambda>p. conductivity (domain_at geo p) = 0) points"
    by (simp_all add: retained_points_def dropped_points_def)
  from Surf2VolMat_cells [OF assms, of junk an]
    DipSource2InternalPotMat_cells [of junk geo dipoles points domain_name]
    DipSource2InternalPotMat_points_eq [of geo points] r d split_points [of geo points]
  show ?thesis by (intro conjI)
qed

lemma Surf2VolMat_points_example:
  "Surf2VolMat_points point_geometry three_points =
     ([(head_domain, [\<lparr>position = (1, 0, 0), v_index = 0\<rparr>, \<lparr>position = (2, 0, 0), v_index = 1\<rparr>])],
      2, [(- 1, 0, 0)])"
  by (simp add: Surf2VolMat_points_def point_geometry_def three_points_def head_domain_def
      no_domain_def)

lemma Surf2VolMat_ops_example:
  "cell_after False (Surf2VolMat_ops unit_analytics
       [(head_domain, [\<lparr>position = (1, 0, 0), v_index = 0\<rparr>, \<lparr>position = (2, 0, 0), v_index = 1\<rparr>])])
     0 0 0 = - K"
  "cell_after False (Surf2VolMat_ops unit_analytics
       [(head_domain, [\<lparr>position = (1, 0, 0), v_index = 0\<rparr>, \<lparr>position = (2, 0, 0), v_index = 1\<rparr>])])
     0 1 0 = - K"
  "cell_after False (Surf2VolMat_ops unit_analytics
       [(head_domain, [\<lparr>position = (1, 0, 0), v_index = 0\<rparr>, \<lparr>position = (2, 0, 0), v_index = 1\<rparr>])])
     0 2 0 = - K"
  "cell_after False (Surf2VolMat_ops unit_analytics
       [(head_domain, [\<lparr>position = (1, 0, 0), v_index = 0\<rparr>, \<lparr>position = (2, 0, 0), v_index = 1\<rparr>])])
     0 3 0 = K / 2"
  "cell_after False (Surf2VolMat_ops unit_analytics
       [(head_domain, [\<lparr>position = (1, 0, 0), v_index = 0\<rparr>, \<lparr>position = (2, 0, 0), v_index = 1\<rparr>])])
     1 0 0 = - K"
  "cell_after False (Surf2VolMat_ops unit_analytics
       [(head_domain, [\<lparr>position = (1, 0, 0), v_index = 0\<rparr>, \<lparr>position = (2, 0, 0), v_index = 1\<rparr>])])
     1 3 0 = K / 2"
  by (simp_all add: Surf2VolMat_ops_def omesh_ops_def PartialBlock_addD_ops_def
      PartialBlock_S_ops_def head_domain_def mesh_defs vertex_def coord_def unit_analytics_def
      addresses_def upt_rec)

theorem C9_points_outside_conductor_dropped_witness:
  "retained_points point_geometry three_points = [(1, 0, 0), (2, 0, 0)]
   \<and> domain_fits (nb_parameters point_geometry - nb_current_barrier_triangles point_geometry)
        head_domain
   \<and> (\<exists>mat. Surf2VolMat (\<lambda>k. 7) unit_analytics point_geometry three_points
               = Some (mat, [(- 1, 0, 0)])
          \<and> m_nlin mat = 2 \<and> m_ncol mat = 4
          \<and> Matrix_at mat 0 0 = Some (- K) \<and> Matrix_at mat 0 1 = Some (- K)
          \<and> Matrix_at mat 0 2 = Some (- K) \<and> Matrix_at mat 0 3 = Some (K / 2)
          \<and> Matrix_at mat 1 0 = Some (- K) \<and> Matrix_at mat 1 3 = Some (K / 2))
   \<and> (\<exists>mat. DipSource2InternalPotMat (\<lambda>k. 7) point_geometry [unit_dipole] three_points []
               = Some (mat, [(- 1, 0, 0)])
          \<and> m_nlin mat = 2 \<and> m_ncol mat = 1
          \<and> Matrix_at mat 0 0 = Some (K / 2) \<and> Matrix_at mat 1 0 = Some (K / 2))"
proof -
  let ?mp = "[(head_domain, [\<lparr>position = (1, 0, 0), v_index = 0\<rparr>, \<lparr>position = (2, 0, 0), v_index = 1\<rparr>])]"
  have c: "nb_parameters point_geometry - nb_current_barrier_triangles point_geometry = 4"
    by (simp add: point_geometry_def)
  have ret: "retained_points point_geometry three_points = [(1, 0, 0), (2, 0, 0)]"
    and drop: "dropped_points point_geometry three_points = [(- 1, 0, 0)]"
    using point_geometry_split by simp_all
  have n: "length (retained_points point_geometry three_points) = 2" by (simp add: ret)
  have dom: "domain_at point_geometry p = head_domain"
    if "p \<in> set (retained_points point_geometry three_points)" for p
    using that by (auto simp: point_geometry_split) (simp_all add: point_geometry_def)
  have h: "\<forall>p\<in>set (retained_points point_geometry three_points).
             domain_fits (nb_parameters point_geometry - nb_current_barrier_triangles point_geometry)
               (domain_at point_geometry p)"
    using dom head_domain_fits by (simp add: c)
  note t = C9_points_outside_conductor_dropped [OF h, of "\<lambda>k. 7" unit_analytics "[unit_dipole]" "[]"]
  from t [THEN conjunct1] obtain mat mp where
    S: "Surf2VolMat (\<lambda>k. 7) unit_analytics point_geometry three_points
          = Some (mat, dropped_points point_geometry three_points)"
    and rows: "m_nlin mat = length (retained_points point_geometry three_points)"
    and cols: "m_ncol mat = nb_parameters point_geometry - nb_current_barrier_triangles point_geometry"
    and mp: "Surf2VolMat_points point_geometry three_points =
        (mp, length (retained_points point_geometry three_points),
         dropped_points point_geometry three_points)"
    and cells: "\<And>k c. k < length (retained_points point_geometry three_points)
        \<Longrightarrow> c < nb_parameters point_geometry - nb_current_barrier_triangles point_geometry
        \<Longrightarrow> Matrix_at mat k c = Some (cell_after False (Surf2VolMat_ops unit_analytics mp) k c 0)"
    by blast
  from mp have mp': "mp = ?mp" by (simp add: Surf2VolMat_points_example)
  note cells' = cells [unfolded n c mp']
  have cell: "Matrix_at mat k c' = Some v"
    if "k < 2" and "c' < 4"
      and "cell_after False (Surf2VolMat_ops unit_analytics ?mp) k c' 0 = v" for k c' v
    using cells' [OF that(1,2)] that(3) by (simp only:)
  have sv: "Matrix_at mat 0 0 = Some (- K)" "Matrix_at mat 0 1 = Some (- K)"
    "Matrix_at mat 0 2 = Some (- K)" "Matrix_at mat 0 3 = Some (K / 2)"
    "Matrix_at mat 1 0 = Some (- K)" "Matrix_at mat 1 3 = Some (K / 2)"
    by (rule cell, simp, simp, rule Surf2VolMat_ops_example)+
  from t [THEN conjunct2, THEN conjunct1] obtain dmat where
    D: "DipSource2InternalPotMat (\<lambda>k. 7) point_geometry [unit_dipole] three_points []
          = Some (dmat, dropped_points point_geometry three_points)"
    and drows: "m_nlin dmat = length (retained_points point_geometry three_points)"
    and dcols: "m_ncol dmat = length [unit_dipole]"
    and dcells: "\<And>k c. k < length (retained_points point_geometry three_points)
        \<Longrightarrow> c < length [unit_dipole]
        \<Longrightarrow> Matrix_at dmat k c =
            Some (if address (domain_at point_geometry (retained_points point_geometry three_points ! k))
                     = address (dipole_domain point_geometry [] ([unit_dipole] ! c))
                  then K / conductivity (dipole_domain point_geometry [] ([unit_dipole] ! c))
                       * potential ([unit_dipole] ! c) (retained_points point_geometry three_points ! k)
                  else 0)"
    by blast
  have dv: "Matrix_at dmat 0 0 = Some (K / 2)" "Matrix_at dmat 1 0 = Some (K / 2)"
    using dcells [unfolded n ret, of 0 0] dcells [unfolded n ret, of 1 0]
    by (simp_all add: dipole_domain_def unit_dipole_def point_geometry_def head_domain_def
        no_domain_def)
  have e1: "\<exists>mat. Surf2VolMat (\<lambda>k. 7) unit_analytics point_geometry three_points
               = Some (mat, [(- 1, 0, 0)])
          \<and> m_nlin mat = 2 \<and> m_ncol mat = 4
          \<and> Matrix_at mat 0 0 = Some (- K) \<and> Matrix_at mat 0 1 = Some (- K)
          \<and> Matrix_at mat 0 2 = Some (- K) \<and> Matrix_at mat 0 3 = Some (K / 2)
          \<and> Matrix_at mat 1 0 = Some (- K) \<and> Matrix_at mat 1 3 = Some (K / 2)"
    using S rows cols sv unfolding drop n c by blast
  have e2: "\<exists>mat. DipSource2InternalPotMat (\<lambda>k. 7) point_geometry [unit_dipole] three_points []
               = Some (mat, [(- 1, 0, 0)])
          \<and> m_nlin mat = 2 \<and> m_ncol mat = 1
          \<and> Matrix_at mat 0 0 = Some (K / 2) \<and> Matrix_at mat 1 0 = Some (K / 2)"
    using D drows dcols dv unfolding drop n by auto
  have f: "domain_fits (nb_parameters point_geometry - nb_current_barrier_triangles point_geometry)
        head_domain"
    using head_domain_fits by (simp add: c)
  from ret f e1 e2 show ?thesis by (intro conjI)
qed

end
